theory Spec2Isabelle
  imports Complex_Main "HOL-Library.Char_ord" "HOL-Library.List_Lexorder"
    "HOL-Library.Product_Lexorder"
begin

section \<open>JavaScript values\<close>

text \<open>
  The values the entity managers of Express-Jobly handle: the filter and update objects a
  caller passes in, the parameters bound to a statement, and the rows that come back.
  Numbers are the integers (employee counts, salaries, ids); an object is the list of its
  own properties in insertion order.
\<close>

datatype jsval = JUndefined | JNull | JBool bool | JNum int | JStr string
  | JArr "jsval list" | JObj "(string \<times> jsval) list"

type_synonym jsobj = "(string \<times> jsval) list"

text \<open>The three failures a call can end in: the two kinds this layer raises itself, and
  whatever \<open>db.query\<close> raises, which every operation lets through unchanged.\<close>

datatype error = BadRequestError string | NotFoundError string | StoreError string

fun is_BadRequest :: "error \<Rightarrow> bool" where
  "is_BadRequest (BadRequestError m) = True"
| "is_BadRequest e = False"

fun is_NotFound :: "error \<Rightarrow> bool" where
  "is_NotFound (NotFoundError m) = True"
| "is_NotFound e = False"

text \<open>Reading a property (\<open>o.k\<close>, or destructuring): \<open>undefined\<close> when the object has
  no such property.\<close>

definition get_prop :: "jsobj \<Rightarrow> string \<Rightarrow> jsval" where
  "get_prop obj k = (case map_of obj k of None \<Rightarrow> JUndefined | Some v \<Rightarrow> v)"

text \<open>Assignment \<open>o.k = v\<close>: an existing property keeps its place, a new one goes last.\<close>

fun set_prop :: "jsobj \<Rightarrow> string \<Rightarrow> jsval \<Rightarrow> jsobj" where
  "set_prop [] k v = [(k, v)]"
| "set_prop ((k', v') # kvs) k v =
     (if k' = k then (k, v) # kvs else (k', v') # set_prop kvs k v)"

text \<open>\<open>delete o.k\<close>.\<close>

definition delete_prop :: "jsobj \<Rightarrow> string \<Rightarrow> jsobj" where
  "delete_prop obj k = filter (\<lambda>kv. fst kv \<noteq> k) obj"

subsection \<open>Conversion to string\<close>

definition digit_char :: "nat \<Rightarrow> char" where
  "digit_char d = ''0123456789'' ! d"

fun string_of_nat :: "nat \<Rightarrow> string" where
  "string_of_nat n =
     (if n < 10 then [digit_char n] else string_of_nat (n div 10) @ [digit_char (n mod 10)])"

declare string_of_nat.simps [simp del]

definition string_of_int :: "int \<Rightarrow> string" where
  "string_of_int i =
     (if i < 0 then CHR ''-'' # string_of_nat (nat (- i)) else string_of_nat (nat i))"

text \<open>\<open>Array.prototype.join\<close> on an array of strings.\<close>

fun js_join :: "string \<Rightarrow> string list \<Rightarrow> string" where
  "js_join sep [] = []"
| "js_join sep [x] = x"
| "js_join sep (x # y # ys) = x @ sep @ js_join sep (y # ys)"

text \<open>What a template literal \<open>${v}\<close> inserts for a value.\<close>

fun js_to_string :: "jsval \<Rightarrow> string" where
  "js_to_string JUndefined = ''undefined''"
| "js_to_string JNull = ''null''"
| "js_to_string (JBool b) = (if b then ''true'' else ''false'')"
| "js_to_string (JNum n) = string_of_int n"
| "js_to_string (JStr s) = s"
| "js_to_string (JArr xs) =
     js_join '','' (map (\<lambda>x. if x = JUndefined \<or> x = JNull then [] else js_to_string x) xs)"
| "js_to_string (JObj kvs) = ''[object Object]''"

subsection \<open>Truthiness and the relational comparison\<close>

text \<open>What \<open>if (v)\<close> tests.\<close>

fun js_truthy :: "jsval \<Rightarrow> bool" where
  "js_truthy JUndefined = False"
| "js_truthy JNull = False"
| "js_truthy (JBool b) = b"
| "js_truthy (JNum n) = (n \<noteq> 0)"
| "js_truthy (JStr s) = (s \<noteq> [])"
| "js_truthy (JArr xs) = True"
| "js_truthy (JObj kvs) = True"

text \<open>
  \<open>a > b\<close> converts both operands to primitives; two strings are compared by their code
  units, anything else as numbers, and a comparison with \<open>NaN\<close> is false. The numeric
  value of a string is the runtime's business (\<open>StringToNumber\<close>): the model takes it as
  a parameter \<open>S\<close>, so that no result below depends on how a string reads as a number.
\<close>

datatype number = NaN | NegInfinity | Finite rat | PosInfinity

fun number_lt :: "number \<Rightarrow> number \<Rightarrow> bool" where
  "number_lt NaN y = False"
| "number_lt x NaN = False"
| "number_lt PosInfinity y = False"
| "number_lt x NegInfinity = False"
| "number_lt NegInfinity y = True"
| "number_lt x PosInfinity = True"
| "number_lt (Finite x) (Finite y) = (x < y)"

fun to_primitive :: "jsval \<Rightarrow> jsval" where
  "to_primitive (JArr xs) = JStr (js_to_string (JArr xs))"
| "to_primitive (JObj kvs) = JStr (js_to_string (JObj kvs))"
| "to_primitive v = v"

fun to_number :: "(string \<Rightarrow> number) \<Rightarrow> jsval \<Rightarrow> number" where
  "to_number S JUndefined = NaN"
| "to_number S JNull = Finite 0"
| "to_number S (JBool b) = Finite (if b then 1 else 0)"
| "to_number S (JNum n) = Finite (of_int n)"
| "to_number S (JStr s) = S s"
| "to_number S v = NaN"

definition js_gt :: "(string \<Rightarrow> number) \<Rightarrow> jsval \<Rightarrow> jsval \<Rightarrow> bool" where
  "js_gt S a b =
     (case (to_primitive a, to_primitive b) of
        (JStr x, JStr y) \<Rightarrow> y < x
      | (pa, pb) \<Rightarrow> number_lt (to_number S pb) (to_number S pa))"

section \<open>The store\<close>

text \<open>
  The managers hand every statement to \<open>db.query(sqlText, params)\<close> and get rows back.
  The store itself is the database behind that call. To say which rows a statement
  returns, it is modelled here as far as this layer uses it: two tables, and a reader
  for the statement forms the managers issue (SELECT with an optional LEFT JOIN, WHERE
  and ORDER BY; INSERT, UPDATE and DELETE with RETURNING). A statement is tokenised,
  parsed, checked against the tables and the bound parameters, and then run.
\<close>

subsection \<open>Tables\<close>

text \<open>A NUMERIC value is a decimal: its digits as an integer, and how many of them
  follow the point (\<open>0.1\<close> is \<open>Numeric 1 1\<close>).\<close>

datatype numeric = Numeric int nat

datatype coltype = TyInt | TyText | TyNumeric

datatype sqlval = SNull | SInt int | SText string | SNum numeric

text \<open>
  Modelled from the spec: the table declarations (the schema file is not among the
  sources). Section 3 gives a company a unique handle, a name, a description, a nullable
  integer employee count and a nullable logo URL; a job a generated integer id, a title,
  a nullable integer salary, a nullable decimal equity in the range 0 to 1, and the
  handle of the company that owns it.
\<close>

record company =
  c_handle :: string
  c_name :: string
  c_description :: string
  c_num_employees :: "int option"
  c_logo_url :: "string option"

record job =
  j_id :: int
  j_title :: string
  j_salary :: "int option"
  j_equity :: "numeric option"
  j_company_handle :: string

text \<open>The database: the two tables, the sequence the job ids are drawn from, and the
  statements issued so far with their parameters (what \<open>db.query\<close> was called
  with), oldest first.\<close>

record database =
  companies :: "company list"
  jobs :: "job list"
  jobs_id_seq :: int
  issued :: "(string \<times> jsval list) list"

text \<open>The columns of a table, in order: name, type, and whether NULL is allowed.\<close>

definition table_columns :: "string \<Rightarrow> (string \<times> coltype \<times> bool) list option" where
  "table_columns t =
     (if t = ''companies'' then
        Some [(''handle'', TyText, False), (''name'', TyText, False),
              (''description'', TyText, False), (''num_employees'', TyInt, True),
              (''logo_url'', TyText, True)]
      else if t = ''jobs'' then
        Some [(''id'', TyInt, False), (''title'', TyText, False), (''salary'', TyInt, True),
              (''equity'', TyNumeric, True), (''company_handle'', TyText, False)]
      else None)"

definition opt_cell :: "('a \<Rightarrow> sqlval) \<Rightarrow> 'a option \<Rightarrow> sqlval" where
  "opt_cell f x = (case x of None \<Rightarrow> SNull | Some v \<Rightarrow> f v)"

definition company_cells :: "company \<Rightarrow> sqlval list" where
  "company_cells c =
     [SText (c_handle c), SText (c_name c), SText (c_description c),
      opt_cell SInt (c_num_employees c), opt_cell SText (c_logo_url c)]"

definition job_cells :: "job \<Rightarrow> sqlval list" where
  "job_cells j =
     [SInt (j_id j), SText (j_title j), opt_cell SInt (j_salary j),
      opt_cell SNum (j_equity j), SText (j_company_handle j)]"

definition table_rows :: "database \<Rightarrow> string \<Rightarrow> sqlval list list" where
  "table_rows db t =
     (if t = ''companies'' then map company_cells (companies db)
      else if t = ''jobs'' then map job_cells (jobs db)
      else [])"

subsection \<open>Tokens\<close>

datatype token = TWord string | TQuoted string | TParam nat | TNumber nat | TSym string

definition is_space :: "char \<Rightarrow> bool" where
  "is_space c = (c = CHR '' '' \<or> c = CHR ''\<newline>'')"

definition is_digit :: "char \<Rightarrow> bool" where
  "is_digit c = (CHR ''0'' \<le> c \<and> c \<le> CHR ''9'')"

definition is_word_char :: "char \<Rightarrow> bool" where
  "is_word_char c =
     ((CHR ''a'' \<le> c \<and> c \<le> CHR ''z'') \<or> (CHR ''A'' \<le> c \<and> c \<le> CHR ''Z'')
      \<or> is_digit c \<or> c = CHR ''_'' \<or> c = CHR ''.'')"

definition digit_val :: "char \<Rightarrow> nat" where
  "digit_val c = of_char c - 48"

definition nat_of_digits :: "string \<Rightarrow> nat" where
  "nat_of_digits ds = foldl (\<lambda>n c. 10 * n + digit_val c) 0 ds"

text \<open>
  A word is a keyword or a name, possibly qualified (\<open>j.id\<close>); a double-quoted name is
  kept as written; \<open>$n\<close> is a positional parameter. A character that starts none of
  the tokens, or a quote that is never closed, is a syntax error (\<open>None\<close>).
\<close>

function tokenize :: "string \<Rightarrow> token list option" where
  "tokenize [] = Some []"
| "tokenize (c # cs) =
    (if is_space c then tokenize cs
     else if c = CHR 0x22 then
       (case dropWhile (\<lambda>x. x \<noteq> CHR 0x22) cs of
          [] \<Rightarrow> None
        | q # rest \<Rightarrow>
            map_option ((#) (TQuoted (takeWhile (\<lambda>x. x \<noteq> CHR 0x22) cs))) (tokenize rest))
     else if c = CHR ''$'' then
       (if takeWhile is_digit cs = [] then None
        else map_option ((#) (TParam (nat_of_digits (takeWhile is_digit cs))))
               (tokenize (dropWhile is_digit cs)))
     else if is_digit c then
       map_option ((#) (TNumber (nat_of_digits (c # takeWhile is_digit cs))))
         (tokenize (dropWhile is_digit cs))
     else if is_word_char c then
       map_option ((#) (TWord (c # takeWhile is_word_char cs)))
         (tokenize (dropWhile is_word_char cs))
     else if (c = CHR ''>'' \<or> c = CHR ''<'') \<and> take 1 cs = ''='' then
       map_option ((#) (TSym [c, CHR ''=''])) (tokenize (drop 1 cs))
     else if c \<in> set ''(),=<>'' then map_option ((#) (TSym [c])) (tokenize cs)
     else None)"
  by pat_completeness auto
termination
proof (relation "measure length", goal_cases)
  case (3 c cs q rest)
  have "length (dropWhile (\<lambda>x. x \<noteq> CHR 0x22) cs) \<le> length cs"
    by (rule length_dropWhile_le)
  with 3 show ?case by simp
qed (auto simp: less_Suc_eq_le length_dropWhile_le)

declare tokenize.simps [simp del]

subsection \<open>Statements\<close>

text \<open>The right-hand side of a comparison or an assignment: a column, a positional
  parameter or an integer literal.\<close>

datatype operand = Col string | Param nat | Lit int

text \<open>A comparison \<open>column op operand\<close>; the operators are \<open>=\<close>, \<open>>=\<close>, \<open><=\<close>,
  \<open>>\<close>, \<open><\<close> and \<open>ILIKE\<close>.\<close>

datatype cond = Cond string string operand

text \<open>\<open>LEFT JOIN table alias ON column = column\<close>.\<close>

datatype join = LeftJoin string string string string

text \<open>
  An output item is a column and the name it is returned under. The statements:
  \<open>Select items table alias join where order\<close>, \<open>Insert table columns values returning\<close>,
  \<open>Update table assignments where returning\<close>, \<open>Delete table where returning\<close>.
\<close>

datatype stmt =
    Select "(string \<times> string) list" string string "join option" "cond list" "string option"
  | Insert string "string list" "operand list" "(string \<times> string) list"
  | Update string "(string \<times> operand) list" "cond list" "(string \<times> string) list"
  | Delete string "cond list" "(string \<times> string) list"

fun split_on :: "'a \<Rightarrow> 'a list \<Rightarrow> 'a list list" where
  "split_on sep [] = [[]]"
| "split_on sep (x # xs) =
     (if x = sep then [] # split_on sep xs
      else (case split_on sep xs of [] \<Rightarrow> [[x]] | y # ys \<Rightarrow> (x # y) # ys))"

text \<open>The tokens before the first occurrence of a keyword, and those after it.\<close>

definition before_kw :: "string \<Rightarrow> token list \<Rightarrow> token list" where
  "before_kw kw ts = takeWhile (\<lambda>t. t \<noteq> TWord kw) ts"

definition after_kw :: "string \<Rightarrow> token list \<Rightarrow> token list" where
  "after_kw kw ts = drop 1 (dropWhile (\<lambda>t. t \<noteq> TWord kw) ts)"

definition has_kw :: "string \<Rightarrow> token list \<Rightarrow> bool" where
  "has_kw kw ts = (TWord kw \<in> set ts)"

text \<open>The name a column is returned under when the item has no \<open>AS\<close>: the column's
  own name, without its qualifier.\<close>

definition base_name :: "string \<Rightarrow> string" where
  "base_name c = rev (takeWhile (\<lambda>x. x \<noteq> CHR ''.'') (rev c))"

definition qualifier :: "string \<Rightarrow> string option" where
  "qualifier c =
     (if CHR ''.'' \<in> set c then Some (rev (drop 1 (dropWhile (\<lambda>x. x \<noteq> CHR ''.'') (rev c))))
      else None)"

definition parse_item :: "token list \<Rightarrow> (string \<times> string) option" where
  "parse_item ts =
     (case ts of
        [TWord c] \<Rightarrow> Some (c, base_name c)
      | [TWord c, TWord k, TQuoted a] \<Rightarrow> if k = ''AS'' then Some (c, a) else None
      | _ \<Rightarrow> None)"

definition parse_items :: "token list \<Rightarrow> (string \<times> string) list option" where
  "parse_items ts = those (map parse_item (split_on (TSym '','') ts))"

definition parse_operand :: "token \<Rightarrow> operand option" where
  "parse_operand t =
     (case t of TWord c \<Rightarrow> Some (Col c) | TParam n \<Rightarrow> Some (Param n)
      | TNumber n \<Rightarrow> Some (Lit (int n)) | _ \<Rightarrow> None)"

definition parse_op :: "token \<Rightarrow> string option" where
  "parse_op t =
     (case t of
        TSym s \<Rightarrow> if s \<in> set [''='', ''>='', ''<='', ''>'', ''<''] then Some s else None
      | TWord w \<Rightarrow> if w = ''ILIKE'' then Some w else None
      | _ \<Rightarrow> None)"

definition parse_cond :: "token list \<Rightarrow> cond option" where
  "parse_cond ts =
     (case ts of
        [TWord c, o_tok, r_tok] \<Rightarrow>
          (case (parse_op o_tok, parse_operand r_tok) of
             (Some op, Some r) \<Rightarrow> Some (Cond c op r)
           | _ \<Rightarrow> None)
      | _ \<Rightarrow> None)"

definition parse_conds :: "token list \<Rightarrow> cond list option" where
  "parse_conds ts = those (map parse_cond (split_on (TWord ''AND'') ts))"

text \<open>An optional \<open>WHERE\<close> clause in front of what is left of a statement.\<close>

definition parse_where :: "token list \<Rightarrow> cond list option" where
  "parse_where ts =
     (if has_kw ''WHERE'' ts then
        (if before_kw ''WHERE'' ts = [] then parse_conds (after_kw ''WHERE'' ts) else None)
      else if ts = [] then Some [] else None)"

definition parse_assignment :: "token list \<Rightarrow> (string \<times> operand) option" where
  "parse_assignment ts =
     (case ts of
        [TQuoted c, TSym e, r_tok] \<Rightarrow>
          if e = ''='' then map_option (Pair c) (parse_operand r_tok) else None
      | [TWord c, TSym e, r_tok] \<Rightarrow>
          if e = ''='' then map_option (Pair c) (parse_operand r_tok) else None
      | _ \<Rightarrow> None)"

definition parse_name :: "token \<Rightarrow> string option" where
  "parse_name t = (case t of TWord c \<Rightarrow> Some c | TQuoted c \<Rightarrow> Some c | _ \<Rightarrow> None)"

definition parse_source :: "token list \<Rightarrow> (string \<times> string \<times> join option) option" where
  "parse_source ts =
     (case ts of
        [TWord t] \<Rightarrow> Some (t, t, None)
      | [TWord t, TWord a] \<Rightarrow> Some (t, a, None)
      | [TWord t, TWord a, TWord k1, TWord k2, TWord t2, TWord a2, TWord k3, TWord l,
         TSym e, TWord r] \<Rightarrow>
          if k1 = ''LEFT'' \<and> k2 = ''JOIN'' \<and> k3 = ''ON'' \<and> e = ''=''
          then Some (t, a, Some (LeftJoin t2 a2 l r)) else None
      | _ \<Rightarrow> None)"

definition parse_order :: "token list \<Rightarrow> string option option" where
  "parse_order ts =
     (case ts of
        [] \<Rightarrow> Some None
      | [TWord k1, TWord k2, TWord c] \<Rightarrow>
          if k1 = ''ORDER'' \<and> k2 = ''BY'' then Some (Some c) else None
      | _ \<Rightarrow> None)"

text \<open>\<open>SELECT items FROM source [WHERE conds] [ORDER BY column]\<close>.\<close>

definition parse_select :: "token list \<Rightarrow> stmt option" where
  "parse_select ts =
     (let body = after_kw ''FROM'' ts;
          ordered = dropWhile (\<lambda>t. t \<noteq> TWord ''ORDER'') body;
          filtered = dropWhile (\<lambda>t. t \<noteq> TWord ''WHERE'') (before_kw ''ORDER'' body)
      in if \<not> has_kw ''FROM'' ts then None
         else case (parse_items (before_kw ''FROM'' ts),
                    parse_source (before_kw ''WHERE'' (before_kw ''ORDER'' body)),
                    parse_where filtered, parse_order ordered) of
                (Some items, Some (t, a, j), Some conds, Some ord) \<Rightarrow>
                  Some (Select items t a j conds ord)
              | _ \<Rightarrow> None)"

text \<open>\<open>INSERT INTO table (columns) VALUES (operands) RETURNING items\<close>.\<close>

definition parse_insert :: "token list \<Rightarrow> stmt option" where
  "parse_insert ts =
     (case ts of
        TWord k # TWord t # TSym l # rest \<Rightarrow>
          (let cols = takeWhile (\<lambda>x. x \<noteq> TSym '')'') rest;
               rest2 = drop 1 (dropWhile (\<lambda>x. x \<noteq> TSym '')'') rest)
           in case rest2 of
                TWord v # TSym l2 # rest3 \<Rightarrow>
                  (let vals = takeWhile (\<lambda>x. x \<noteq> TSym '')'') rest3;
                       rest4 = drop 1 (dropWhile (\<lambda>x. x \<noteq> TSym '')'') rest3)
                   in if k = ''INTO'' \<and> l = ''('' \<and> v = ''VALUES'' \<and> l2 = ''(''
                         \<and> take 1 rest4 = [TWord ''RETURNING'']
                      then (case (those (map (\<lambda>c. case c of [x] \<Rightarrow> parse_name x | _ \<Rightarrow> None)
                                           (split_on (TSym '','') cols)),
                                  those (map (\<lambda>c. case c of [x] \<Rightarrow> parse_operand x | _ \<Rightarrow> None)
                                           (split_on (TSym '','') vals)),
                                  parse_items (drop 1 rest4)) of
                              (Some cs, Some vs, Some items) \<Rightarrow> Some (Insert t cs vs items)
                            | _ \<Rightarrow> None)
                      else None)
              | _ \<Rightarrow> None)
      | _ \<Rightarrow> None)"

text \<open>\<open>UPDATE table SET assignments WHERE conds RETURNING items\<close>.\<close>

definition parse_update :: "token list \<Rightarrow> stmt option" where
  "parse_update ts =
     (case ts of
        TWord t # TWord k # rest \<Rightarrow>
          if k = ''SET'' \<and> has_kw ''RETURNING'' rest then
            (case (those (map parse_assignment
                            (split_on (TSym '','')
                               (before_kw ''WHERE'' (before_kw ''RETURNING'' rest)))),
                   parse_where (dropWhile (\<lambda>t. t \<noteq> TWord ''WHERE'')
                                  (before_kw ''RETURNING'' rest)),
                   parse_items (after_kw ''RETURNING'' rest)) of
               (Some sets, Some conds, Some items) \<Rightarrow> Some (Update t sets conds items)
             | _ \<Rightarrow> None)
          else None
      | _ \<Rightarrow> None)"

text \<open>\<open>DELETE FROM table [WHERE conds] RETURNING items\<close>.\<close>

definition parse_delete :: "token list \<Rightarrow> stmt option" where
  "parse_delete ts =
     (case ts of
        TWord k # TWord t # rest \<Rightarrow>
          if k = ''FROM'' \<and> has_kw ''RETURNING'' rest then
            (case (parse_where (before_kw ''RETURNING'' rest),
                   parse_items (after_kw ''RETURNING'' rest)) of
               (Some conds, Some items) \<Rightarrow> Some (Delete t conds items)
             | _ \<Rightarrow> None)
          else None
      | _ \<Rightarrow> None)"

definition parse_stmt :: "token list \<Rightarrow> stmt option" where
  "parse_stmt ts =
     (case ts of
        TWord k # rest \<Rightarrow>
          if k = ''SELECT'' then parse_select rest
          else if k = ''INSERT'' then parse_insert rest
          else if k = ''UPDATE'' then parse_update rest
          else if k = ''DELETE'' then parse_delete rest
          else None
      | _ \<Rightarrow> None)"

definition parse_sql :: "string \<Rightarrow> stmt option" where
  "parse_sql sql = (case tokenize sql of None \<Rightarrow> None | Some ts \<Rightarrow> parse_stmt ts)"

subsection \<open>Checking a statement against the tables and the parameters\<close>

text \<open>The columns a statement can name: qualifier (the table's alias), name, type.\<close>

definition scope_of :: "string \<Rightarrow> string \<Rightarrow> (string \<times> string \<times> coltype) list option" where
  "scope_of t a = map_option (map (\<lambda>col. (a, fst col, fst (snd col)))) (table_columns t)"

fun matching :: "(string \<times> string \<times> coltype) list \<Rightarrow> string \<Rightarrow> nat \<Rightarrow> nat list" where
  "matching [] c i = []"
| "matching ((q, n, ty) # rest) c i =
     (if n = base_name c \<and> (qualifier c = None \<or> qualifier c = Some q)
      then i # matching rest c (Suc i) else matching rest c (Suc i))"

text \<open>The position of the one column a reference names.\<close>

definition resolve :: "(string \<times> string \<times> coltype) list \<Rightarrow> string \<Rightarrow> error + nat" where
  "resolve scope c =
     (case matching scope c 0 of
        [] \<Rightarrow> Inl (StoreError ''column does not exist'')
      | [i] \<Rightarrow> Inr i
      | _ \<Rightarrow> Inl (StoreError ''column reference is ambiguous''))"

definition col_type :: "(string \<times> string \<times> coltype) list \<Rightarrow> nat \<Rightarrow> coltype" where
  "col_type scope i = snd (snd (scope ! i))"

definition parse_int :: "string \<Rightarrow> int option" where
  "parse_int s =
     (let ds = (if take 1 s = ''-'' \<or> take 1 s = ''+'' then drop 1 s else s)
      in if ds = [] \<or> \<not> list_all is_digit ds then None
         else Some (if take 1 s = ''-'' then - int (nat_of_digits ds) else int (nat_of_digits ds)))"

definition parse_numeric :: "string \<Rightarrow> numeric option" where
  "parse_numeric s =
     (let ds = (if take 1 s = ''-'' \<or> take 1 s = ''+'' then drop 1 s else s);
          ip = takeWhile (\<lambda>c. c \<noteq> CHR ''.'') ds;
          fp = drop 1 (dropWhile (\<lambda>c. c \<noteq> CHR ''.'') ds)
      in if ip @ fp = [] \<or> \<not> list_all is_digit (ip @ fp) then None
         else Some (Numeric (if take 1 s = ''-'' then - int (nat_of_digits (ip @ fp))
                             else int (nat_of_digits (ip @ fp))) (length fp)))"

text \<open>
  A bound parameter becomes a value of the type of the column it meets. \<open>undefined\<close>
  and \<open>null\<close> are sent as NULL. A number or a string that reads as the column's type is
  accepted; what does not is refused, as the store refuses it. Arrays and objects are
  never bound by the callers this layer has and are refused as well.
\<close>

fun bind_value :: "coltype \<Rightarrow> jsval \<Rightarrow> error + sqlval" where
  "bind_value ty JUndefined = Inr SNull"
| "bind_value ty JNull = Inr SNull"
| "bind_value TyInt (JNum n) = Inr (SInt n)"
| "bind_value TyInt (JStr s) =
     (case parse_int s of
        None \<Rightarrow> Inl (StoreError ''invalid input syntax for type integer'')
      | Some n \<Rightarrow> Inr (SInt n))"
| "bind_value TyText (JStr s) = Inr (SText s)"
| "bind_value TyText (JNum n) = Inr (SText (string_of_int n))"
| "bind_value TyText (JBool b) = Inr (SText (if b then ''true'' else ''false''))"
| "bind_value TyNumeric (JNum n) = Inr (SNum (Numeric n 0))"
| "bind_value TyNumeric (JStr s) =
     (case parse_numeric s of
        None \<Rightarrow> Inl (StoreError ''invalid input syntax for type numeric'')
      | Some d \<Rightarrow> Inr (SNum d))"
| "bind_value ty v = Inl (StoreError ''invalid input for the parameter type'')"

definition bind_param :: "coltype \<Rightarrow> jsval list \<Rightarrow> nat \<Rightarrow> error + sqlval" where
  "bind_param ty params n =
     (if 1 \<le> n \<and> n \<le> length params then bind_value ty (params ! (n - 1))
      else Inl (StoreError ''there is no such parameter''))"

text \<open>A LIKE pattern must not end in the middle of an escape.\<close>

fun dangling_escape :: "string \<Rightarrow> bool" where
  "dangling_escape [] = False"
| "dangling_escape [c] = (c = CHR 0x5C)"
| "dangling_escape (c # d # cs) = (if c = CHR 0x5C then dangling_escape cs else dangling_escape (d # cs))"

text \<open>A checked comparison: the position of its column, the operator, and the value or
  the second column it is compared with.\<close>

datatype gcond = GCmp nat string sqlval | GCols nat string nat

definition analyze_cond ::
  "(string \<times> string \<times> coltype) list \<Rightarrow> jsval list \<Rightarrow> cond \<Rightarrow> error + gcond" where
  "analyze_cond scope params cnd =
     (case cnd of Cond c op rhs \<Rightarrow>
        (case resolve scope c of
           Inl e \<Rightarrow> Inl e
         | Inr i \<Rightarrow>
             if op = ''ILIKE'' \<and> col_type scope i \<noteq> TyText
             then Inl (StoreError ''operator does not exist'')
             else (case rhs of
                     Param n \<Rightarrow>
                       (case bind_param (col_type scope i) params n of
                          Inl e \<Rightarrow> Inl e
                        | Inr v \<Rightarrow>
                            if op = ''ILIKE'' \<and> (case v of SText p \<Rightarrow> dangling_escape p | _ \<Rightarrow> False)
                            then Inl (StoreError ''LIKE pattern must not end with escape character'')
                            else Inr (GCmp i op v))
                   | Lit k \<Rightarrow>
                       (case col_type scope i of
                          TyInt \<Rightarrow> Inr (GCmp i op (SInt k))
                        | TyNumeric \<Rightarrow> Inr (GCmp i op (SNum (Numeric k 0)))
                        | TyText \<Rightarrow> Inl (StoreError ''operator does not exist''))
                   | Col c2 \<Rightarrow>
                       (case resolve scope c2 of
                          Inl e \<Rightarrow> Inl e
                        | Inr j \<Rightarrow>
                            if col_type scope j = col_type scope i then Inr (GCols i op j)
                            else Inl (StoreError ''operator does not exist'')))))"

fun collect :: "(error + 'a) list \<Rightarrow> error + 'a list" where
  "collect [] = Inr []"
| "collect (Inl e # xs) = Inl e"
| "collect (Inr x # xs) = (case collect xs of Inl e \<Rightarrow> Inl e | Inr ys \<Rightarrow> Inr (x # ys))"

definition analyze_items ::
  "(string \<times> string \<times> coltype) list \<Rightarrow> (string \<times> string) list \<Rightarrow> error + (nat \<times> string) list" where
  "analyze_items scope items =
     collect (map (\<lambda>item. case resolve scope (fst item) of
                             Inl e \<Rightarrow> Inl e | Inr i \<Rightarrow> Inr (i, snd item)) items)"

definition analyze_order ::
  "(string \<times> string \<times> coltype) list \<Rightarrow> string option \<Rightarrow> error + nat option" where
  "analyze_order scope ord =
     (case ord of
        None \<Rightarrow> Inr None
      | Some c \<Rightarrow> (case resolve scope c of Inl e \<Rightarrow> Inl e | Inr i \<Rightarrow> Inr (Some i)))"

text \<open>The parameters a statement refers to. The store wants exactly \<open>$1\<close> to \<open>$n\<close>
  for the \<open>n\<close> values it is given.\<close>

fun operand_params :: "operand \<Rightarrow> nat list" where
  "operand_params (Param n) = [n]"
| "operand_params x = []"

fun cond_params :: "cond \<Rightarrow> nat list" where
  "cond_params (Cond c op rhs) = operand_params rhs"

fun stmt_params :: "stmt \<Rightarrow> nat list" where
  "stmt_params (Select items t a j conds ord) = concat (map cond_params conds)"
| "stmt_params (Insert t cols vals items) = concat (map operand_params vals)"
| "stmt_params (Update t sets conds items) =
     concat (map (\<lambda>s. operand_params (snd s)) sets) @ concat (map cond_params conds)"
| "stmt_params (Delete t conds items) = concat (map cond_params conds)"

definition params_fit :: "stmt \<Rightarrow> nat \<Rightarrow> bool" where
  "params_fit st n =
     (list_all (\<lambda>k. 1 \<le> k \<and> k \<le> n) (stmt_params st)
      \<and> list_all (\<lambda>k. k \<in> set (stmt_params st)) [1..<Suc n])"

subsection \<open>Running a checked statement\<close>

definition numeric_rat :: "numeric \<Rightarrow> rat" where
  "numeric_rat d = (case d of Numeric u s \<Rightarrow> of_int u / 10 ^ s)"

fun sql_num :: "sqlval \<Rightarrow> rat option" where
  "sql_num (SInt n) = Some (of_int n)"
| "sql_num (SNum d) = Some (numeric_rat d)"
| "sql_num v = None"

definition compare_op :: "string \<Rightarrow> 'a::linorder \<Rightarrow> 'a \<Rightarrow> bool" where
  "compare_op op x y =
     (if op = ''='' then x = y
      else if op = ''>='' then y \<le> x
      else if op = ''<='' then x \<le> y
      else if op = ''>'' then y < x
      else if op = ''<'' then x < y
      else False)"

definition to_lower :: "char \<Rightarrow> char" where
  "to_lower c = (if CHR ''A'' \<le> c \<and> c \<le> CHR ''Z'' then char_of (of_char c + (32::nat)) else c)"

text \<open>LIKE: \<open>%\<close> stands for any run of characters, \<open>_\<close> for any one character, and a
  backslash takes the next character of the pattern as it is.\<close>

fun like_match :: "string \<Rightarrow> string \<Rightarrow> bool" where
  "like_match [] t = (t = [])"
| "like_match (p # ps) t =
     (if p = CHR ''%'' then
        (like_match ps t \<or> (case t of [] \<Rightarrow> False | c # t' \<Rightarrow> like_match (p # ps) t'))
      else if p = CHR 0x5C then
        (case ps of
           [] \<Rightarrow> False
         | e # ps' \<Rightarrow> (case t of [] \<Rightarrow> False | c # t' \<Rightarrow> c = e \<and> like_match ps' t'))
      else (case t of [] \<Rightarrow> False | c # t' \<Rightarrow> (p = CHR ''_'' \<or> p = c) \<and> like_match ps t'))"

text \<open>
  A comparison with NULL is not true. Text is compared byte by byte (the C collation);
  ILIKE compares without regard to the case of the ASCII letters.
\<close>

fun sql_holds :: "string \<Rightarrow> sqlval \<Rightarrow> sqlval \<Rightarrow> bool" where
  "sql_holds op (SText x) (SText y) =
     (if op = ''ILIKE'' then like_match (map to_lower y) (map to_lower x)
      else compare_op op x y)"
| "sql_holds op v w =
     (case (sql_num v, sql_num w) of
        (Some x, Some y) \<Rightarrow> compare_op op x y
      | _ \<Rightarrow> False)"

fun holds :: "sqlval list \<Rightarrow> gcond \<Rightarrow> bool" where
  "holds row (GCmp i op w) = sql_holds op (row ! i) w"
| "holds row (GCols i op j) = sql_holds op (row ! i) (row ! j)"

definition satisfies :: "gcond list \<Rightarrow> sqlval list \<Rightarrow> bool" where
  "satisfies gs row = list_all (holds row) gs"

text \<open>A NUMERIC value as the driver hands it back: its decimal text.\<close>

definition numeric_text :: "numeric \<Rightarrow> string" where
  "numeric_text d =
     (case d of Numeric u s \<Rightarrow>
        (let ds = string_of_nat (nat \<bar>u\<bar>);
             padded = replicate (Suc s - length ds) (CHR ''0'') @ ds
         in (if u < 0 then ''-'' else []) @ take (length padded - s) padded
            @ (if s = 0 then [] else CHR ''.'' # drop (length padded - s) padded)))"

fun to_js :: "sqlval \<Rightarrow> jsval" where
  "to_js SNull = JNull"
| "to_js (SInt n) = JNum n"
| "to_js (SText s) = JStr s"
| "to_js (SNum d) = JStr (numeric_text d)"

text \<open>A returned row is an object with one property per output item.\<close>

definition project :: "(nat \<times> string) list \<Rightarrow> sqlval list \<Rightarrow> jsobj" where
  "project outs row = foldl (\<lambda>obj out. set_prop obj (snd out) (to_js (row ! fst out))) [] outs"

text \<open>ORDER BY is ascending, with NULL last.\<close>

fun sort_rank :: "sqlval \<Rightarrow> nat \<times> rat \<times> string" where
  "sort_rank SNull = (1, 0, [])"
| "sort_rank (SInt n) = (0, of_int n, [])"
| "sort_rank (SNum d) = (0, numeric_rat d, [])"
| "sort_rank (SText s) = (0, 0, s)"

definition order_rows :: "nat option \<Rightarrow> sqlval list list \<Rightarrow> sqlval list list" where
  "order_rows ord rows =
     (case ord of None \<Rightarrow> rows | Some i \<Rightarrow> sort_key (\<lambda>row. sort_rank (row ! i)) rows)"

text \<open>A left join keeps every row of the left table: with each right row the condition
  holds for, or with NULLs when there is none.\<close>

definition left_join ::
  "sqlval list list \<Rightarrow> sqlval list list \<Rightarrow> nat \<Rightarrow> gcond \<Rightarrow> sqlval list list" where
  "left_join rows rows2 width g =
     concat (map (\<lambda>row. if filter (\<lambda>r2. holds (row @ r2) g) rows2 = []
                         then [row @ replicate width SNull]
                         else map ((@) row) (filter (\<lambda>r2. holds (row @ r2) g) rows2)) rows)"

definition select_source ::
  "database \<Rightarrow> string \<Rightarrow> string \<Rightarrow> join option
     \<Rightarrow> error + ((string \<times> string \<times> coltype) list \<times> sqlval list list)" where
  "select_source db t a j =
     (case scope_of t a of
        None \<Rightarrow> Inl (StoreError ''relation does not exist'')
      | Some sc \<Rightarrow>
          (case j of
             None \<Rightarrow> Inr (sc, table_rows db t)
           | Some (LeftJoin t2 a2 l r) \<Rightarrow>
               (case scope_of t2 a2 of
                  None \<Rightarrow> Inl (StoreError ''relation does not exist'')
                | Some sc2 \<Rightarrow>
                    (case analyze_cond (sc @ sc2) [] (Cond l ''='' (Col r)) of
                       Inl e \<Rightarrow> Inl e
                     | Inr g \<Rightarrow>
                         Inr (sc @ sc2,
                              left_join (table_rows db t) (table_rows db t2) (length sc2) g)))))"

definition exec_select ::
  "database \<Rightarrow> (string \<times> string) list \<Rightarrow> string \<Rightarrow> string \<Rightarrow> join option \<Rightarrow> cond list
     \<Rightarrow> string option \<Rightarrow> jsval list \<Rightarrow> error + jsobj list" where
  "exec_select db items t a j conds ord params =
     (case select_source db t a j of
        Inl e \<Rightarrow> Inl e
      | Inr (scope, rows) \<Rightarrow>
          (case collect (map (analyze_cond scope params) conds) of
             Inl e \<Rightarrow> Inl e
           | Inr gs \<Rightarrow>
               (case analyze_items scope items of
                  Inl e \<Rightarrow> Inl e
                | Inr outs \<Rightarrow>
                    (case analyze_order scope ord of
                       Inl e \<Rightarrow> Inl e
                     | Inr oi \<Rightarrow>
                         Inr (map (project outs) (order_rows oi (filter (satisfies gs) rows)))))))"

subsection \<open>Statements that change a table\<close>

fun cell_text :: "sqlval \<Rightarrow> string option option" where
  "cell_text SNull = Some None"
| "cell_text (SText s) = Some (Some s)"
| "cell_text v = None"

fun cell_int :: "sqlval \<Rightarrow> int option option" where
  "cell_int SNull = Some None"
| "cell_int (SInt n) = Some (Some n)"
| "cell_int v = None"

fun cell_numeric :: "sqlval \<Rightarrow> numeric option option" where
  "cell_numeric SNull = Some None"
| "cell_numeric (SNum d) = Some (Some d)"
| "cell_numeric v = None"

text \<open>A row of cells as a row of its table: \<open>None\<close> when a column that must not be NULL
  is NULL, or (for a job) when the equity is outside the range 0 to 1.\<close>

definition company_of_cells :: "sqlval list \<Rightarrow> company option" where
  "company_of_cells cells =
     (case cells of
        [SText h, SText n, SText d, ne, lu] \<Rightarrow>
          (case (cell_int ne, cell_text lu) of
             (Some e, Some l) \<Rightarrow>
               Some \<lparr>c_handle = h, c_name = n, c_description = d, c_num_employees = e,
                     c_logo_url = l\<rparr>
           | _ \<Rightarrow> None)
      | _ \<Rightarrow> None)"

definition equity_in_range :: "numeric option \<Rightarrow> bool" where
  "equity_in_range q =
     (case q of None \<Rightarrow> True | Some d \<Rightarrow> 0 \<le> numeric_rat d \<and> numeric_rat d \<le> 1)"

definition job_of_cells :: "sqlval list \<Rightarrow> job option" where
  "job_of_cells cells =
     (case cells of
        [SInt i, SText t, sa, eq, SText h] \<Rightarrow>
          (case (cell_int sa, cell_numeric eq) of
             (Some s, Some q) \<Rightarrow>
               if equity_in_range q
               then Some \<lparr>j_id = i, j_title = t, j_salary = s, j_equity = q,
                          j_company_handle = h\<rparr>
               else None
           | _ \<Rightarrow> None)
      | _ \<Rightarrow> None)"

text \<open>The keys: handles and job ids are unique, and every job belongs to a company
  that exists. A statement that would break them is refused.\<close>

definition consistent :: "database \<Rightarrow> bool" where
  "consistent db =
     (distinct (map c_handle (companies db)) \<and> distinct (map j_id (jobs db))
      \<and> list_all (\<lambda>j. j_company_handle j \<in> set (map c_handle (companies db))) (jobs db))"

definition breaks_keys :: "database \<Rightarrow> database \<Rightarrow> bool" where
  "breaks_keys db db' = (consistent db \<and> \<not> consistent db')"

fun column_index :: "(string \<times> coltype \<times> bool) list \<Rightarrow> string \<Rightarrow> nat \<Rightarrow> nat option" where
  "column_index [] c i = None"
| "column_index (col # cols) c i = (if fst col = c then Some i else column_index cols c (Suc i))"

text \<open>An assignment \<open>"column"=$n\<close>: the position of the column and the value bound.\<close>

definition analyze_set ::
  "(string \<times> coltype \<times> bool) list \<Rightarrow> jsval list \<Rightarrow> string \<times> operand \<Rightarrow> error + (nat \<times> sqlval)" where
  "analyze_set cols params a =
     (case column_index cols (fst a) 0 of
        None \<Rightarrow> Inl (StoreError ''column does not exist'')
      | Some i \<Rightarrow>
          (case (case snd a of
                   Param n \<Rightarrow> bind_param (fst (snd (cols ! i))) params n
                 | Lit k \<Rightarrow> bind_value (fst (snd (cols ! i))) (JNum k)
                 | Col c \<Rightarrow> Inl (StoreError ''not a value'')) of
             Inl e \<Rightarrow> Inl e
           | Inr v \<Rightarrow> Inr (i, v)))"

definition apply_sets :: "(nat \<times> sqlval) list \<Rightarrow> sqlval list \<Rightarrow> sqlval list" where
  "apply_sets assigns cells = fold (\<lambda>a cs. cs[fst a := snd a]) assigns cells"

text \<open>UPDATE: the rows the condition holds for get the assignments; they are returned
  as they are afterwards. When no row matches nothing changes and nothing is returned.\<close>

definition update_rows ::
  "('r \<Rightarrow> sqlval list) \<Rightarrow> (sqlval list \<Rightarrow> 'r option) \<Rightarrow> gcond list \<Rightarrow> (nat \<times> sqlval) list
     \<Rightarrow> 'r list \<Rightarrow> 'r list option" where
  "update_rows cells of_cells gs assigns rows =
     those (map (\<lambda>r. if satisfies gs (cells r) then of_cells (apply_sets assigns (cells r))
                      else Some r) rows)"

definition exec_update ::
  "database \<Rightarrow> string \<Rightarrow> (string \<times> operand) list \<Rightarrow> cond list \<Rightarrow> (string \<times> string) list
     \<Rightarrow> jsval list \<Rightarrow> (error + jsobj list) \<times> database" where
  "exec_update db t sets conds items params =
     (case (table_columns t, scope_of t t) of
        (Some cols, Some scope) \<Rightarrow>
          (case collect (map (analyze_set cols params) sets) of
             Inl e \<Rightarrow> (Inl e, db)
           | Inr assigns \<Rightarrow>
               (case collect (map (analyze_cond scope params) conds) of
                  Inl e \<Rightarrow> (Inl e, db)
                | Inr gs \<Rightarrow>
                    (case analyze_items scope items of
                       Inl e \<Rightarrow> (Inl e, db)
                     | Inr outs \<Rightarrow>
                         if \<not> distinct (map fst assigns)
                         then (Inl (StoreError ''multiple assignments to same column''), db)
                         else
                           (case (if t = ''companies''
                                  then map_option (\<lambda>cs. db\<lparr>companies := cs\<rparr>)
                                         (update_rows company_cells company_of_cells gs assigns
                                            (companies db))
                                  else map_option (\<lambda>js. db\<lparr>jobs := js\<rparr>)
                                         (update_rows job_cells job_of_cells gs assigns (jobs db))) of
                              None \<Rightarrow> (Inl (StoreError ''violates a constraint of the column''), db)
                            | Some db' \<Rightarrow>
                                if breaks_keys db db'
                                then (Inl (StoreError ''violates a key constraint''), db)
                                else (Inr (map (\<lambda>row. project outs (apply_sets assigns row))
                                             (filter (satisfies gs) (table_rows db t))), db')))))
      | _ \<Rightarrow> (Inl (StoreError ''relation does not exist''), db))"

text \<open>DELETE: the rows the condition holds for go, and are returned as they were. The
  jobs of a deleted company go with it.\<close>

definition exec_delete ::
  "database \<Rightarrow> string \<Rightarrow> cond list \<Rightarrow> (string \<times> string) list \<Rightarrow> jsval list
     \<Rightarrow> (error + jsobj list) \<times> database" where
  "exec_delete db t conds items params =
     (case scope_of t t of
        None \<Rightarrow> (Inl (StoreError ''relation does not exist''), db)
      | Some scope \<Rightarrow>
          (case collect (map (analyze_cond scope params) conds) of
             Inl e \<Rightarrow> (Inl e, db)
           | Inr gs \<Rightarrow>
               (case analyze_items scope items of
                  Inl e \<Rightarrow> (Inl e, db)
                | Inr outs \<Rightarrow>
                    (Inr (map (project outs) (filter (satisfies gs) (table_rows db t))),
                     if t = ''companies'' then
                       db\<lparr>companies := filter (\<lambda>c. \<not> satisfies gs (company_cells c)) (companies db),
                          jobs := filter (\<lambda>j. j_company_handle j \<notin>
                                    set (map c_handle (filter (\<lambda>c. satisfies gs (company_cells c))
                                                         (companies db)))) (jobs db)\<rparr>
                     else db\<lparr>jobs := filter (\<lambda>j. \<not> satisfies gs (job_cells j)) (jobs db)\<rparr>))))"

text \<open>INSERT: a column that is not listed gets its default, which is the next value of
  the sequence for a job's id and NULL otherwise. A value drawn from the sequence is
  used up even when the row is then refused.\<close>

definition insert_cell ::
  "database \<Rightarrow> string \<Rightarrow> string list \<Rightarrow> operand list \<Rightarrow> jsval list \<Rightarrow> string \<times> coltype \<times> bool
     \<Rightarrow> error + sqlval" where
  "insert_cell db t cols vals params col =
     (case map_of (zip cols vals) (fst col) of
        None \<Rightarrow> if t = ''jobs'' \<and> fst col = ''id'' then Inr (SInt (jobs_id_seq db + 1))
                else Inr SNull
      | Some (Param n) \<Rightarrow> bind_param (fst (snd col)) params n
      | Some (Lit k) \<Rightarrow> bind_value (fst (snd col)) (JNum k)
      | Some (Col c) \<Rightarrow> Inl (StoreError ''not a value''))"

definition exec_insert ::
  "database \<Rightarrow> string \<Rightarrow> string list \<Rightarrow> operand list \<Rightarrow> (string \<times> string) list \<Rightarrow> jsval list
     \<Rightarrow> (error + jsobj list) \<times> database" where
  "exec_insert db t cols vals items params =
     (case (table_columns t, scope_of t t) of
        (Some tcols, Some scope) \<Rightarrow>
          if length cols \<noteq> length vals \<or> \<not> distinct cols
             \<or> \<not> list_all (\<lambda>c. c \<in> set (map fst tcols)) cols
          then (Inl (StoreError ''the column list does not fit the table''), db)
          else
            (case collect (map (insert_cell db t cols vals params) tcols) of
               Inl e \<Rightarrow> (Inl e, db)
             | Inr cells \<Rightarrow>
                 (case analyze_items scope items of
                    Inl e \<Rightarrow> (Inl e, db)
                  | Inr outs \<Rightarrow>
                      (let db1 = (if t = ''jobs'' \<and> ''id'' \<notin> set cols
                                  then db\<lparr>jobs_id_seq := jobs_id_seq db + 1\<rparr> else db)
                       in case (if t = ''companies''
                                then map_option (\<lambda>c. db1\<lparr>companies := companies db1 @ [c]\<rparr>)
                                       (company_of_cells cells)
                                else map_option (\<lambda>j. db1\<lparr>jobs := jobs db1 @ [j]\<rparr>)
                                       (job_of_cells cells)) of
                            None \<Rightarrow> (Inl (StoreError ''violates a constraint of the column''), db1)
                          | Some db' \<Rightarrow>
                              if breaks_keys db1 db'
                              then (Inl (StoreError ''violates a key constraint''), db1)
                              else (Inr [project outs cells], db'))))
      | _ \<Rightarrow> (Inl (StoreError ''relation does not exist''), db))"

subsection \<open>db.query\<close>

definition exec :: "database \<Rightarrow> stmt \<Rightarrow> jsval list \<Rightarrow> (error + jsobj list) \<times> database" where
  "exec db st params =
     (case st of
        Select items t a j conds ord \<Rightarrow> (exec_select db items t a j conds ord params, db)
      | Insert t cols vals items \<Rightarrow> exec_insert db t cols vals items params
      | Update t sets conds items \<Rightarrow> exec_update db t sets conds items params
      | Delete t conds items \<Rightarrow> exec_delete db t conds items params)"

text \<open>
  \<open>db.query(sql, params)\<close>: the call is recorded, then the statement is read, checked
  and run. The result is the rows, or the error the store raises, and the database as
  the call leaves it.
\<close>

definition db_query ::
  "database \<Rightarrow> string \<Rightarrow> jsval list \<Rightarrow> (error + jsobj list) \<times> database" where
  "db_query db sql params =
     (let db1 = db\<lparr>issued := issued db @ [(sql, params)]\<rparr>
      in case parse_sql sql of
           None \<Rightarrow> (Inl (StoreError ''syntax error''), db1)
         | Some st \<Rightarrow>
             if params_fit st (length params) then exec db1 st params
             else (Inl (StoreError ''the parameters supplied do not fit the statement''), db1))"

text \<open>\<open>rows[0]\<close>: the first row, \<open>undefined\<close> when there is none.\<close>

definition first_row :: "jsobj list \<Rightarrow> jsobj option" where
  "first_row rows = (case rows of [] \<Rightarrow> None | r # rs \<Rightarrow> Some r)"

section \<open>The entity managers\<close>

text \<open>
  Each operation takes the database and returns its result, or the error it throws,
  together with the database as it leaves it; an \<open>await\<close> is the next step of the
  sequence. The SQL texts are the source's template literals, with each run of blanks
  and line breaks inside them written as one blank.
\<close>

subsection \<open>The filter-query builder\<close>

text \<open>\<open>queryValues.push(v); whereExpressions.push(`... $${queryValues.length}`)\<close>,
  on the pair of the two arrays.\<close>

definition push_filter :: "jsval \<Rightarrow> string \<Rightarrow> jsval list \<times> string list \<Rightarrow> jsval list \<times> string list" where
  "push_filter v expr st =
     (case st of (queryValues, whereExpressions) \<Rightarrow>
        (queryValues @ [v],
         whereExpressions @ [expr @ string_of_nat (length (queryValues @ [v]))]))"

text \<open>The end of both \<open>findAll\<close>: the WHERE clause when there is a condition, then the
  ORDER BY.\<close>

definition finish_query :: "string \<Rightarrow> string list \<Rightarrow> string \<Rightarrow> string" where
  "finish_query query whereExpressions order =
     (if length whereExpressions > 0
      then query @ '' WHERE '' @ js_join '' AND '' whereExpressions else query) @ order"

definition Company_select :: string where
  \<open>Company_select =
     ''SELECT handle, name, description, num_employees AS "numEmployees", logo_url AS "logoUrl" FROM companies''\<close>

text \<open>\<open>Company.findAll\<close>, up to the call of \<open>db.query\<close>: the two arrays, or the error.\<close>

definition Company_filters :: "(string \<Rightarrow> number) \<Rightarrow> jsobj \<Rightarrow> error + (jsval list \<times> string list)" where
  "Company_filters S searchFilters =
     (let minEmployees = get_prop searchFilters ''minEmployees'';
          maxEmployees = get_prop searchFilters ''maxEmployees'';
          name = get_prop searchFilters ''name''
      in if js_gt S minEmployees maxEmployees
         then Inl (BadRequestError ''Minimum employees cannot be greater than max employees.'')
         else
           (let st0 = ([], []);
                st1 = (if minEmployees \<noteq> JUndefined
                       then push_filter minEmployees ''num_employees >= $'' st0 else st0);
                st2 = (if maxEmployees \<noteq> JUndefined
                       then push_filter maxEmployees ''num_employees <= $'' st1 else st1);
                st3 = (if js_truthy name
                       then push_filter (JStr (''%'' @ js_to_string name @ ''%'')) ''name ILIKE $'' st2
                       else st2)
            in Inr st3))"

definition Company_findAll_query :: "(string \<Rightarrow> number) \<Rightarrow> jsobj \<Rightarrow> error + (string \<times> jsval list)" where
  "Company_findAll_query S searchFilters =
     (case Company_filters S searchFilters of
        Inl e \<Rightarrow> Inl e
      | Inr (queryValues, whereExpressions) \<Rightarrow>
          Inr (finish_query Company_select whereExpressions '' ORDER BY name'', queryValues))"

definition Company_findAll ::
  "(string \<Rightarrow> number) \<Rightarrow> database \<Rightarrow> jsobj \<Rightarrow> (error + jsval) \<times> database" where
  "Company_findAll S db searchFilters =
     (case Company_findAll_query S searchFilters of
        Inl e \<Rightarrow> (Inl e, db)
      | Inr (query, queryValues) \<Rightarrow>
          (case db_query db query queryValues of
             (Inl e, db') \<Rightarrow> (Inl e, db')
           | (Inr rows, db') \<Rightarrow> (Inr (JArr (map JObj rows)), db')))"

definition Job_select :: string where
  \<open>Job_select =
     ''SELECT j.id, j.title, j.salary, j.equity, j.company_handle AS "companyHandle", c.name FROM jobs j LEFT JOIN companies c ON c.handle = j.company_handle''\<close>

definition Job_filters :: "jsobj \<Rightarrow> jsval list \<times> string list" where
  "Job_filters searchFilters =
     (let title = get_prop searchFilters ''title'';
          minSalary = get_prop searchFilters ''minSalary'';
          hasEquity = get_prop searchFilters ''hasEquity'';
          st0 = ([], []);
          st1 = (if title \<noteq> JUndefined
                 then push_filter (JStr (''%'' @ js_to_string title @ ''%'')) ''title ILIKE $'' st0
                 else st0);
          st2 = (if minSalary \<noteq> JUndefined
                 then push_filter minSalary ''salary >= $'' st1 else st1);
          st3 = (if hasEquity = JBool True
                 then (fst st2, snd st2 @ [''equity > 0'']) else st2)
      in st3)"

definition Job_findAll_query :: "jsobj \<Rightarrow> string \<times> jsval list" where
  "Job_findAll_query searchFilters =
     (case Job_filters searchFilters of
        (queryValues, whereExpressions) \<Rightarrow>
          (finish_query Job_select whereExpressions '' ORDER BY title'', queryValues))"

definition Job_findAll :: "database \<Rightarrow> jsobj \<Rightarrow> (error + jsval) \<times> database" where
  "Job_findAll db searchFilters =
     (case Job_findAll_query searchFilters of
        (query, queryValues) \<Rightarrow>
          (case db_query db query queryValues of
             (Inl e, db') \<Rightarrow> (Inl e, db')
           | (Inr rows, db') \<Rightarrow> (Inr (JArr (map JObj rows)), db')))"

subsection \<open>get\<close>

definition Company_get_sql :: string where
  \<open>Company_get_sql =
     ''SELECT handle, name, description, num_employees AS "numEmployees", logo_url AS "logoUrl" FROM companies WHERE handle = $1''\<close>

definition Company_jobs_sql :: string where
  "Company_jobs_sql = ''SELECT id, title, salary, equity FROM jobs WHERE company_handle = $1''"

definition Company_get :: "database \<Rightarrow> jsval \<Rightarrow> (error + jsval) \<times> database" where
  "Company_get db handle =
     (case db_query db Company_get_sql [handle] of
        (Inl e, db1) \<Rightarrow> (Inl e, db1)
      | (Inr rows, db1) \<Rightarrow>
          (case first_row rows of
             None \<Rightarrow> (Inl (NotFoundError (''No company: '' @ js_to_string handle)), db1)
           | Some company \<Rightarrow>
               (case db_query db1 Company_jobs_sql [get_prop company ''handle''] of
                  (Inl e, db2) \<Rightarrow> (Inl e, db2)
                | (Inr jobRows, db2) \<Rightarrow>
                    (Inr (JObj (set_prop company ''jobs'' (JArr (map JObj jobRows)))), db2))))"

definition Job_get_sql :: string where
  \<open>Job_get_sql =
     ''SELECT id, title, salary, equity, company_handle AS "companyHandle" FROM jobs WHERE id = $1''\<close>

definition Job_company_sql :: string where
  \<open>Job_company_sql =
     ''SELECT handle, name, description, num_employees AS "numEmployees", logo_url AS "logoUrl" FROM companies WHERE handle = $1''\<close>

definition Job_get :: "database \<Rightarrow> jsval \<Rightarrow> (error + jsval) \<times> database" where
  "Job_get db jid =
     (case db_query db Job_get_sql [jid] of
        (Inl e, db1) \<Rightarrow> (Inl e, db1)
      | (Inr rows, db1) \<Rightarrow>
          (case first_row rows of
             None \<Rightarrow>
               (Inl (NotFoundError (''Job ID: '' @ js_to_string jid @ '' not found.'')), db1)
           | Some job \<Rightarrow>
               (case db_query db1 Job_company_sql [get_prop job ''companyHandle''] of
                  (Inl e, db2) \<Rightarrow> (Inl e, db2)
                | (Inr companyRows, db2) \<Rightarrow>
                    (Inr (JObj (set_prop (delete_prop job ''companyHandle'') ''company''
                                  (case first_row companyRows of
                                     None \<Rightarrow> JUndefined | Some c \<Rightarrow> JObj c))), db2))))"

subsection \<open>The partial-update builder\<close>

text \<open>
  Modelled from the spec: \<open>sqlForPartialUpdate\<close> of \<open>helpers/sql\<close>, which both
  \<open>update\<close> operations call and which is not among the sources. Section 4.2: it fails
  with a BadRequest-kind error if the data object has zero keys, checked before any SQL
  is built; for each key, in the order the keys are iterated, it emits
  \<open>"<column_name>"=$<n>\<close> with \<open>n\<close> counting from 1, where the column name is the one
  the mapping gives for the key, or the key itself when the mapping has none; the output
  is the comma-joined fragment and the values in the same order.
\<close>

definition sqlForPartialUpdate ::
  "jsobj \<Rightarrow> (string \<times> string) list \<Rightarrow> error + (string \<times> jsval list)" where
  \<open>sqlForPartialUpdate dataToUpdate jsToSql =
     (let keys = map fst dataToUpdate
      in if length keys = 0 then Inl (BadRequestError ''No data'')
         else Inr (js_join '', ''
                     (map (\<lambda>(colName, idx).
                             ''"'' @ (case map_of jsToSql colName of None \<Rightarrow> colName | Some c \<Rightarrow> c)
                             @ ''"=$'' @ string_of_nat (idx + 1))
                        (zip keys [0..<length keys])),
                   map snd dataToUpdate))\<close>

subsection \<open>update\<close>

definition Company_update :: "database \<Rightarrow> jsval \<Rightarrow> jsobj \<Rightarrow> (error + jsval) \<times> database" where
  \<open>Company_update db handle data =
     (case sqlForPartialUpdate data
             [(''numEmployees'', ''num_employees''), (''logoUrl'', ''logo_url'')] of
        Inl e \<Rightarrow> (Inl e, db)
      | Inr (setCols, vals) \<Rightarrow>
          (let handleVarIdx = ''$'' @ string_of_nat (length vals + 1);
               querySql = ''UPDATE companies SET '' @ setCols @ '' WHERE handle = ''
                 @ handleVarIdx
                 @ '' RETURNING handle, name, description, num_employees AS "numEmployees", logo_url AS "logoUrl"''
           in case db_query db querySql (vals @ [handle]) of
                (Inl e, db') \<Rightarrow> (Inl e, db')
              | (Inr rows, db') \<Rightarrow>
                  (case first_row rows of
                     None \<Rightarrow> (Inl (NotFoundError (''No company: '' @ js_to_string handle)), db')
                   | Some company \<Rightarrow> (Inr (JObj company), db'))))\<close>

definition Job_update :: "database \<Rightarrow> jsval \<Rightarrow> jsobj \<Rightarrow> (error + jsval) \<times> database" where
  \<open>Job_update db jid data =
     (case sqlForPartialUpdate data [] of
        Inl e \<Rightarrow> (Inl e, db)
      | Inr (setCols, vals) \<Rightarrow>
          (let idVar = ''$'' @ string_of_nat (length vals + 1);
               query = ''UPDATE jobs SET '' @ setCols @ '' WHERE id = '' @ idVar
                 @ '' RETURNING id, title, salary, equity, company_handle AS "companyHandle"''
           in case db_query db query (vals @ [jid]) of
                (Inl e, db') \<Rightarrow> (Inl e, db')
              | (Inr rows, db') \<Rightarrow>
                  (case first_row rows of
                     None \<Rightarrow>
                       (Inl (NotFoundError (''Job '' @ js_to_string jid @ '' not found.'')), db')
                   | Some job \<Rightarrow> (Inr (JObj job), db'))))\<close>

subsection \<open>remove\<close>

definition Company_remove :: "database \<Rightarrow> jsval \<Rightarrow> (error + jsval) \<times> database" where
  "Company_remove db handle =
     (case db_query db ''DELETE FROM companies WHERE handle = $1 RETURNING handle'' [handle] of
        (Inl e, db') \<Rightarrow> (Inl e, db')
      | (Inr rows, db') \<Rightarrow>
          (case first_row rows of
             None \<Rightarrow> (Inl (NotFoundError (''No company: '' @ js_to_string handle)), db')
           | Some company \<Rightarrow> (Inr JUndefined, db')))"

definition Job_remove :: "database \<Rightarrow> jsval \<Rightarrow> (error + jsval) \<times> database" where
  "Job_remove db jid =
     (case db_query db ''DELETE FROM jobs WHERE id = $1 RETURNING id'' [jid] of
        (Inl e, db') \<Rightarrow> (Inl e, db')
      | (Inr rows, db') \<Rightarrow>
          (case first_row rows of
             None \<Rightarrow> (Inl (NotFoundError (''Job '' @ js_to_string jid @ '' not found.'')), db')
           | Some job \<Rightarrow> (Inr JUndefined, db')))"

subsection \<open>Job.create\<close>

definition Job_create_sql :: string where
  \<open>Job_create_sql =
     ''INSERT INTO jobs (title, salary, equity, company_handle) VALUES ($1, $2, $3, $4) RETURNING id, title, salary, equity, company_handle AS "companyHandle"''\<close>

definition Job_create :: "database \<Rightarrow> jsobj \<Rightarrow> (error + jsval) \<times> database" where
  "Job_create db data =
     (case db_query db Job_create_sql
             [get_prop data ''title'', get_prop data ''salary'', get_prop data ''equity'',
              get_prop data ''company_handle''] of
        (Inl e, db') \<Rightarrow> (Inl e, db')
      | (Inr rows, db') \<Rightarrow>
          (case first_row rows of None \<Rightarrow> (Inr JUndefined, db') | Some job \<Rightarrow> (Inr (JObj job), db')))"

section \<open>What the managers return\<close>

text \<open>The public representation of a company, as the SELECT lists and RETURNING
  clauses of the company manager name its fields.\<close>

definition company_row :: "company \<Rightarrow> jsobj" where
  "company_row c =
     [(''handle'', JStr (c_handle c)), (''name'', JStr (c_name c)),
      (''description'', JStr (c_description c)),
      (''numEmployees'', (case c_num_employees c of None \<Rightarrow> JNull | Some n \<Rightarrow> JNum n)),
      (''logoUrl'', (case c_logo_url c of None \<Rightarrow> JNull | Some u \<Rightarrow> JStr u))]"

definition employees_between :: "int \<Rightarrow> int \<Rightarrow> company \<Rightarrow> bool" where
  "employees_between a b c =
     (case c_num_employees c of None \<Rightarrow> False | Some e \<Rightarrow> a \<le> e \<and> e \<le> b)"

text \<open>A small database to run the operations on: four companies, one of them without
  an employee count, and five jobs, one with equity 0 and one with none.\<close>

definition example_db :: database where
  "example_db =
     \<lparr>companies =
        [\<lparr>c_handle = ''c2'', c_name = ''C2'', c_description = ''Desc2'',
           c_num_employees = Some 2, c_logo_url = Some ''http://c2.img''\<rparr>,
         \<lparr>c_handle = ''c1'', c_name = ''C1'', c_description = ''Desc1'',
           c_num_employees = Some 1, c_logo_url = Some ''http://c1.img''\<rparr>,
         \<lparr>c_handle = ''c4'', c_name = ''C4'', c_description = ''Desc4'',
           c_num_employees = None, c_logo_url = None\<rparr>,
         \<lparr>c_handle = ''c3'', c_name = ''C3'', c_description = ''Desc3'',
           c_num_employees = Some 3, c_logo_url = Some ''http://c3.img''\<rparr>],
      jobs =
        [\<lparr>j_id = 2, j_title = ''t2'', j_salary = Some 200, j_equity = Some (Numeric 2 1),
           j_company_handle = ''c2''\<rparr>,
         \<lparr>j_id = 1, j_title = ''t1'', j_salary = Some 100, j_equity = Some (Numeric 1 1),
           j_company_handle = ''c1''\<rparr>,
         \<lparr>j_id = 3, j_title = ''t3'', j_salary = Some 300, j_equity = Some (Numeric 3 1),
           j_company_handle = ''c3''\<rparr>,
         \<lparr>j_id = 4, j_title = ''t4'', j_salary = Some 50, j_equity = Some (Numeric 0 0),
           j_company_handle = ''c1''\<rparr>,
         \<lparr>j_id = 5, j_title = ''t5'', j_salary = None, j_equity = None,
           j_company_handle = ''c1''\<rparr>],
      jobs_id_seq = 5, issued = []\<rparr>"

section \<open>The statements findAll issues\<close>

text \<open>
  Which conditions \<open>Company.findAll\<close> pushes depends on three tests only: whether
  \<open>minEmployees\<close> and \<open>maxEmployees\<close> are other than \<open>undefined\<close>, and whether
  \<open>name\<close> is truthy. For each outcome of the three: the texts pushed, the values
  pushed, and the conditions the store reads from the finished statement.
\<close>

definition Company_exprs :: "bool \<Rightarrow> bool \<Rightarrow> bool \<Rightarrow> string list" where
  "Company_exprs b1 b2 b3 =
     (if b1 then [''num_employees >= $1''] else [])
     @ (if b2 then [''num_employees <= $'' @ (if b1 then ''2'' else ''1'')] else [])
     @ (if b3 then [''name ILIKE $'' @ (if b1 \<and> b2 then ''3'' else if b1 \<or> b2 then ''2'' else ''1'')]
        else [])"

definition Company_vals :: "jsval \<Rightarrow> jsval \<Rightarrow> jsval \<Rightarrow> jsval list" where
  "Company_vals m x n =
     (if m \<noteq> JUndefined then [m] else []) @ (if x \<noteq> JUndefined then [x] else [])
     @ (if js_truthy n then [JStr (''%'' @ js_to_string n @ ''%'')] else [])"

definition Company_conds :: "bool \<Rightarrow> bool \<Rightarrow> bool \<Rightarrow> cond list" where
  "Company_conds b1 b2 b3 =
     (if b1 then [Cond ''num_employees'' ''>='' (Param 1)] else [])
     @ (if b2 then [Cond ''num_employees'' ''<='' (Param (if b1 then 2 else 1))] else [])
     @ (if b3 then [Cond ''name'' ''ILIKE''
                      (Param (Suc ((if b1 then 1 else 0) + (if b2 then 1 else 0))))] else [])"

definition Company_items :: "(string \<times> string) list" where
  "Company_items =
     [(''handle'', ''handle''), (''name'', ''name''), (''description'', ''description''),
      (''num_employees'', ''numEmployees''), (''logo_url'', ''logoUrl'')]"

definition Company_scope :: "(string \<times> string \<times> coltype) list" where
  "Company_scope =
     [(''companies'', ''handle'', TyText), (''companies'', ''name'', TyText),
      (''companies'', ''description'', TyText), (''companies'', ''num_employees'', TyInt),
      (''companies'', ''logo_url'', TyText)]"

definition has_equity :: "job \<Rightarrow> bool" where
  "has_equity j = (case j_equity j of None \<Rightarrow> False | Some d \<Rightarrow> 0 < numeric_rat d)"

definition salary_at_least :: "int \<Rightarrow> job \<Rightarrow> bool" where
  "salary_at_least s j = (case j_salary j of None \<Rightarrow> False | Some x \<Rightarrow> s \<le> x)"

definition job_fields :: "job \<Rightarrow> jsobj" where
  "job_fields j =
     [(''id'', JNum (j_id j)), (''title'', JStr (j_title j)),
      (''salary'', (case j_salary j of None \<Rightarrow> JNull | Some s \<Rightarrow> JNum s)),
      (''equity'', (case j_equity j of None \<Rightarrow> JNull | Some d \<Rightarrow> JStr (numeric_text d)))]"

definition job_row :: "job \<times> company option \<Rightarrow> jsobj" where
  "job_row p =
     job_fields (fst p) @
     [(''companyHandle'', JStr (j_company_handle (fst p))),
      (''name'', (case snd p of None \<Rightarrow> JNull | Some c \<Rightarrow> JStr (c_name c)))]"

definition jobs_joined :: "database \<Rightarrow> (job \<times> company option) list" where
  "jobs_joined db =
     concat (map (\<lambda>j. case filter (\<lambda>c. c_handle c = j_company_handle j) (companies db) of
                         [] \<Rightarrow> [(j, None)]
                       | cs \<Rightarrow> map (\<lambda>c. (j, Some c)) cs) (jobs db))"

definition joined_cells :: "job \<times> company option \<Rightarrow> sqlval list" where
  "joined_cells p =
     job_cells (fst p) @ (case snd p of None \<Rightarrow> replicate 5 SNull | Some c \<Rightarrow> company_cells c)"

definition Job_exprs :: "bool \<Rightarrow> bool \<Rightarrow> bool \<Rightarrow> string list" where
  "Job_exprs b1 b2 b3 =
     (if b1 then [''title ILIKE $1''] else [])
     @ (if b2 then [''salary >= $'' @ (if b1 then ''2'' else ''1'')] else [])
     @ (if b3 then [''equity > 0''] else [])"

definition Job_vals :: "jsval \<Rightarrow> jsval \<Rightarrow> jsval list" where
  "Job_vals t s =
     (if t \<noteq> JUndefined then [JStr (''%'' @ js_to_string t @ ''%'')] else [])
     @ (if s \<noteq> JUndefined then [s] else [])"

definition Job_conds :: "bool \<Rightarrow> bool \<Rightarrow> bool \<Rightarrow> cond list" where
  "Job_conds b1 b2 b3 =
     (if b1 then [Cond ''title'' ''ILIKE'' (Param 1)] else [])
     @ (if b2 then [Cond ''salary'' ''>='' (Param (if b1 then 2 else 1))] else [])
     @ (if b3 then [Cond ''equity'' ''>'' (Lit 0)] else [])"

definition Job_items :: "(string \<times> string) list" where
  "Job_items =
     [(''j.id'', ''id''), (''j.title'', ''title''), (''j.salary'', ''salary''),
      (''j.equity'', ''equity''), (''j.company_handle'', ''companyHandle''), (''c.name'', ''name'')]"

definition Job_scope :: "(string \<times> string \<times> coltype) list" where
  "Job_scope =
     [(''j'', ''id'', TyInt), (''j'', ''title'', TyText), (''j'', ''salary'', TyInt),
      (''j'', ''equity'', TyNumeric), (''j'', ''company_handle'', TyText),
      (''c'', ''handle'', TyText), (''c'', ''name'', TyText), (''c'', ''description'', TyText),
      (''c'', ''num_employees'', TyInt), (''c'', ''logo_url'', TyText)]"

definition orphan_db :: database where
  "orphan_db = example_db\<lparr>companies := tl (companies example_db)\<rparr>"

definition placeholders :: "string \<Rightarrow> nat list" where
  "placeholders sql =
     (case tokenize sql of
        None \<Rightarrow> []
      | Some ts \<Rightarrow> concat (map (\<lambda>t. case t of TParam n \<Rightarrow> [n] | _ \<Rightarrow> []) ts))"

definition bound_conditions :: "string \<Rightarrow> jsval list \<Rightarrow> (string \<times> string \<times> jsval option) list" where
  "bound_conditions sql vals =
     (case parse_sql sql of
        Some (Select items t a j conds ord) \<Rightarrow>
          map (\<lambda>c. case c of Cond col op rhs \<Rightarrow>
                 (col, op, (case rhs of Param k \<Rightarrow> Some (vals ! (k - 1)) | _ \<Rightarrow> None))) conds
      | _ \<Rightarrow> [])"

definition all_filters :: jsobj where
  "all_filters =
     [(''name'', JStr ''net''), (''maxEmployees'', JNum 9), (''minEmployees'', JNum 2),
      (''hasEquity'', JBool True), (''minSalary'', JNum 50), (''title'', JStr ''1'')]"

definition Jobs_scope :: "(string \<times> string \<times> coltype) list" where
  "Jobs_scope =
     [(''jobs'', ''id'', TyInt), (''jobs'', ''title'', TyText), (''jobs'', ''salary'', TyInt),
      (''jobs'', ''equity'', TyNumeric), (''jobs'', ''company_handle'', TyText)]"

definition Job_get_items :: "(string \<times> string) list" where
  "Job_get_items =
     [(''id'', ''id''), (''title'', ''title''), (''salary'', ''salary''), (''equity'', ''equity''),
      (''company_handle'', ''companyHandle'')]"

definition job_public :: "job \<Rightarrow> jsobj" where
  "job_public j = job_fields j @ [(''companyHandle'', JStr (j_company_handle j))]"

definition no_digit_ahead :: "string \<Rightarrow> bool" where
  "no_digit_ahead rest = (case rest of [] \<Rightarrow> True | c # cs \<Rightarrow> \<not> is_digit c)"

fun set_text :: "nat \<Rightarrow> string list \<Rightarrow> string" where
  "set_text i [] = []"
| "set_text i [c] = CHR 0x22 # c @ CHR 0x22 # CHR ''='' # CHR ''$'' # string_of_nat i"
| "set_text i (c # d # cs) =
     (CHR 0x22 # c @ CHR 0x22 # CHR ''='' # CHR ''$'' # string_of_nat i) @ '', ''
     @ set_text (Suc i) (d # cs)"

fun assignment_tokens :: "nat \<Rightarrow> string list \<Rightarrow> token list" where
  "assignment_tokens i [] = []"
| "assignment_tokens i [c] = [TQuoted c, TSym ''='', TParam i]"
| "assignment_tokens i (c # d # cs) =
     TQuoted c # TSym ''='' # TParam i # TSym '','' # assignment_tokens (Suc i) (d # cs)"

fun assignments :: "nat \<Rightarrow> string list \<Rightarrow> (string \<times> operand) list" where
  "assignments i [] = []"
| "assignments i (c # cs) = (c, Param i) # assignments (Suc i) cs"

definition column_of :: "(string \<times> string) list \<Rightarrow> string \<Rightarrow> string" where
  "column_of jsToSql k = (case map_of jsToSql k of None \<Rightarrow> k | Some c \<Rightarrow> c)"

definition Company_returning :: "token list" where
  "Company_returning =
     [TWord ''handle'', TSym '','', TWord ''name'', TSym '','', TWord ''description'', TSym '','',
      TWord ''num_employees'', TWord ''AS'', TQuoted ''numEmployees'', TSym '','',
      TWord ''logo_url'', TWord ''AS'', TQuoted ''logoUrl'']"

definition Job_returning :: "token list" where
  "Job_returning =
     [TWord ''id'', TSym '','', TWord ''title'', TSym '','', TWord ''salary'', TSym '','',
      TWord ''equity'', TSym '','', TWord ''company_handle'', TWord ''AS'', TQuoted ''companyHandle'']"

section \<open>The store on the statements of the managers\<close>

lemma parse_Company_get_sql:
  "parse_sql Company_get_sql =
     Some (Select Company_items ''companies'' ''companies'' None [Cond ''handle'' ''='' (Param 1)] None)"
  by code_simp

lemma parse_Company_jobs_sql:
  "parse_sql Company_jobs_sql =
     Some (Select [(''id'', ''id''), (''title'', ''title''), (''salary'', ''salary''), (''equity'', ''equity'')]
        ''jobs'' ''jobs'' None [Cond ''company_handle'' ''='' (Param 1)] None)"
  by code_simp

lemma parse_Job_create_sql:
  "parse_sql Job_create_sql =
     Some (Insert ''jobs'' [''title'', ''salary'', ''equity'', ''company_handle'']
        [Param 1, Param 2, Param 3, Param 4]
        [(''id'', ''id''), (''title'', ''title''), (''salary'', ''salary''), (''equity'', ''equity''),
         (''company_handle'', ''companyHandle'')])"
  by code_simp

lemma parse_Company_remove_sql:
  "parse_sql ''DELETE FROM companies WHERE handle = $1 RETURNING handle'' =
     Some (Delete ''companies'' [Cond ''handle'' ''='' (Param 1)] [(''handle'', ''handle'')])"
  by code_simp

lemma parse_Company_findAll_all:
  "\<forall>b1 b2 b3. parse_sql (finish_query Company_select (Company_exprs b1 b2 b3) '' ORDER BY name'') =
     Some (Select Company_items ''companies'' ''companies'' None (Company_conds b1 b2 b3) (Some ''name''))"
  unfolding all_bool_eq by code_simp

lemma parse_Company_findAll:
  "parse_sql (finish_query Company_select (Company_exprs b1 b2 b3) '' ORDER BY name'') =
     Some (Select Company_items ''companies'' ''companies'' None (Company_conds b1 b2 b3) (Some ''name''))"
  using parse_Company_findAll_all by blast

lemma insort_key_cong_le:
  "(\<And>y. y \<in> set xs \<Longrightarrow> (k x \<le> k y) = (f x \<le> f y)) \<Longrightarrow> insort_key k x xs = insort_key f x xs"
  by (induction xs) auto

lemma sort_key_cong_le:
  "(\<And>x y. (k x \<le> k y) = (f x \<le> f y)) \<Longrightarrow> sort_key k xs = sort_key f xs"
  by (induction xs) (auto intro: insort_key_cong_le)

lemma insort_key_map: "insort_key k (f x) (map f xs) = map f (insort_key (\<lambda>y. k (f y)) x xs)"
  by (induction xs) auto

lemma sort_key_map: "sort_key k (map f xs) = map f (sort_key (\<lambda>y. k (f y)) xs)"
  by (induction xs) (auto simp: insort_key_map)

lemma first_row_map_filter:
  "first_row (map f (filter P xs)) = map_option f (find P xs)"
  by (induction xs) (auto simp: first_row_def)

lemma scope_companies: "scope_of ''companies'' ''companies'' = Some Company_scope"
  by code_simp

lemma items_companies:
  "analyze_items Company_scope Company_items =
     Inr [(0, ''handle''), (1, ''name''), (2, ''description''), (3, ''numEmployees''), (4, ''logoUrl'')]"
  by code_simp

lemma order_companies: "analyze_order Company_scope (Some ''name'') = Inr (Some 1)"
  by code_simp

lemma resolve_companies:
  "resolve Company_scope ''handle'' = Inr 0"
  "resolve Company_scope ''name'' = Inr 1"
  "resolve Company_scope ''num_employees'' = Inr 3"
  by code_simp+

lemma col_type_companies:
  "col_type Company_scope 0 = TyText"
  "col_type Company_scope 1 = TyText"
  "col_type Company_scope 3 = TyInt"
  by code_simp+

lemma project_company:
  "project [(0, ''handle''), (Suc 0, ''name''), (2, ''description''), (3, ''numEmployees''), (4, ''logoUrl'')]
     (company_cells c) = company_row c"
  by (simp add: project_def company_cells_def company_row_def opt_cell_def split: option.splits)

lemma table_rows_companies: "table_rows db ''companies'' = map company_cells (companies db)"
  by (simp add: table_rows_def)

lemma sort_companies:
  "sort_key (\<lambda>row. sort_rank (row ! Suc 0)) (map company_cells cs) = map company_cells (sort_key c_name cs)"
proof -
  have "sort_key (\<lambda>c. sort_rank (company_cells c ! Suc 0)) cs = sort_key c_name cs"
    by (rule sort_key_cong_le) (simp add: company_cells_def less_eq_prod_def)
  then show ?thesis by (simp add: sort_key_map)
qed

lemma exec_select_companies:
  assumes "collect (map (analyze_cond Company_scope params) conds) = Inr gs"
  shows "exec_select db Company_items ''companies'' ''companies'' None conds (Some ''name'') params =
     Inr (map company_row (sort_key c_name (filter (\<lambda>c. satisfies gs (company_cells c)) (companies db))))"
  using assms
  by (simp add: exec_select_def select_source_def scope_companies items_companies order_companies
      order_rows_def table_rows_companies filter_map o_def sort_companies project_company)

lemma string_of_nat_small:
  "string_of_nat (Suc 0) = ''1''" "string_of_nat (Suc (Suc 0)) = ''2''"
  "string_of_nat (Suc (Suc (Suc 0))) = ''3''"
  "string_of_nat 1 = ''1''" "string_of_nat 2 = ''2''" "string_of_nat 3 = ''3''"
  by code_simp+

lemma Company_filters_flags:
  "Company_filters S f =
     (if js_gt S (get_prop f ''minEmployees'') (get_prop f ''maxEmployees'')
      then Inl (BadRequestError ''Minimum employees cannot be greater than max employees.'')
      else Inr (Company_vals (get_prop f ''minEmployees'') (get_prop f ''maxEmployees'') (get_prop f ''name''),
                Company_exprs (get_prop f ''minEmployees'' \<noteq> JUndefined)
                  (get_prop f ''maxEmployees'' \<noteq> JUndefined) (js_truthy (get_prop f ''name''))))"
  by (simp add: Company_filters_def Let_def push_filter_def Company_vals_def Company_exprs_def
      string_of_nat_small)

lemma params_fit_Company:
  "params_fit (Select items t a None (Company_conds (m \<noteq> JUndefined) (x \<noteq> JUndefined) (js_truthy n)) ord)
     (length (Company_vals m x n))"
  by (simp add: params_fit_def Company_conds_def Company_vals_def)

lemma table_rows_issued: "table_rows (db\<lparr>issued := q\<rparr>) t = table_rows db t"
  by (simp add: table_rows_def)

lemma select_source_issued: "select_source (db\<lparr>issued := q\<rparr>) t a j = select_source db t a j"
  by (simp add: select_source_def table_rows_issued split: option.splits join.splits sum.splits)

lemma exec_select_issued:
  "exec_select (db\<lparr>issued := q\<rparr>) items t a j conds ord params = exec_select db items t a j conds ord params"
  by (simp add: exec_select_def select_source_issued)

lemma db_query_Company_findAll:
  "db_query db (finish_query Company_select
        (Company_exprs (m \<noteq> JUndefined) (x \<noteq> JUndefined) (js_truthy n)) '' ORDER BY name'')
      (Company_vals m x n) =
   (exec_select db Company_items ''companies'' ''companies'' None
      (Company_conds (m \<noteq> JUndefined) (x \<noteq> JUndefined) (js_truthy n)) (Some ''name'')
      (Company_vals m x n),
    db\<lparr>issued := issued db @ [(finish_query Company_select
        (Company_exprs (m \<noteq> JUndefined) (x \<noteq> JUndefined) (js_truthy n)) '' ORDER BY name'',
        Company_vals m x n)]\<rparr>)"
  by (simp add: db_query_def Let_def parse_Company_findAll params_fit_Company exec_def
      exec_select_issued)

lemma analyze_num_employees:
  "op \<noteq> ''ILIKE'' \<Longrightarrow> analyze_cond Company_scope ps (Cond ''num_employees'' op (Param k)) =
     (case bind_param TyInt ps k of Inl e \<Rightarrow> Inl e | Inr v \<Rightarrow> Inr (GCmp 3 op v))"
  by (simp add: analyze_cond_def resolve_companies col_type_companies split: sum.splits)

lemma analyze_name:
  "analyze_cond Company_scope ps (Cond ''name'' ''ILIKE'' (Param k)) =
     (case bind_param TyText ps k of
        Inl e \<Rightarrow> Inl e
      | Inr v \<Rightarrow> if (case v of SText p \<Rightarrow> dangling_escape p | _ \<Rightarrow> False)
                 then Inl (StoreError ''LIKE pattern must not end with escape character'')
                 else Inr (GCmp 1 ''ILIKE'' v))"
  by (simp add: analyze_cond_def resolve_companies col_type_companies
      col_type_companies[unfolded One_nat_def] split: sum.splits)

lemma holds_min_employees:
  "holds (company_cells c) (GCmp 3 ''>='' (SInt a)) = (case c_num_employees c of None \<Rightarrow> False | Some e \<Rightarrow> a \<le> e)"
  by (simp add: company_cells_def opt_cell_def compare_op_def numeral_3_eq_3 split: option.splits)

lemma holds_max_employees:
  "holds (company_cells c) (GCmp 3 ''<='' (SInt b)) = (case c_num_employees c of None \<Rightarrow> False | Some e \<Rightarrow> e \<le> b)"
  by (simp add: company_cells_def opt_cell_def compare_op_def numeral_3_eq_3 split: option.splits)

lemma Company_findAll_unfold:
  "Company_findAll S db f =
     (if js_gt S (get_prop f ''minEmployees'') (get_prop f ''maxEmployees'')
      then (Inl (BadRequestError ''Minimum employees cannot be greater than max employees.''), db)
      else (case exec_select db Company_items ''companies'' ''companies'' None
                   (Company_conds (get_prop f ''minEmployees'' \<noteq> JUndefined)
                      (get_prop f ''maxEmployees'' \<noteq> JUndefined) (js_truthy (get_prop f ''name'')))
                   (Some ''name'')
                   (Company_vals (get_prop f ''minEmployees'') (get_prop f ''maxEmployees'') (get_prop f ''name'')) of
              Inl e \<Rightarrow> Inl e
            | Inr rows \<Rightarrow> Inr (JArr (map JObj rows)),
            db\<lparr>issued := issued db @ [(finish_query Company_select
                (Company_exprs (get_prop f ''minEmployees'' \<noteq> JUndefined)
                   (get_prop f ''maxEmployees'' \<noteq> JUndefined) (js_truthy (get_prop f ''name'')))
                '' ORDER BY name'',
                Company_vals (get_prop f ''minEmployees'') (get_prop f ''maxEmployees'') (get_prop f ''name''))]\<rparr>))"
  by (simp add: Company_findAll_def Company_findAll_query_def Company_filters_flags
      db_query_Company_findAll split: sum.splits)

lemma js_gt_JNum: "js_gt S (JNum a) (JNum b) = (b < a)"
  by (simp add: js_gt_def)

lemma parse_Job_findAll_all:
  "\<forall>b1 b2 b3. parse_sql (finish_query Job_select (Job_exprs b1 b2 b3) '' ORDER BY title'') =
     Some (Select Job_items ''jobs'' ''j''
             (Some (LeftJoin ''companies'' ''c'' ''c.handle'' ''j.company_handle''))
             (Job_conds b1 b2 b3) (Some ''title''))"
  unfolding all_bool_eq by code_simp

lemma parse_Job_findAll:
  "parse_sql (finish_query Job_select (Job_exprs b1 b2 b3) '' ORDER BY title'') =
     Some (Select Job_items ''jobs'' ''j''
             (Some (LeftJoin ''companies'' ''c'' ''c.handle'' ''j.company_handle''))
             (Job_conds b1 b2 b3) (Some ''title''))"
  using parse_Job_findAll_all by blast

lemma scope_jobs_j: "scope_of ''jobs'' ''j'' = Some (take 5 Job_scope)"
  by code_simp

lemma scope_companies_c: "scope_of ''companies'' ''c'' = Some (drop 5 Job_scope)"
  by code_simp

lemma join_cond_jobs:
  "analyze_cond Job_scope [] (Cond ''c.handle'' ''='' (Col ''j.company_handle'')) = Inr (GCols 5 ''='' 4)"
  by code_simp

lemma items_jobs:
  "analyze_items Job_scope Job_items =
     Inr [(0, ''id''), (Suc 0, ''title''), (2, ''salary''), (3, ''equity''), (4, ''companyHandle''),
          (6, ''name'')]"
  by code_simp

lemma order_jobs: "analyze_order Job_scope (Some ''title'') = Inr (Some (Suc 0))"
  by code_simp

lemma resolve_jobs:
  "resolve Job_scope ''title'' = Inr (Suc 0)"
  "resolve Job_scope ''salary'' = Inr 2"
  "resolve Job_scope ''equity'' = Inr 3"
  by code_simp+

lemma col_type_jobs:
  "col_type Job_scope (Suc 0) = TyText"
  "col_type Job_scope 2 = TyInt"
  "col_type Job_scope 3 = TyNumeric"
  by code_simp+

lemma length_company_cells: "length (company_cells c) = 5"
  by (simp add: company_cells_def)

lemma length_job_cells: "length (job_cells j) = 5"
  by (simp add: job_cells_def)

lemma holds_join:
  "holds (job_cells j @ company_cells c) (GCols 5 ''='' 4) = (c_handle c = j_company_handle j)"
  by (simp add: nth_append length_job_cells company_cells_def job_cells_def compare_op_def
      eval_nat_numeral)

lemma left_join_jobs:
  "left_join (map job_cells js) (map company_cells cs) 5 (GCols 5 ''='' 4) =
     map joined_cells (concat (map (\<lambda>j. case filter (\<lambda>c. c_handle c = j_company_handle j) cs of
                         [] \<Rightarrow> [(j, None)]
                       | cs \<Rightarrow> map (\<lambda>c. (j, Some c)) cs) js))"
proof -
  have one: "filter (\<lambda>r2. holds (job_cells j @ r2) (GCols 5 ''='' 4)) (map company_cells cs)
      = map company_cells (filter (\<lambda>c. c_handle c = j_company_handle j) cs)" for j
    by (simp add: filter_map o_def holds_join del: holds.simps)
  have "left_join (map job_cells js) (map company_cells cs) 5 (GCols 5 ''='' 4) =
      concat (map (\<lambda>j. if filter (\<lambda>c. c_handle c = j_company_handle j) cs = []
                         then [job_cells j @ replicate 5 SNull]
                         else map (\<lambda>c. job_cells j @ company_cells c)
                                (filter (\<lambda>c. c_handle c = j_company_handle j) cs)) js)"
    by (simp add: left_join_def one o_def del: holds.simps cong: if_cong)
  also have "\<dots> = map joined_cells (concat (map (\<lambda>j.
        case filter (\<lambda>c. c_handle c = j_company_handle j) cs of
          [] \<Rightarrow> [(j, None)] | cs \<Rightarrow> map (\<lambda>c. (j, Some c)) cs) js))"
    by (induction js) (auto simp: joined_cells_def split: list.splits)
  finally show ?thesis .
qed

lemma project_job:
  "project [(0, ''id''), (Suc 0, ''title''), (2, ''salary''), (3, ''equity''), (4, ''companyHandle''),
          (6, ''name'')] (joined_cells p) = job_row p"
  by (simp add: project_def joined_cells_def job_cells_def company_cells_def job_row_def job_fields_def
      opt_cell_def eval_nat_numeral split: option.splits)

lemma table_rows_jobs: "table_rows db ''jobs'' = map job_cells (jobs db)"
  by (simp add: table_rows_def)

lemma select_source_jobs:
  "select_source db ''jobs'' ''j'' (Some (LeftJoin ''companies'' ''c'' ''c.handle'' ''j.company_handle''))
     = Inr (Job_scope, map joined_cells (jobs_joined db))"
proof -
  have sc: "take 5 Job_scope @ drop 5 Job_scope = Job_scope" by simp
  have len: "length Job_scope = 10" by (simp add: Job_scope_def)
  show ?thesis
    by (simp add: select_source_def scope_jobs_j scope_companies_c sc len join_cond_jobs
        table_rows_jobs table_rows_companies left_join_jobs jobs_joined_def
        del: append_take_drop_id)
qed

lemma sort_jobs:
  "sort_key (\<lambda>row. sort_rank (row ! Suc 0)) (map joined_cells ps)
     = map joined_cells (sort_key (\<lambda>p. j_title (fst p)) ps)"
proof -
  have "sort_key (\<lambda>p. sort_rank (joined_cells p ! Suc 0)) ps = sort_key (\<lambda>p. j_title (fst p)) ps"
    by (rule sort_key_cong_le) (simp add: joined_cells_def job_cells_def less_eq_prod_def)
  then show ?thesis by (simp add: sort_key_map)
qed

lemma exec_select_jobs:
  assumes "collect (map (analyze_cond Job_scope params) conds) = Inr gs"
  shows "exec_select db Job_items ''jobs'' ''j''
           (Some (LeftJoin ''companies'' ''c'' ''c.handle'' ''j.company_handle'')) conds
           (Some ''title'') params =
     Inr (map job_row (sort_key (\<lambda>p. j_title (fst p))
            (filter (\<lambda>p. satisfies gs (joined_cells p)) (jobs_joined db))))"
  using assms
  by (simp add: exec_select_def select_source_jobs items_jobs order_jobs order_rows_def
      filter_map o_def sort_jobs project_job)

lemma Job_filters_flags:
  "Job_filters f =
     (Job_vals (get_prop f ''title'') (get_prop f ''minSalary''),
      Job_exprs (get_prop f ''title'' \<noteq> JUndefined) (get_prop f ''minSalary'' \<noteq> JUndefined)
        (get_prop f ''hasEquity'' = JBool True))"
  by (simp add: Job_filters_def Let_def push_filter_def Job_vals_def Job_exprs_def
      string_of_nat_small)

lemma params_fit_Job:
  "params_fit (Select items t a j (Job_conds (tt \<noteq> JUndefined) (s \<noteq> JUndefined) b3) ord)
     (length (Job_vals tt s))"
  by (simp add: params_fit_def Job_conds_def Job_vals_def)

lemma Job_findAll_unfold:
  "Job_findAll db f =
     (case exec_select db Job_items ''jobs'' ''j''
             (Some (LeftJoin ''companies'' ''c'' ''c.handle'' ''j.company_handle''))
             (Job_conds (get_prop f ''title'' \<noteq> JUndefined) (get_prop f ''minSalary'' \<noteq> JUndefined)
                (get_prop f ''hasEquity'' = JBool True))
             (Some ''title'') (Job_vals (get_prop f ''title'') (get_prop f ''minSalary'')) of
        Inl e \<Rightarrow> Inl e
      | Inr rows \<Rightarrow> Inr (JArr (map JObj rows)),
      db\<lparr>issued := issued db @
         [(finish_query Job_select
             (Job_exprs (get_prop f ''title'' \<noteq> JUndefined) (get_prop f ''minSalary'' \<noteq> JUndefined)
                (get_prop f ''hasEquity'' = JBool True)) '' ORDER BY title'',
           Job_vals (get_prop f ''title'') (get_prop f ''minSalary''))]\<rparr>)"
  by (simp add: Job_findAll_def Job_findAll_query_def Job_filters_flags db_query_def Let_def
      parse_Job_findAll params_fit_Job exec_def exec_select_issued split: sum.splits)

lemma analyze_title:
  "analyze_cond Job_scope ps (Cond ''title'' ''ILIKE'' (Param k)) =
     (case bind_param TyText ps k of
        Inl e \<Rightarrow> Inl e
      | Inr v \<Rightarrow> if (case v of SText p \<Rightarrow> dangling_escape p | _ \<Rightarrow> False)
                 then Inl (StoreError ''LIKE pattern must not end with escape character'')
                 else Inr (GCmp (Suc 0) ''ILIKE'' v))"
  by (simp add: analyze_cond_def resolve_jobs col_type_jobs split: sum.splits)

lemma analyze_salary:
  "analyze_cond Job_scope ps (Cond ''salary'' ''>='' (Param k)) =
     (case bind_param TyInt ps k of Inl e \<Rightarrow> Inl e | Inr v \<Rightarrow> Inr (GCmp 2 ''>='' v))"
  by (simp add: analyze_cond_def resolve_jobs col_type_jobs split: sum.splits)

lemma analyze_equity:
  "analyze_cond Job_scope ps (Cond ''equity'' ''>'' (Lit 0)) = Inr (GCmp 3 ''>'' (SNum (Numeric 0 0)))"
  by (simp add: analyze_cond_def resolve_jobs col_type_jobs)

lemma holds_equity:
  "holds (joined_cells p) (GCmp 3 ''>'' (SNum (Numeric 0 0))) = has_equity (fst p)"
  by (simp add: joined_cells_def job_cells_def opt_cell_def compare_op_def has_equity_def
      numeric_rat_def eval_nat_numeral nth_append split: option.splits)

lemma holds_salary:
  "holds (joined_cells p) (GCmp 2 ''>='' (SInt s)) = salary_at_least s (fst p)"
  by (simp add: joined_cells_def job_cells_def opt_cell_def compare_op_def salary_at_least_def
      eval_nat_numeral nth_append split: option.splits)

lemma collect_append:
  "collect (xs @ ys) =
     (case collect xs of Inl e \<Rightarrow> Inl e
      | Inr as \<Rightarrow> (case collect ys of Inl e \<Rightarrow> Inl e | Inr bs \<Rightarrow> Inr (as @ bs)))"
  by (induction xs rule: collect.induct) (auto split: sum.splits)

lemma satisfies_append: "satisfies (gs @ hs) row = (satisfies gs row \<and> satisfies hs row)"
  by (simp add: satisfies_def)

lemma get_prop_delete_prop:
  "get_prop (delete_prop f k) k' = (if k' = k then JUndefined else get_prop f k')"
proof -
  have "map_of (filter (\<lambda>kv. fst kv \<noteq> k) f) k' = (if k' = k then None else map_of f k')"
    by (induction f) auto
  then show ?thesis by (simp add: get_prop_def delete_prop_def)
qed

lemma Job_conds_split:
  "Job_conds b1 b2 True = Job_conds b1 b2 False @ [Cond ''equity'' ''>'' (Lit 0)]"
  by (simp add: Job_conds_def)

lemma collect_Job_conds_equity:
  "collect (map (analyze_cond Job_scope ps) (Job_conds b1 b2 True)) =
     (case collect (map (analyze_cond Job_scope ps) (Job_conds b1 b2 False)) of
        Inl e \<Rightarrow> Inl e
      | Inr gs \<Rightarrow> Inr (gs @ [GCmp 3 ''>'' (SNum (Numeric 0 0))]))"
  by (simp add: Job_conds_split collect_append analyze_equity split: sum.splits)

lemma set_joined_one:
  "set (case xs of [] \<Rightarrow> [(j, None)] | c # cs \<Rightarrow> map (\<lambda>c. (j, Some c)) (c # cs)) =
     (if xs = [] then {(j, None)} else (\<lambda>c. (j, Some c)) ` set xs)"
  by (cases xs) auto

lemma jobs_joined_iff:
  "(j, co) \<in> set (jobs_joined db) \<longleftrightarrow>
     j \<in> set (jobs db) \<and>
     (case co of
        None \<Rightarrow> list_all (\<lambda>c. c_handle c \<noteq> j_company_handle j) (companies db)
      | Some c \<Rightarrow> c \<in> set (companies db) \<and> c_handle c = j_company_handle j)"
proof -
  have "set (jobs_joined db) =
      (\<Union>j' \<in> set (jobs db).
         (if filter (\<lambda>c. c_handle c = j_company_handle j') (companies db) = [] then {(j', None)}
          else (\<lambda>c. (j', Some c)) ` set (filter (\<lambda>c. c_handle c = j_company_handle j') (companies db))))"
    unfolding jobs_joined_def set_concat set_map image_image set_joined_one ..
  then show ?thesis
    by (cases co) (auto simp: filter_empty_conv list_all_iff split: if_splits)
qed

lemma exec_select_jobs_Inr:
  assumes "exec_select db Job_items ''jobs'' ''j''
           (Some (LeftJoin ''companies'' ''c'' ''c.handle'' ''j.company_handle'')) conds
           (Some ''title'') params = Inr jrows"
  shows "\<exists>gs. collect (map (analyze_cond Job_scope params) conds) = Inr gs \<and>
     jrows = map job_row (sort_key (\<lambda>p. j_title (fst p))
            (filter (\<lambda>p. satisfies gs (joined_cells p)) (jobs_joined db)))"
proof (cases "collect (map (analyze_cond Job_scope params) conds)")
  case (Inl e)
  with assms show ?thesis by (simp add: exec_select_def select_source_jobs)
next
  case (Inr gs)
  with assms show ?thesis by (simp add: exec_select_jobs[OF Inr])
qed

lemma example_jobs_with_equity:
  "map (\<lambda>p. JObj (job_row p))
     (sort_key (\<lambda>p. j_title (fst p)) (filter (\<lambda>p. has_equity (fst p)) (jobs_joined example_db))) =
   [JObj [(''id'', JNum 1), (''title'', JStr ''t1''), (''salary'', JNum 100),
          (''equity'', JStr ''0.1''), (''companyHandle'', JStr ''c1''), (''name'', JStr ''C1'')],
    JObj [(''id'', JNum 2), (''title'', JStr ''t2''), (''salary'', JNum 200),
          (''equity'', JStr ''0.2''), (''companyHandle'', JStr ''c2''), (''name'', JStr ''C2'')],
    JObj [(''id'', JNum 3), (''title'', JStr ''t3''), (''salary'', JNum 300),
          (''equity'', JStr ''0.3''), (''companyHandle'', JStr ''c3''), (''name'', JStr ''C3'')]]"
  by code_simp

lemma orphan_findAll:
  "Job_findAll orphan_db [(''title'', JStr ''2'')] =
     (Inr (JArr [JObj [(''id'', JNum 2), (''title'', JStr ''t2''), (''salary'', JNum 200),
          (''equity'', JStr ''0.2''), (''companyHandle'', JStr ''c2''), (''name'', JNull)]]),
      orphan_db\<lparr>issued := [(Job_select @ '' WHERE title ILIKE $1 ORDER BY title'', [JStr ''%2%''])]\<rparr>)"
  by code_simp

lemma placeholders_Company_all:
  "\<forall>b1 b2 b3. placeholders (finish_query Company_select (Company_exprs b1 b2 b3) '' ORDER BY name'') =
     [1..<Suc ((if b1 then 1 else 0) + (if b2 then 1 else 0) + (if b3 then 1 else 0))]"
  unfolding all_bool_eq by code_simp

lemma placeholders_Job_all:
  "\<forall>b1 b2 b3. placeholders (finish_query Job_select (Job_exprs b1 b2 b3) '' ORDER BY title'') =
     [1..<Suc ((if b1 then 1 else 0) + (if b2 then 1 else 0))]"
  unfolding all_bool_eq by code_simp

lemma length_Company_vals:
  "length (Company_vals m x n) =
     (if m \<noteq> JUndefined then 1 else 0) + (if x \<noteq> JUndefined then 1 else 0) + (if js_truthy n then 1 else 0)"
  by (simp add: Company_vals_def)

lemma length_Job_vals:
  "length (Job_vals t s) = (if t \<noteq> JUndefined then 1 else 0) + (if s \<noteq> JUndefined then 1 else 0)"
  by (simp add: Job_vals_def)

lemma Company_findAll_query_flags:
  "Company_findAll_query S f =
     (if js_gt S (get_prop f ''minEmployees'') (get_prop f ''maxEmployees'')
      then Inl (BadRequestError ''Minimum employees cannot be greater than max employees.'')
      else Inr (finish_query Company_select
                  (Company_exprs (get_prop f ''minEmployees'' \<noteq> JUndefined)
                     (get_prop f ''maxEmployees'' \<noteq> JUndefined) (js_truthy (get_prop f ''name'')))
                  '' ORDER BY name'',
                Company_vals (get_prop f ''minEmployees'') (get_prop f ''maxEmployees'') (get_prop f ''name'')))"
  by (simp add: Company_findAll_query_def Company_filters_flags)

lemma Job_findAll_query_flags:
  "Job_findAll_query f =
     (finish_query Job_select
        (Job_exprs (get_prop f ''title'' \<noteq> JUndefined) (get_prop f ''minSalary'' \<noteq> JUndefined)
           (get_prop f ''hasEquity'' = JBool True)) '' ORDER BY title'',
      Job_vals (get_prop f ''title'') (get_prop f ''minSalary''))"
  by (simp add: Job_findAll_query_def Job_filters_flags)

lemma bound_conditions_Company:
  "bound_conditions (finish_query Company_select
        (Company_exprs (m \<noteq> JUndefined) (x \<noteq> JUndefined) (js_truthy n)) '' ORDER BY name'')
      (Company_vals m x n) =
     (if m \<noteq> JUndefined then [(''num_employees'', ''>='', Some m)] else [])
     @ (if x \<noteq> JUndefined then [(''num_employees'', ''<='', Some x)] else [])
     @ (if js_truthy n then [(''name'', ''ILIKE'', Some (JStr (''%'' @ js_to_string n @ ''%'')))] else [])"
  by (simp add: bound_conditions_def parse_Company_findAll Company_conds_def Company_vals_def)

lemma bound_conditions_Job:
  "bound_conditions (finish_query Job_select
        (Job_exprs (t \<noteq> JUndefined) (s \<noteq> JUndefined) b3) '' ORDER BY title'')
      (Job_vals t s) =
     (if t \<noteq> JUndefined then [(''title'', ''ILIKE'', Some (JStr (''%'' @ js_to_string t @ ''%'')))] else [])
     @ (if s \<noteq> JUndefined then [(''salary'', ''>='', Some s)] else [])
     @ (if b3 then [(''equity'', ''>'', None)] else [])"
  by (simp add: bound_conditions_def parse_Job_findAll Job_conds_def Job_vals_def)

lemma example_query:
  "Company_findAll_query (\<lambda>s. NaN) all_filters =
     Inr (Company_select @ '' WHERE num_employees >= $1 AND num_employees <= $2 AND name ILIKE $3 ORDER BY name'',
          [JNum 2, JNum 9, JStr ''%net%''])"
  by code_simp

lemma example_job_query:
  "Job_findAll_query all_filters =
     (Job_select @ '' WHERE title ILIKE $1 AND salary >= $2 AND equity > 0 ORDER BY title'',
          [JStr ''%1%'', JNum 50])"
  by code_simp

lemma exec_select_companies_Inr:
  assumes "exec_select db Company_items ''companies'' ''companies'' None conds (Some ''name'') params = Inr jrows"
  shows "\<exists>gs. collect (map (analyze_cond Company_scope params) conds) = Inr gs \<and>
     jrows = map company_row (sort_key c_name (filter (\<lambda>c. satisfies gs (company_cells c)) (companies db)))"
proof (cases "collect (map (analyze_cond Company_scope params) conds)")
  case (Inl e)
  with assms show ?thesis by (simp add: exec_select_def select_source_def scope_companies)
next
  case (Inr gs)
  with assms show ?thesis by (simp add: exec_select_companies[OF Inr])
qed

lemma Company_exprs_empty: "Company_exprs b1 b2 b3 = [] \<longleftrightarrow> \<not> b1 \<and> \<not> b2 \<and> \<not> b3"
  by (simp add: Company_exprs_def)

lemma Job_exprs_empty: "Job_exprs b1 b2 b3 = [] \<longleftrightarrow> \<not> b1 \<and> \<not> b2 \<and> \<not> b3"
  by (simp add: Job_exprs_def)

lemma example_companies_sorted:
  "map (\<lambda>c. JObj (company_row c)) (sort_key c_name (companies example_db)) =
     [JObj [(''handle'', JStr ''c1''), (''name'', JStr ''C1''), (''description'', JStr ''Desc1''),
            (''numEmployees'', JNum 1), (''logoUrl'', JStr ''http://c1.img'')],
      JObj [(''handle'', JStr ''c2''), (''name'', JStr ''C2''), (''description'', JStr ''Desc2''),
            (''numEmployees'', JNum 2), (''logoUrl'', JStr ''http://c2.img'')],
      JObj [(''handle'', JStr ''c3''), (''name'', JStr ''C3''), (''description'', JStr ''Desc3''),
            (''numEmployees'', JNum 3), (''logoUrl'', JStr ''http://c3.img'')],
      JObj [(''handle'', JStr ''c4''), (''name'', JStr ''C4''), (''description'', JStr ''Desc4''),
            (''numEmployees'', JNull), (''logoUrl'', JNull)]]"
  by code_simp

lemma example_jobs_sorted:
  "map (\<lambda>p. JObj (job_row p)) (sort_key (\<lambda>p. j_title (fst p)) (jobs_joined example_db)) =
     [JObj [(''id'', JNum 1), (''title'', JStr ''t1''), (''salary'', JNum 100),
            (''equity'', JStr ''0.1''), (''companyHandle'', JStr ''c1''), (''name'', JStr ''C1'')],
      JObj [(''id'', JNum 2), (''title'', JStr ''t2''), (''salary'', JNum 200),
            (''equity'', JStr ''0.2''), (''companyHandle'', JStr ''c2''), (''name'', JStr ''C2'')],
      JObj [(''id'', JNum 3), (''title'', JStr ''t3''), (''salary'', JNum 300),
            (''equity'', JStr ''0.3''), (''companyHandle'', JStr ''c3''), (''name'', JStr ''C3'')],
      JObj [(''id'', JNum 4), (''title'', JStr ''t4''), (''salary'', JNum 50),
            (''equity'', JStr ''0''), (''companyHandle'', JStr ''c1''), (''name'', JStr ''C1'')],
      JObj [(''id'', JNum 5), (''title'', JStr ''t5''), (''salary'', JNull),
            (''equity'', JNull), (''companyHandle'', JStr ''c1''), (''name'', JStr ''C1'')]]"
  by code_simp

lemma Company_filters_empty_name:
  "Company_filters S [(''name'', JStr [])] = Inr ([], [])"
  by (simp add: Company_filters_flags get_prop_def js_gt_def Company_vals_def Company_exprs_def)

lemma parse_Job_get_sql:
  "parse_sql Job_get_sql =
     Some (Select Job_get_items ''jobs'' ''jobs'' None [Cond ''id'' ''='' (Param 1)] None)"
  by code_simp

lemma parse_Job_company_sql:
  "parse_sql Job_company_sql =
     Some (Select Company_items ''companies'' ''companies'' None [Cond ''handle'' ''='' (Param 1)] None)"
  by code_simp

lemma parse_Job_remove_sql:
  "parse_sql ''DELETE FROM jobs WHERE id = $1 RETURNING id'' =
     Some (Delete ''jobs'' [Cond ''id'' ''='' (Param 1)] [(''id'', ''id'')])"
  by code_simp

lemma scope_jobs: "scope_of ''jobs'' ''jobs'' = Some Jobs_scope"
  by code_simp

lemma by_handle_cond:
  "analyze_cond Company_scope [JStr h] (Cond ''handle'' ''='' (Param (Suc 0))) = Inr (GCmp 0 ''='' (SText h))"
  by (simp add: analyze_cond_def resolve_companies col_type_companies bind_param_def)

lemma by_id_cond:
  "analyze_cond Jobs_scope [JNum i] (Cond ''id'' ''='' (Param (Suc 0))) = Inr (GCmp 0 ''='' (SInt i))"
proof -
  have "resolve Jobs_scope ''id'' = Inr 0" "col_type Jobs_scope 0 = TyInt" by code_simp+
  then show ?thesis by (simp add: analyze_cond_def bind_param_def)
qed

lemma by_company_handle_cond:
  "analyze_cond Jobs_scope [JStr h] (Cond ''company_handle'' ''='' (Param (Suc 0))) = Inr (GCmp 4 ''='' (SText h))"
proof -
  have "resolve Jobs_scope ''company_handle'' = Inr 4" "col_type Jobs_scope 4 = TyText" by code_simp+
  then show ?thesis by (simp add: analyze_cond_def bind_param_def)
qed

lemma satisfies_by_handle:
  "satisfies [GCmp 0 ''='' (SText h)] (company_cells c) = (c_handle c = h)"
  by (simp add: satisfies_def company_cells_def compare_op_def)

lemma satisfies_by_id:
  "satisfies [GCmp 0 ''='' (SInt i)] (job_cells j) = (j_id j = i)"
  by (simp add: satisfies_def job_cells_def compare_op_def)

lemma satisfies_by_company_handle:
  "satisfies [GCmp 4 ''='' (SText h)] (job_cells j) = (j_company_handle j = h)"
  by (simp add: satisfies_def job_cells_def compare_op_def eval_nat_numeral)

lemma select_company_by_handle:
  "exec_select db Company_items ''companies'' ''companies'' None [Cond ''handle'' ''='' (Param (Suc 0))] None
     [JStr h] = Inr (map company_row (filter (\<lambda>c. c_handle c = h) (companies db)))"
  by (simp add: exec_select_def select_source_def scope_companies by_handle_cond items_companies
      analyze_order_def order_rows_def table_rows_companies filter_map o_def satisfies_by_handle
      project_company)

lemma items_job_get:
  "analyze_items Jobs_scope Job_get_items =
     Inr [(0, ''id''), (Suc 0, ''title''), (2, ''salary''), (3, ''equity''), (4, ''companyHandle'')]"
  by code_simp

lemma items_company_jobs:
  "analyze_items Jobs_scope [(''id'', ''id''), (''title'', ''title''), (''salary'', ''salary''), (''equity'', ''equity'')] =
     Inr [(0, ''id''), (Suc 0, ''title''), (2, ''salary''), (3, ''equity'')]"
  by code_simp

lemma project_job_get:
  "project [(0, ''id''), (Suc 0, ''title''), (2, ''salary''), (3, ''equity''), (4, ''companyHandle'')]
     (job_cells j) = job_public j"
  by (simp add: project_def job_cells_def job_public_def job_fields_def opt_cell_def eval_nat_numeral
      split: option.splits)

lemma project_job_fields:
  "project [(0, ''id''), (Suc 0, ''title''), (2, ''salary''), (3, ''equity'')] (job_cells j) = job_fields j"
  by (simp add: project_def job_cells_def job_fields_def opt_cell_def eval_nat_numeral
      split: option.splits)

lemma select_job_by_id:
  "exec_select db Job_get_items ''jobs'' ''jobs'' None [Cond ''id'' ''='' (Param (Suc 0))] None [JNum i]
     = Inr (map job_public (filter (\<lambda>j. j_id j = i) (jobs db)))"
  by (simp add: exec_select_def select_source_def scope_jobs by_id_cond items_job_get
      analyze_order_def order_rows_def table_rows_jobs filter_map o_def satisfies_by_id
      project_job_get)

lemma select_jobs_of_company:
  "exec_select db [(''id'', ''id''), (''title'', ''title''), (''salary'', ''salary''), (''equity'', ''equity'')]
     ''jobs'' ''jobs'' None [Cond ''company_handle'' ''='' (Param (Suc 0))] None [JStr h]
     = Inr (map job_fields (filter (\<lambda>j. j_company_handle j = h) (jobs db)))"
  by (simp add: exec_select_def select_source_def scope_jobs by_company_handle_cond items_company_jobs
      analyze_order_def order_rows_def table_rows_jobs filter_map o_def satisfies_by_company_handle
      project_job_fields)

lemma params_fit_one:
  "params_fit (Select items t a j [Cond c op (Param (Suc 0))] ord) (Suc 0)"
  "params_fit (Delete t [Cond c op (Param (Suc 0))] items) (Suc 0)"
  by (simp_all add: params_fit_def)

lemma db_query_Company_get:
  "db_query db Company_get_sql [JStr h] =
     (Inr (map company_row (filter (\<lambda>c. c_handle c = h) (companies db))),
      db\<lparr>issued := issued db @ [(Company_get_sql, [JStr h])]\<rparr>)"
  by (simp add: db_query_def Let_def parse_Company_get_sql params_fit_one exec_def
      exec_select_issued select_company_by_handle)

lemma db_query_Job_company:
  "db_query db Job_company_sql [JStr h] =
     (Inr (map company_row (filter (\<lambda>c. c_handle c = h) (companies db))),
      db\<lparr>issued := issued db @ [(Job_company_sql, [JStr h])]\<rparr>)"
  by (simp add: db_query_def Let_def parse_Job_company_sql params_fit_one exec_def
      exec_select_issued select_company_by_handle)

lemma db_query_Company_jobs:
  "db_query db Company_jobs_sql [JStr h] =
     (Inr (map job_fields (filter (\<lambda>j. j_company_handle j = h) (jobs db))),
      db\<lparr>issued := issued db @ [(Company_jobs_sql, [JStr h])]\<rparr>)"
  by (simp add: db_query_def Let_def parse_Company_jobs_sql params_fit_one exec_def
      exec_select_issued select_jobs_of_company)

lemma db_query_Job_get:
  "db_query db Job_get_sql [JNum i] =
     (Inr (map job_public (filter (\<lambda>j. j_id j = i) (jobs db))),
      db\<lparr>issued := issued db @ [(Job_get_sql, [JNum i])]\<rparr>)"
  by (simp add: db_query_def Let_def parse_Job_get_sql params_fit_one exec_def
      exec_select_issued select_job_by_id)

lemma get_prop_company_handle: "get_prop (company_row c) ''handle'' = JStr (c_handle c)"
  by (simp add: get_prop_def company_row_def)

lemma get_prop_job_companyHandle: "get_prop (job_public j) ''companyHandle'' = JStr (j_company_handle j)"
  by (simp add: get_prop_def job_public_def job_fields_def)

lemma set_prop_company_jobs: "set_prop (company_row c) ''jobs'' v = company_row c @ [(''jobs'', v)]"
  by (simp add: company_row_def)

lemma set_prop_job_company:
  "set_prop (delete_prop (job_public j) ''companyHandle'') ''company'' v = job_fields j @ [(''company'', v)]"
  by (simp add: job_public_def job_fields_def delete_prop_def)

lemma find_filter_None: "find P xs = None \<longleftrightarrow> filter P xs = []"
  by (induction xs) auto

lemma Company_get_result:
  "Company_get db (JStr h) =
     (case find (\<lambda>c. c_handle c = h) (companies db) of
        None \<Rightarrow> (Inl (NotFoundError (''No company: '' @ h)),
                 db\<lparr>issued := issued db @ [(Company_get_sql, [JStr h])]\<rparr>)
      | Some c \<Rightarrow>
          (Inr (JObj (company_row c @
                  [(''jobs'', JArr (map (\<lambda>j. JObj (job_fields j))
                                     (filter (\<lambda>j. j_company_handle j = c_handle c) (jobs db))))])),
           db\<lparr>issued := issued db @ [(Company_get_sql, [JStr h]), (Company_jobs_sql, [JStr (c_handle c)])]\<rparr>))"
  by (simp add: Company_get_def db_query_Company_get first_row_map_filter db_query_Company_jobs
      get_prop_company_handle set_prop_company_jobs o_def split: option.splits)

lemma Job_get_result:
  "Job_get db (JNum i) =
     (case find (\<lambda>j. j_id j = i) (jobs db) of
        None \<Rightarrow> (Inl (NotFoundError (''Job ID: '' @ string_of_int i @ '' not found.'')),
                 db\<lparr>issued := issued db @ [(Job_get_sql, [JNum i])]\<rparr>)
      | Some j \<Rightarrow>
          (Inr (JObj (job_fields j @
                  [(''company'',
                    (case find (\<lambda>c. c_handle c = j_company_handle j) (companies db) of
                       None \<Rightarrow> JUndefined | Some c \<Rightarrow> JObj (company_row c)))])),
           db\<lparr>issued := issued db @ [(Job_get_sql, [JNum i]), (Job_company_sql, [JStr (j_company_handle j)])]\<rparr>))"
  by (simp add: Job_get_def db_query_Job_get first_row_map_filter db_query_Job_company
      get_prop_job_companyHandle set_prop_job_company o_def split: option.splits)

lemma filter_no_match: "find P xs = None \<Longrightarrow> filter (\<lambda>x. \<not> P x) xs = xs"
  by (induction xs) (auto split: if_splits)

lemma items_handle: "analyze_items Company_scope [(''handle'', ''handle'')] = Inr [(0, ''handle'')]"
  by code_simp

lemma items_id: "analyze_items Jobs_scope [(''id'', ''id'')] = Inr [(0, ''id'')]"
  by code_simp

lemma project_handle: "project [(0, ''handle'')] (company_cells c) = [(''handle'', JStr (c_handle c))]"
  by (simp add: project_def company_cells_def)

lemma project_id: "project [(0, ''id'')] (job_cells j) = [(''id'', JNum (j_id j))]"
  by (simp add: project_def job_cells_def)

lemma db_query_Company_remove:
  "db_query db ''DELETE FROM companies WHERE handle = $1 RETURNING handle'' [JStr h] =
     (Inr (map (\<lambda>c. [(''handle'', JStr (c_handle c))]) (filter (\<lambda>c. c_handle c = h) (companies db))),
      db\<lparr>companies := filter (\<lambda>c. c_handle c \<noteq> h) (companies db),
         jobs := filter (\<lambda>j. j_company_handle j \<notin>
                   set (map c_handle (filter (\<lambda>c. c_handle c = h) (companies db)))) (jobs db),
         issued := issued db @ [(''DELETE FROM companies WHERE handle = $1 RETURNING handle'', [JStr h])]\<rparr>)"
  by (simp add: db_query_def Let_def parse_Company_remove_sql params_fit_one exec_def exec_delete_def
      scope_companies by_handle_cond items_handle satisfies_by_handle table_rows_companies
      filter_map o_def project_handle)

lemma db_query_Job_remove:
  "db_query db ''DELETE FROM jobs WHERE id = $1 RETURNING id'' [JNum i] =
     (Inr (map (\<lambda>j. [(''id'', JNum (j_id j))]) (filter (\<lambda>j. j_id j = i) (jobs db))),
      db\<lparr>jobs := filter (\<lambda>j. j_id j \<noteq> i) (jobs db),
         issued := issued db @ [(''DELETE FROM jobs WHERE id = $1 RETURNING id'', [JNum i])]\<rparr>)"
  by (simp add: db_query_def Let_def parse_Job_remove_sql params_fit_one exec_def exec_delete_def
      scope_jobs by_id_cond items_id satisfies_by_id table_rows_jobs
      filter_map o_def project_id)

lemma Company_remove_result:
  "Company_remove db (JStr h) =
     (case find (\<lambda>c. c_handle c = h) (companies db) of
        None \<Rightarrow> (Inl (NotFoundError (''No company: '' @ h)),
                 db\<lparr>issued := issued db @
                    [(''DELETE FROM companies WHERE handle = $1 RETURNING handle'', [JStr h])]\<rparr>)
      | Some c \<Rightarrow>
          (Inr JUndefined,
           db\<lparr>companies := filter (\<lambda>c. c_handle c \<noteq> h) (companies db),
              jobs := filter (\<lambda>j. j_company_handle j \<noteq> h) (jobs db),
              issued := issued db @
                [(''DELETE FROM companies WHERE handle = $1 RETURNING handle'', [JStr h])]\<rparr>))"
proof (cases "find (\<lambda>c. c_handle c = h) (companies db)")
  case None
  then have "filter (\<lambda>c. c_handle c = h) (companies db) = []"
    by (simp add: find_filter_None)
  moreover from None have "filter (\<lambda>c. c_handle c \<noteq> h) (companies db) = companies db"
    by (rule filter_no_match)
  ultimately show ?thesis
    using None by (simp add: Company_remove_def db_query_Company_remove first_row_def)
next
  case (Some c)
  then have ne: "filter (\<lambda>c. c_handle c = h) (companies db) \<noteq> []"
    by (metis find_filter_None option.distinct(1))
  then have "set (map c_handle (filter (\<lambda>c. c_handle c = h) (companies db))) = {h}"
    by (cases "filter (\<lambda>c. c_handle c = h) (companies db)") (auto simp: filter_eq_Cons_iff)
  then show ?thesis
    using Some ne
    by (simp add: Company_remove_def db_query_Company_remove first_row_map_filter)
qed

lemma Job_remove_result:
  "Job_remove db (JNum i) =
     (case find (\<lambda>j. j_id j = i) (jobs db) of
        None \<Rightarrow> (Inl (NotFoundError (''Job '' @ string_of_int i @ '' not found.'')),
                 db\<lparr>issued := issued db @ [(''DELETE FROM jobs WHERE id = $1 RETURNING id'', [JNum i])]\<rparr>)
      | Some j \<Rightarrow>
          (Inr JUndefined,
           db\<lparr>jobs := filter (\<lambda>j. j_id j \<noteq> i) (jobs db),
              issued := issued db @ [(''DELETE FROM jobs WHERE id = $1 RETURNING id'', [JNum i])]\<rparr>))"
proof (cases "find (\<lambda>j. j_id j = i) (jobs db)")
  case None
  then have "filter (\<lambda>j. j_id j \<noteq> i) (jobs db) = jobs db"
    by (rule filter_no_match)
  then show ?thesis
    using None by (simp add: Job_remove_def db_query_Job_remove first_row_map_filter)
next
  case (Some j)
  then show ?thesis
    by (simp add: Job_remove_def db_query_Job_remove first_row_map_filter)
qed

lemma issued_exec_insert: "issued (snd (exec_insert db t cols vals items ps)) = issued db"
  by (simp add: exec_insert_def Let_def split: option.split sum.split prod.split)

lemma issued_exec_update: "issued (snd (exec_update db t sets conds items ps)) = issued db"
  by (simp add: exec_update_def Let_def split: option.split sum.split prod.split)

lemma issued_exec_delete: "issued (snd (exec_delete db t conds items ps)) = issued db"
  by (simp add: exec_delete_def Let_def split: option.split sum.split prod.split)

lemma exec_insert_rows_shape:
  "case exec_insert db t cols vals items ps of
     (Inl e, d) \<Rightarrow> True
   | (Inr rows, d) \<Rightarrow>
       (\<exists>outs cells. (case scope_of t t of None \<Rightarrow> False
                         | Some scope \<Rightarrow> analyze_items scope items = Inr outs)
          \<and> rows = [project outs cells])"
  apply (simp add: exec_insert_def Let_def split: option.split sum.split prod.split)
  apply blast
  done

lemma issued_exec: "issued (snd (exec db st ps)) = issued db"
  by (cases st) (simp_all add: exec_def issued_exec_insert issued_exec_update issued_exec_delete)

lemma issued_db_query: "issued (snd (db_query db sql ps)) = issued db @ [(sql, ps)]"
  by (simp add: db_query_def Let_def issued_exec split: option.splits)

lemma Job_create_items:
  "analyze_items Jobs_scope
     [(''id'', ''id''), (''title'', ''title''), (''salary'', ''salary''), (''equity'', ''equity''),
      (''company_handle'', ''companyHandle'')] =
   Inr [(0, ''id''), (Suc 0, ''title''), (2, ''salary''), (3, ''equity''), (4, ''companyHandle'')]"
  by code_simp

lemma project_names:
  "map fst (project [(0, ''id''), (Suc 0, ''title''), (2, ''salary''), (3, ''equity''), (4, ''companyHandle'')] cells)
     = [''id'', ''title'', ''salary'', ''equity'', ''companyHandle'']"
  by (simp add: project_def)

lemma exec_insert_jobs_rows:
  assumes "exec_insert db ''jobs'' cols vals
     [(''id'', ''id''), (''title'', ''title''), (''salary'', ''salary''), (''equity'', ''equity''),
      (''company_handle'', ''companyHandle'')] ps = (Inr rows, db')"
  shows "\<exists>row. rows = [row] \<and> map fst row = [''id'', ''title'', ''salary'', ''equity'', ''companyHandle'']"
  using exec_insert_rows_shape[where db=db and t="''jobs''" and cols=cols and vals=vals
     and ps=ps and items="[(''id'', ''id''), (''title'', ''title''), (''salary'', ''salary''),
      (''equity'', ''equity''), (''company_handle'', ''companyHandle'')]"] assms
  by (simp add: scope_jobs Job_create_items) (metis project_names)

lemma Job_create_snd:
  "snd (Job_create db data) =
     snd (db_query db Job_create_sql
            [get_prop data ''title'', get_prop data ''salary'', get_prop data ''equity'',
             get_prop data ''company_handle''])"
  by (simp add: Job_create_def split: prod.split sum.split option.split)

lemma Job_create_Inr:
  assumes "Job_create db data = (Inr job, db')"
    and "db_query db Job_create_sql
           [get_prop data ''title'', get_prop data ''salary'', get_prop data ''equity'',
            get_prop data ''company_handle''] = (r, d)"
  shows "\<exists>rows. r = Inr rows \<and> d = db'
           \<and> job = (case first_row rows of None \<Rightarrow> JUndefined | Some r \<Rightarrow> JObj r)"
  using assms by (cases r) (auto simp: Job_create_def split: option.splits)

lemma db_query_Job_create_Inr:
  assumes "db_query db Job_create_sql ps = (Inr rows, db')"
  shows "exec_insert (db\<lparr>issued := issued db @ [(Job_create_sql, ps)]\<rparr>) ''jobs''
      [''title'', ''salary'', ''equity'', ''company_handle''] [Param 1, Param 2, Param 3, Param 4]
      [(''id'', ''id''), (''title'', ''title''), (''salary'', ''salary''), (''equity'', ''equity''),
       (''company_handle'', ''companyHandle'')] ps = (Inr rows, db')"
  using assms
  by (simp add: db_query_def Let_def parse_Job_create_sql exec_def split: if_splits)

lemma get_prop_absent: "k \<notin> fst ` set obj \<Longrightarrow> get_prop obj k = JUndefined"
  by (simp add: get_prop_def map_of_eq_None_iff[THEN iffD2])

lemma Job_create_row_names:
  assumes res: "Job_create db data = (Inr job, db')"
  shows "\<exists>row. job = JObj row \<and> map fst row = [''id'', ''title'', ''salary'', ''equity'', ''companyHandle'']"
proof -
  let ?ps = "[get_prop data ''title'', get_prop data ''salary'', get_prop data ''equity'',
         get_prop data ''company_handle'']"
  obtain r d where rd: "db_query db Job_create_sql ?ps = (r, d)"
    by (cases "db_query db Job_create_sql ?ps")
  from Job_create_Inr[OF res rd] obtain rows where r: "r = Inr rows" and d: "d = db'"
    and job: "job = (case first_row rows of None \<Rightarrow> JUndefined | Some r \<Rightarrow> JObj r)"
    by (elim exE conjE)
  from rd have q: "db_query db Job_create_sql ?ps = (Inr rows, db')" unfolding r d .
  from exec_insert_jobs_rows[OF db_query_Job_create_Inr[OF q]] obtain row where
    rows: "rows = [row]"
    and names: "map fst row = [''id'', ''title'', ''salary'', ''equity'', ''companyHandle'']"
    by (elim exE conjE)
  have "job = JObj row" unfolding job rows by (simp add: first_row_def)
  with names show ?thesis by (intro exI conjI)
qed

lemma example_create:
  "Job_create example_db
     [(''title'', JStr ''myTitle''), (''salary'', JNum 9999), (''equity'', JStr ''0.1''),
      (''company_handle'', JStr ''c1'')] =
   (Inr (JObj [(''id'', JNum 6), (''title'', JStr ''myTitle''), (''salary'', JNum 9999),
               (''equity'', JStr ''0.1''), (''companyHandle'', JStr ''c1'')]),
    example_db\<lparr>jobs := jobs example_db @
         [\<lparr>j_id = 6, j_title = ''myTitle'', j_salary = Some 9999, j_equity = Some (Numeric 1 1),
           j_company_handle = ''c1''\<rparr>],
       jobs_id_seq := 6,
       issued := [(Job_create_sql, [JStr ''myTitle'', JNum 9999, JStr ''0.1'', JStr ''c1''])]\<rparr>)"
  by code_simp

lemma example_create_semantic_key:
  "fst (Job_create example_db
     [(''title'', JStr ''myTitle''), (''salary'', JNum 9999), (''equity'', JStr ''0.1''),
      (''companyHandle'', JStr ''c1'')]) =
   Inl (StoreError ''violates a constraint of the column'')"
  by code_simp

lemma example_company_c1:
  "find (\<lambda>c. c_handle c = ''c1'') (companies example_db) =
     Some \<lparr>c_handle = ''c1'', c_name = ''C1'', c_description = ''Desc1'',
           c_num_employees = Some 1, c_logo_url = Some ''http://c1.img''\<rparr>"
  by code_simp

lemma example_job_2:
  "find (\<lambda>j. j_id j = 2) (jobs example_db) =
     Some \<lparr>j_id = 2, j_title = ''t2'', j_salary = Some 200, j_equity = Some (Numeric 2 1),
           j_company_handle = ''c2''\<rparr>"
  by code_simp

lemma example_company_with_jobs:
  "company_row \<lparr>c_handle = ''c1'', c_name = ''C1'', c_description = ''Desc1'',
           c_num_employees = Some 1, c_logo_url = Some ''http://c1.img''\<rparr> @
     [(''jobs'', JArr (map (\<lambda>j. JObj (job_fields j))
                        (filter (\<lambda>j. j_company_handle j = ''c1'') (jobs example_db))))] =
   [(''handle'', JStr ''c1''), (''name'', JStr ''C1''), (''description'', JStr ''Desc1''),
    (''numEmployees'', JNum 1), (''logoUrl'', JStr ''http://c1.img''),
    (''jobs'', JArr
       [JObj [(''id'', JNum 1), (''title'', JStr ''t1''), (''salary'', JNum 100), (''equity'', JStr ''0.1'')],
        JObj [(''id'', JNum 4), (''title'', JStr ''t4''), (''salary'', JNum 50), (''equity'', JStr ''0'')],
        JObj [(''id'', JNum 5), (''title'', JStr ''t5''), (''salary'', JNull), (''equity'', JNull)]])]"
  by code_simp

lemma example_job_fields:
  "job_fields \<lparr>j_id = 2, j_title = ''t2'', j_salary = Some 200, j_equity = Some (Numeric 2 1),
           j_company_handle = ''c2''\<rparr> =
   [(''id'', JNum 2), (''title'', JStr ''t2''), (''salary'', JNum 200), (''equity'', JStr ''0.2'')]"
  by code_simp

lemma example_company_c2:
  "find (\<lambda>c. c_handle c = ''c2'') (companies example_db) =
     Some \<lparr>c_handle = ''c2'', c_name = ''C2'', c_description = ''Desc2'',
           c_num_employees = Some 2, c_logo_url = Some ''http://c2.img''\<rparr>"
  by code_simp

lemma example_job_with_company:
  "job_fields \<lparr>j_id = 2, j_title = ''t2'', j_salary = Some 200, j_equity = Some (Numeric 2 1),
           j_company_handle = ''c2''\<rparr> @
     [(''company'',
       (case find (\<lambda>c. c_handle c = ''c2'') (companies example_db) of
          None \<Rightarrow> JUndefined | Some c \<Rightarrow> JObj (company_row c)))] =
   [(''id'', JNum 2), (''title'', JStr ''t2''), (''salary'', JNum 200), (''equity'', JStr ''0.2''),
    (''company'', JObj [(''handle'', JStr ''c2''), (''name'', JStr ''C2''),
                        (''description'', JStr ''Desc2''), (''numEmployees'', JNum 2),
                        (''logoUrl'', JStr ''http://c2.img'')])]"
  by code_simp

lemma digit_char_props:
  assumes "d < 10"
  shows "is_digit (digit_char d)" and "digit_val (digit_char d) = d"
proof -
  from assms have "d = 0 \<or> d = 1 \<or> d = 2 \<or> d = 3 \<or> d = 4 \<or> d = 5 \<or> d = 6 \<or> d = 7 \<or> d = 8 \<or> d = 9"
    by arith
  then show "is_digit (digit_char d)" and "digit_val (digit_char d) = d"
    by (auto simp: digit_char_def is_digit_def digit_val_def)
qed

lemma string_of_nat_digits: "list_all is_digit (string_of_nat n) \<and> string_of_nat n \<noteq> []"
proof (induction n rule: string_of_nat.induct)
  case (1 n)
  show ?case
  proof (cases "n < 10")
    case True
    then show ?thesis by (subst (1 2) string_of_nat.simps) (simp add: digit_char_props)
  next
    case False
    with 1 show ?thesis
      by (subst (1 2) string_of_nat.simps) (simp add: digit_char_props)
  qed
qed

lemma nat_of_digits_snoc: "nat_of_digits (ds @ [d]) = 10 * nat_of_digits ds + digit_val d"
  by (simp add: nat_of_digits_def)

lemma nat_of_digits_string_of_nat: "nat_of_digits (string_of_nat n) = n"
proof (induction n rule: string_of_nat.induct)
  case (1 n)
  show ?case
  proof (cases "n < 10")
    case True
    then show ?thesis
      by (subst string_of_nat.simps) (simp add: nat_of_digits_def digit_char_props)
  next
    case False
    with 1 show ?thesis
      by (subst string_of_nat.simps) (simp add: nat_of_digits_snoc digit_char_props)
  qed
qed

lemma takeWhile_digits:
  "no_digit_ahead rest \<Longrightarrow> takeWhile is_digit (string_of_nat k @ rest) = string_of_nat k"
  using string_of_nat_digits[of k]
  by (cases rest) (auto simp: takeWhile_append2 list_all_iff no_digit_ahead_def)

lemma dropWhile_digits:
  "no_digit_ahead rest \<Longrightarrow> dropWhile is_digit (string_of_nat k @ rest) = rest"
  using string_of_nat_digits[of k]
  by (cases rest) (auto simp: dropWhile_append2 list_all_iff no_digit_ahead_def)

lemma tokenize_param:
  assumes "no_digit_ahead rest"
  shows "tokenize (CHR ''$'' # string_of_nat k @ rest) = map_option ((#) (TParam k)) (tokenize rest)"
  using string_of_nat_digits[of k]
  by (subst tokenize.simps)
     (simp add: is_space_def takeWhile_digits[OF assms] dropWhile_digits[OF assms]
        nat_of_digits_string_of_nat)

lemma takeWhile_until: "q \<notin> set c \<Longrightarrow> takeWhile (\<lambda>x. x \<noteq> q) (c @ q # rest) = c"
  by (induction c) auto

lemma dropWhile_until: "q \<notin> set c \<Longrightarrow> dropWhile (\<lambda>x. x \<noteq> q) (c @ q # rest) = q # rest"
  by (induction c) auto

lemma tokenize_assignment:
  assumes "CHR 0x22 \<notin> set c" and "no_digit_ahead rest"
  shows "tokenize (CHR 0x22 # c @ CHR 0x22 # CHR ''='' # CHR ''$'' # string_of_nat k @ rest) =
     map_option (\<lambda>ts. TQuoted c # TSym ''='' # TParam k # ts) (tokenize rest)"
proof -
  have tw: "takeWhile (\<lambda>x. x \<noteq> CHR 0x22) (c @ CHR 0x22 # CHR ''='' # CHR ''$'' # string_of_nat k @ rest) = c"
    using assms(1) by (rule takeWhile_until)
  have dw: "dropWhile (\<lambda>x. x \<noteq> CHR 0x22) (c @ CHR 0x22 # CHR ''='' # CHR ''$'' # string_of_nat k @ rest)
      = CHR 0x22 # CHR ''='' # CHR ''$'' # string_of_nat k @ rest"
    using assms(1) by (rule dropWhile_until)
  have eq: "tokenize (CHR ''='' # CHR ''$'' # string_of_nat k @ rest)
      = map_option ((#) (TSym ''='')) (tokenize (CHR ''$'' # string_of_nat k @ rest))"
    by (subst tokenize.simps) (simp add: is_space_def is_digit_def is_word_char_def)
  show ?thesis
    by (subst tokenize.simps)
       (simp add: is_space_def tw dw eq tokenize_param[OF assms(2)] option.map_comp o_def)
qed

lemma set_cols_text:
  "js_join '', ''
     (map (\<lambda>(colName, idx). CHR 0x22 # (case map_of jsToSql colName of None \<Rightarrow> colName | Some c \<Rightarrow> c)
               @ CHR 0x22 # CHR ''='' # CHR ''$'' # string_of_nat (idx + 1))
        (zip keys [i..<i + length keys]))
   = set_text (Suc i) (map (column_of jsToSql) keys)"
proof (induction keys arbitrary: i)
  case Nil
  then show ?case by simp
next
  case (Cons k ks)
  let ?F = "\<lambda>(colName, idx). CHR 0x22 # (case map_of jsToSql colName of None \<Rightarrow> colName | Some c \<Rightarrow> c)
               @ CHR 0x22 # CHR ''='' # CHR ''$'' # string_of_nat (idx + 1)"
  let ?rest = "map ?F (zip ks [Suc i..<Suc i + length ks])"
  have step: "map ?F (zip (k # ks) [i..<i + length (k # ks)]) = ?F (k, i) # ?rest"
    by (simp add: upt_conv_Cons del: upt_Suc)
  have ih: "js_join '', '' ?rest = set_text (Suc (Suc i)) (map (column_of jsToSql) ks)"
    by (rule Cons.IH)
  have hd: "?F (k, i) = CHR 0x22 # column_of jsToSql k @ CHR 0x22 # CHR ''='' # CHR ''$'' # string_of_nat (Suc i)"
    by (simp add: column_of_def)
  show ?case
  proof (cases ks)
    case Nil
    then have "?rest = []" by simp
    then show ?thesis unfolding step hd using Nil by simp
  next
    case (Cons k' ks')
    have "length ?rest = length ks" by (simp del: upt_Suc)
    with Cons obtain y ys where r: "?rest = y # ys" by (cases ?rest) simp_all
    have "js_join '', '' (?F (k, i) # ?rest) = ?F (k, i) @ '', '' @ js_join '', '' ?rest"
      unfolding r by simp
    also have "\<dots> = set_text (Suc i) (map (column_of jsToSql) (k # ks))"
      unfolding ih hd by (simp add: Cons)
    finally show ?thesis unfolding step .
  qed
qed

lemma sqlForPartialUpdate_text:
  "data \<noteq> [] \<Longrightarrow> sqlForPartialUpdate data jsToSql =
     Inr (set_text 1 (map (column_of jsToSql) (map fst data)), map snd data)"
  using set_cols_text[of jsToSql "map fst data" 0]
  by (simp add: sqlForPartialUpdate_def Let_def)

lemma tokenize_comma_blank:
  "tokenize (CHR '','' # CHR '' '' # rest) = map_option ((#) (TSym '','')) (tokenize rest)"
  by (subst tokenize.simps, subst (2) tokenize.simps)
     (simp add: is_space_def is_digit_def is_word_char_def)

lemma tokenize_set_text:
  assumes "cols \<noteq> []" and "list_all (\<lambda>c. CHR 0x22 \<notin> set c) cols" and "no_digit_ahead rest"
  shows "tokenize (set_text i cols @ rest) = map_option (\<lambda>ts. assignment_tokens i cols @ ts) (tokenize rest)"
  using assms
proof (induction i cols rule: set_text.induct)
  case (1 i)
  then show ?case by simp
next
  case (2 i c)
  then show ?case
    by (simp add: tokenize_assignment option.map_comp o_def)
next
  case (3 i c d cs)
  have nd: "no_digit_ahead (CHR '','' # CHR '' '' # set_text (Suc i) (d # cs) @ rest)"
    by (simp add: no_digit_ahead_def is_digit_def)
  from 3 have ih: "tokenize (set_text (Suc i) (d # cs) @ rest)
      = map_option (\<lambda>ts. assignment_tokens (Suc i) (d # cs) @ ts) (tokenize rest)"
    by simp
  from 3(3) have q: "CHR 0x22 \<notin> set c" by simp
  have "tokenize (set_text i (c # d # cs) @ rest) =
      tokenize (CHR 0x22 # c @ CHR 0x22 # CHR ''='' # CHR ''$'' # string_of_nat i
                @ (CHR '','' # CHR '' '' # set_text (Suc i) (d # cs) @ rest))"
    by simp
  also have "\<dots> = map_option (\<lambda>ts. TQuoted c # TSym ''='' # TParam i # ts)
      (tokenize (CHR '','' # CHR '' '' # set_text (Suc i) (d # cs) @ rest))"
    by (rule tokenize_assignment[OF q nd])
  also have "\<dots> = map_option (\<lambda>ts. assignment_tokens i (c # d # cs) @ ts) (tokenize rest)"
    by (simp add: tokenize_comma_blank ih option.map_comp o_def)
  finally show ?case .
qed

lemma assignment_tokens_no_word: "t \<in> set (assignment_tokens i cols) \<Longrightarrow> t \<noteq> TWord w"
  by (induction i cols rule: assignment_tokens.induct) auto

lemma parse_assignment_quoted:
  "parse_assignment [TQuoted c, TSym ''='', TParam i] = Some (c, Param i)"
  by (simp add: parse_assignment_def parse_operand_def)

lemma split_assignment_tokens:
  "cols \<noteq> [] \<Longrightarrow> those (map parse_assignment (split_on (TSym '','') (assignment_tokens i cols)))
     = Some (assignments i cols)"
proof (induction i cols rule: assignment_tokens.induct)
  case (1 i)
  then show ?case by simp
next
  case (2 i c)
  show ?case by (simp add: parse_assignment_quoted)
next
  case (3 i c d cs)
  then have ih: "those (map parse_assignment (split_on (TSym '','') (assignment_tokens (Suc i) (d # cs))))
     = Some (assignments (Suc i) (d # cs))" by simp
  have sp: "split_on (TSym '','') (assignment_tokens i (c # d # cs)) =
      [TQuoted c, TSym ''='', TParam i] # split_on (TSym '','') (assignment_tokens (Suc i) (d # cs))"
    by simp
  show ?case
    unfolding sp using ih by (simp add: parse_assignment_quoted)
qed

lemma tokenize_update_companies:
  "tokenize (''UPDATE companies SET '' @ rest) =
     map_option (\<lambda>ts. TWord ''UPDATE'' # TWord ''companies'' # TWord ''SET'' # ts) (tokenize rest)"
  by (simp add: tokenize.simps is_space_def is_digit_def is_word_char_def option.map_comp o_def)

lemma tokenize_update_jobs:
  "tokenize (''UPDATE jobs SET '' @ rest) =
     map_option (\<lambda>ts. TWord ''UPDATE'' # TWord ''jobs'' # TWord ''SET'' # ts) (tokenize rest)"
  by (simp add: tokenize.simps is_space_def is_digit_def is_word_char_def option.map_comp o_def)

lemma tokenize_where_handle:
  "tokenize ('' WHERE handle = '' @ rest) =
     map_option (\<lambda>ts. TWord ''WHERE'' # TWord ''handle'' # TSym ''='' # ts) (tokenize rest)"
  by (simp add: tokenize.simps is_space_def is_digit_def is_word_char_def option.map_comp o_def)

lemma tokenize_where_id:
  "tokenize ('' WHERE id = '' @ rest) =
     map_option (\<lambda>ts. TWord ''WHERE'' # TWord ''id'' # TSym ''='' # ts) (tokenize rest)"
  by (simp add: tokenize.simps is_space_def is_digit_def is_word_char_def option.map_comp o_def)

lemma tokenize_Company_returning:
  "tokenize '' RETURNING handle, name, description, num_employees AS \"numEmployees\", logo_url AS \"logoUrl\"''
     = Some (TWord ''RETURNING'' # Company_returning)"
  by code_simp

lemma tokenize_Job_returning:
  "tokenize '' RETURNING id, title, salary, equity, company_handle AS \"companyHandle\"''
     = Some (TWord ''RETURNING'' # Job_returning)"
  by code_simp

lemma parse_items_Company_returning: "parse_items Company_returning = Some Company_items"
  by code_simp

lemma parse_items_Job_returning: "parse_items Job_returning = Some Job_get_items"
  by code_simp

lemma tokenize_Company_update:
  assumes "cols \<noteq> []" and "list_all (\<lambda>c. CHR 0x22 \<notin> set c) cols"
  shows "tokenize (''UPDATE companies SET '' @ set_text i cols @ '' WHERE handle = ''
            @ (''$'' @ string_of_nat k)
            @ '' RETURNING handle, name, description, num_employees AS \"numEmployees\", logo_url AS \"logoUrl\"'')
     = Some (TWord ''UPDATE'' # TWord ''companies'' # TWord ''SET'' # assignment_tokens i cols
             @ TWord ''WHERE'' # TWord ''handle'' # TSym ''='' # TParam k # TWord ''RETURNING''
             # Company_returning)"
proof -
  let ?tail = "'' RETURNING handle, name, description, num_employees AS \"numEmployees\", logo_url AS \"logoUrl\"''"
  let ?w = "'' WHERE handle = '' @ (CHR ''$'' # string_of_nat k @ ?tail)"
  have nd1: "no_digit_ahead ?w" by (simp add: no_digit_ahead_def is_digit_def)
  have nd2: "no_digit_ahead ?tail" by (simp add: no_digit_ahead_def is_digit_def)
  have w: "tokenize ?w = Some (TWord ''WHERE'' # TWord ''handle'' # TSym ''='' # TParam k
                                # TWord ''RETURNING'' # Company_returning)"
    unfolding tokenize_where_handle tokenize_param[OF nd2] tokenize_Company_returning by simp
  have "tokenize (''UPDATE companies SET '' @ (set_text i cols @ ?w))
      = Some (TWord ''UPDATE'' # TWord ''companies'' # TWord ''SET'' # assignment_tokens i cols
             @ TWord ''WHERE'' # TWord ''handle'' # TSym ''='' # TParam k # TWord ''RETURNING''
             # Company_returning)"
    unfolding tokenize_update_companies tokenize_set_text[OF assms nd1] w by simp
  then show ?thesis by simp
qed

lemma tokenize_Job_update:
  assumes "cols \<noteq> []" and "list_all (\<lambda>c. CHR 0x22 \<notin> set c) cols"
  shows "tokenize (''UPDATE jobs SET '' @ set_text i cols @ '' WHERE id = ''
            @ (''$'' @ string_of_nat k)
            @ '' RETURNING id, title, salary, equity, company_handle AS \"companyHandle\"'')
     = Some (TWord ''UPDATE'' # TWord ''jobs'' # TWord ''SET'' # assignment_tokens i cols
             @ TWord ''WHERE'' # TWord ''id'' # TSym ''='' # TParam k # TWord ''RETURNING''
             # Job_returning)"
proof -
  let ?tail = "'' RETURNING id, title, salary, equity, company_handle AS \"companyHandle\"''"
  let ?w = "'' WHERE id = '' @ (CHR ''$'' # string_of_nat k @ ?tail)"
  have nd1: "no_digit_ahead ?w" by (simp add: no_digit_ahead_def is_digit_def)
  have nd2: "no_digit_ahead ?tail" by (simp add: no_digit_ahead_def is_digit_def)
  have w: "tokenize ?w = Some (TWord ''WHERE'' # TWord ''id'' # TSym ''='' # TParam k
                                # TWord ''RETURNING'' # Job_returning)"
    unfolding tokenize_where_id tokenize_param[OF nd2] tokenize_Job_returning by simp
  have "tokenize (''UPDATE jobs SET '' @ (set_text i cols @ ?w))
      = Some (TWord ''UPDATE'' # TWord ''jobs'' # TWord ''SET'' # assignment_tokens i cols
             @ TWord ''WHERE'' # TWord ''id'' # TSym ''='' # TParam k # TWord ''RETURNING''
             # Job_returning)"
    unfolding tokenize_update_jobs tokenize_set_text[OF assms nd1] w by simp
  then show ?thesis by simp
qed

lemma takeWhile_assignment_tokens:
  "takeWhile (\<lambda>t. t \<noteq> TWord w) (assignment_tokens i cols @ ts)
     = assignment_tokens i cols @ takeWhile (\<lambda>t. t \<noteq> TWord w) ts"
  by (rule takeWhile_append2) (simp add: assignment_tokens_no_word)

lemma dropWhile_assignment_tokens:
  "dropWhile (\<lambda>t. t \<noteq> TWord w) (assignment_tokens i cols @ ts)
     = dropWhile (\<lambda>t. t \<noteq> TWord w) ts"
  by (rule dropWhile_append2) (simp add: assignment_tokens_no_word)

lemma parse_update_by_key:
  assumes "cols \<noteq> []" and "parse_items R = Some items" and c: "c = ''handle'' \<or> c = ''id''"
  shows "parse_stmt (TWord ''UPDATE'' # TWord t # TWord ''SET'' # assignment_tokens i cols
             @ TWord ''WHERE'' # TWord c # TSym ''='' # TParam k # TWord ''RETURNING'' # R)
     = Some (Update t (assignments i cols) [Cond c ''='' (Param k)] items)"
proof -
  let ?A = "assignment_tokens i cols"
  let ?rest = "?A @ TWord ''WHERE'' # TWord c # TSym ''='' # TParam k # TWord ''RETURNING'' # R"
  have h: "has_kw ''RETURNING'' ?rest" by (simp add: has_kw_def)
  have b: "before_kw ''RETURNING'' ?rest = ?A @ [TWord ''WHERE'', TWord c, TSym ''='', TParam k]"
    using c by (auto simp: before_kw_def takeWhile_assignment_tokens)
  have a: "after_kw ''RETURNING'' ?rest = R"
    using c by (auto simp: after_kw_def dropWhile_assignment_tokens)
  have s: "before_kw ''WHERE'' (?A @ [TWord ''WHERE'', TWord c, TSym ''='', TParam k]) = ?A"
    by (simp add: before_kw_def takeWhile_assignment_tokens)
  have d: "dropWhile (\<lambda>t. t \<noteq> TWord ''WHERE'') (?A @ [TWord ''WHERE'', TWord c, TSym ''='', TParam k])
      = [TWord ''WHERE'', TWord c, TSym ''='', TParam k]"
    by (simp add: dropWhile_assignment_tokens)
  have w: "parse_where [TWord ''WHERE'', TWord c, TSym ''='', TParam k] = Some [Cond c ''='' (Param k)]"
    using c by (auto simp: parse_where_def has_kw_def before_kw_def after_kw_def parse_conds_def
        parse_cond_def parse_op_def parse_operand_def)
  show ?thesis
    unfolding parse_stmt_def
    by (simp add: parse_update_def h b a s d w assms(2) split_assignment_tokens[OF assms(1)])
qed

lemma bind_value_error: "bind_value ty v = Inl e \<Longrightarrow> \<exists>m. e = StoreError m"
  by (cases ty; cases v) (auto split: option.splits)

lemma bind_param_error: "bind_param ty ps n = Inl e \<Longrightarrow> \<exists>m. e = StoreError m"
  by (auto simp: bind_param_def dest: bind_value_error split: if_splits)

lemma collect_Inl: "collect xs = Inl e \<Longrightarrow> Inl e \<in> set xs"
proof (induction xs)
  case Nil
  then show ?case by simp
next
  case (Cons x xs)
  then show ?case by (cases x) (auto split: sum.splits)
qed

lemma analyze_set_error: "analyze_set cols ps a = Inl e \<Longrightarrow> \<exists>m. e = StoreError m"
  by (auto simp: analyze_set_def dest: bind_value_error bind_param_error
      split: option.splits operand.splits sum.splits)

lemma collect_analyze_set_error:
  "collect (map (analyze_set cols ps) sets) = Inl e \<Longrightarrow> \<exists>m. e = StoreError m"
  by (drule collect_Inl) (auto dest: analyze_set_error[OF sym])

lemma table_columns_companies:
  "table_columns ''companies'' =
     Some [(''handle'', TyText, False), (''name'', TyText, False),
           (''description'', TyText, False), (''num_employees'', TyInt, True),
           (''logo_url'', TyText, True)]"
  by (simp add: table_columns_def)

lemma table_columns_jobs:
  "table_columns ''jobs'' =
     Some [(''id'', TyInt, False), (''title'', TyText, False), (''salary'', TyInt, True),
           (''equity'', TyNumeric, True), (''company_handle'', TyText, False)]"
  by (simp add: table_columns_def)

lemma by_handle_last:
  "analyze_cond Company_scope (vals @ [JStr h]) (Cond ''handle'' ''='' (Param (Suc (length vals))))
     = Inr (GCmp 0 ''='' (SText h))"
  by (simp add: analyze_cond_def resolve_companies col_type_companies bind_param_def)

lemma by_id_last:
  "analyze_cond Jobs_scope (vals @ [JNum i]) (Cond ''id'' ''='' (Param (Suc (length vals))))
     = Inr (GCmp 0 ''='' (SInt i))"
proof -
  have "resolve Jobs_scope ''id'' = Inr 0" "col_type Jobs_scope 0 = TyInt" by code_simp+
  then show ?thesis by (simp add: analyze_cond_def bind_param_def)
qed

lemma exec_update_company_by_handle:
  "case exec_update (db\<lparr>issued := q\<rparr>) ''companies'' sets [Cond ''handle'' ''='' (Param (Suc (length vals)))]
          Company_items (vals @ [JStr h]) of
     (Inl e, d) \<Rightarrow> \<exists>m. e = StoreError m
   | (Inr rows, d) \<Rightarrow> (rows = []) = (filter (\<lambda>c. c_handle c = h) (companies db) = [])"
  by (simp add: exec_update_def table_columns_companies scope_companies by_handle_last
      items_companies table_rows_companies filter_map o_def satisfies_by_handle
      collect_analyze_set_error
      split: sum.split option.split)

lemma exec_update_job_by_id:
  "case exec_update (db\<lparr>issued := q\<rparr>) ''jobs'' sets [Cond ''id'' ''='' (Param (Suc (length vals)))]
          Job_get_items (vals @ [JNum i]) of
     (Inl e, d) \<Rightarrow> \<exists>m. e = StoreError m
   | (Inr rows, d) \<Rightarrow> (rows = []) = (filter (\<lambda>j. j_id j = i) (jobs db) = [])"
  by (simp add: exec_update_def table_columns_jobs scope_jobs by_id_last
      items_job_get table_rows_jobs filter_map o_def satisfies_by_id
      collect_analyze_set_error
      split: sum.split option.split)

lemma db_query_Company_update:
  assumes "cols \<noteq> []" and "list_all (\<lambda>c. CHR 0x22 \<notin> set c) cols"
  shows "case db_query db (''UPDATE companies SET '' @ set_text 1 cols @ '' WHERE handle = ''
            @ (''$'' @ string_of_nat (length vals + 1))
            @ '' RETURNING handle, name, description, num_employees AS \"numEmployees\", logo_url AS \"logoUrl\"'')
            (vals @ [JStr h]) of
     (Inl e, d) \<Rightarrow> \<exists>m. e = StoreError m
   | (Inr rows, d) \<Rightarrow> (rows = []) = (filter (\<lambda>c. c_handle c = h) (companies db) = [])"
proof -
  let ?sql = "''UPDATE companies SET '' @ set_text 1 cols @ '' WHERE handle = ''
            @ (''$'' @ string_of_nat (length vals + 1))
            @ '' RETURNING handle, name, description, num_employees AS \"numEmployees\", logo_url AS \"logoUrl\"''"
  let ?db1 = "db\<lparr>issued := issued db @ [(?sql, vals @ [JStr h])]\<rparr>"
  have p: "parse_sql ?sql = Some (Update ''companies'' (assignments 1 cols)
             [Cond ''handle'' ''='' (Param (Suc (length vals)))] Company_items)"
    unfolding parse_sql_def tokenize_Company_update[OF assms]
    by (simp add: parse_update_by_key[OF assms(1) parse_items_Company_returning])
  have e: "case exec_update ?db1 ''companies'' (assignments 1 cols)
             [Cond ''handle'' ''='' (Param (Suc (length vals)))] Company_items (vals @ [JStr h]) of
     (Inl e, d) \<Rightarrow> \<exists>m. e = StoreError m
   | (Inr rows, d) \<Rightarrow> (rows = []) = (filter (\<lambda>c. c_handle c = h) (companies db) = [])"
    by (rule exec_update_company_by_handle)
  show ?thesis
    unfolding db_query_def Let_def p using e by (simp add: exec_def)
qed

lemma db_query_Job_update:
  assumes "cols \<noteq> []" and "list_all (\<lambda>c. CHR 0x22 \<notin> set c) cols"
  shows "case db_query db (''UPDATE jobs SET '' @ set_text 1 cols @ '' WHERE id = ''
            @ (''$'' @ string_of_nat (length vals + 1))
            @ '' RETURNING id, title, salary, equity, company_handle AS \"companyHandle\"'')
            (vals @ [JNum i]) of
     (Inl e, d) \<Rightarrow> \<exists>m. e = StoreError m
   | (Inr rows, d) \<Rightarrow> (rows = []) = (filter (\<lambda>j. j_id j = i) (jobs db) = [])"
proof -
  let ?sql = "''UPDATE jobs SET '' @ set_text 1 cols @ '' WHERE id = ''
            @ (''$'' @ string_of_nat (length vals + 1))
            @ '' RETURNING id, title, salary, equity, company_handle AS \"companyHandle\"''"
  let ?db1 = "db\<lparr>issued := issued db @ [(?sql, vals @ [JNum i])]\<rparr>"
  have p: "parse_sql ?sql = Some (Update ''jobs'' (assignments 1 cols)
             [Cond ''id'' ''='' (Param (Suc (length vals)))] Job_get_items)"
    unfolding parse_sql_def tokenize_Job_update[OF assms]
    by (simp add: parse_update_by_key[OF assms(1) parse_items_Job_returning])
  have e: "case exec_update ?db1 ''jobs'' (assignments 1 cols)
             [Cond ''id'' ''='' (Param (Suc (length vals)))] Job_get_items (vals @ [JNum i]) of
     (Inl e, d) \<Rightarrow> \<exists>m. e = StoreError m
   | (Inr rows, d) \<Rightarrow> (rows = []) = (filter (\<lambda>j. j_id j = i) (jobs db) = [])"
    by (rule exec_update_job_by_id)
  show ?thesis
    unfolding db_query_def Let_def p using e by (simp add: exec_def)
qed

section \<open>The claims\<close>

text \<open>
  C1. \<open>Company.findAll\<close> with integer bounds \<open>minEmployees = a\<close> and
  \<open>maxEmployees = b\<close>. When \<open>a > b\<close> the call fails with a BadRequest-kind error and
  leaves the database as it found it, the record of issued statements included: no query
  reached the store. When \<open>a \<le> b\<close>, every row the call returns is the row of a company
  whose employee count lies between \<open>a\<close> and \<open>b\<close>; and with no name filter the call
  does return, with exactly those companies in the order of their names.
\<close>

theorem Company_findAll_employee_range:
  assumes "get_prop searchFilters ''minEmployees'' = JNum a"
    and "get_prop searchFilters ''maxEmployees'' = JNum b"
  shows "(b < a \<longrightarrow> (\<exists>e. is_BadRequest e \<and> Company_findAll S db searchFilters = (Inl e, db)))
    \<and> (a \<le> b \<longrightarrow> (\<forall>rows db'. Company_findAll S db searchFilters = (Inr (JArr rows), db') \<longrightarrow>
          (\<forall>r \<in> set rows. \<exists>c \<in> set (companies db). r = JObj (company_row c) \<and> employees_between a b c)))
    \<and> (a \<le> b \<and> get_prop searchFilters ''name'' = JUndefined \<longrightarrow>
          Company_findAll S db searchFilters =
            (Inr (JArr (map (\<lambda>c. JObj (company_row c))
                     (sort_key c_name (filter (employees_between a b) (companies db))))),
             db\<lparr>issued := issued db @
                [(Company_select @ '' WHERE num_employees >= $1 AND num_employees <= $2 ORDER BY name'',
                  [JNum a, JNum b])]\<rparr>))"
proof (intro conjI impI)
  assume "b < a"
  then show "\<exists>e. is_BadRequest e \<and> Company_findAll S db searchFilters = (Inl e, db)"
    using assms by (simp add: Company_findAll_unfold js_gt_JNum)
next
  assume le: "a \<le> b"
  let ?n = "get_prop searchFilters ''name''"
  let ?vals = "Company_vals (JNum a) (JNum b) ?n"
  let ?conds = "Company_conds True True (js_truthy ?n)"
  show "\<forall>rows db'. Company_findAll S db searchFilters = (Inr (JArr rows), db') \<longrightarrow>
          (\<forall>r \<in> set rows. \<exists>c \<in> set (companies db). r = JObj (company_row c) \<and> employees_between a b c)"
  proof (intro allI impI ballI)
    fix rows db' r
    assume res: "Company_findAll S db searchFilters = (Inr (JArr rows), db')" and r: "r \<in> set rows"
    from res le assms obtain jrows where
      ex: "exec_select db Company_items ''companies'' ''companies'' None ?conds (Some ''name'') ?vals = Inr jrows"
      and rows: "rows = map JObj jrows"
      by (auto simp: Company_findAll_unfold js_gt_JNum split: sum.splits)
    have "\<exists>gs. collect (map (analyze_cond Company_scope ?vals) ?conds)
              = Inr (GCmp 3 ''>='' (SInt a) # GCmp 3 ''<='' (SInt b) # gs)"
      using ex
      by (auto simp: exec_select_def select_source_def scope_companies Company_conds_def
          Company_vals_def analyze_num_employees analyze_name bind_param_def split: sum.splits if_splits)
    then obtain gs where gs: "collect (map (analyze_cond Company_scope ?vals) ?conds)
              = Inr (GCmp 3 ''>='' (SInt a) # GCmp 3 ''<='' (SInt b) # gs)" ..
    from ex have "jrows = map company_row (sort_key c_name (filter (\<lambda>c. satisfies
         (GCmp 3 ''>='' (SInt a) # GCmp 3 ''<='' (SInt b) # gs) (company_cells c)) (companies db)))"
      by (simp add: exec_select_companies[OF gs])
    with r rows obtain c where "c \<in> set (companies db)" "r = JObj (company_row c)"
      "satisfies (GCmp 3 ''>='' (SInt a) # GCmp 3 ''<='' (SInt b) # gs) (company_cells c)"
      by auto
    moreover from this have "employees_between a b c"
      by (simp add: satisfies_def holds_min_employees holds_max_employees employees_between_def
          del: holds.simps split: option.splits)
    ultimately show "\<exists>c \<in> set (companies db). r = JObj (company_row c) \<and> employees_between a b c"
      by blast
  qed
next
  assume h: "a \<le> b \<and> get_prop searchFilters ''name'' = JUndefined"
  have gs: "collect (map (analyze_cond Company_scope [JNum a, JNum b]) (Company_conds True True False))
      = Inr [GCmp 3 ''>='' (SInt a), GCmp 3 ''<='' (SInt b)]"
    by (simp add: Company_conds_def analyze_num_employees bind_param_def)
  have sat: "(\<lambda>c. satisfies [GCmp 3 ''>='' (SInt a), GCmp 3 ''<='' (SInt b)] (company_cells c))
      = employees_between a b"
    by (rule ext) (simp add: satisfies_def holds_min_employees holds_max_employees
        employees_between_def del: holds.simps split: option.splits)
  show "Company_findAll S db searchFilters =
            (Inr (JArr (map (\<lambda>c. JObj (company_row c))
                     (sort_key c_name (filter (employees_between a b) (companies db))))),
             db\<lparr>issued := issued db @
                [(Company_select @ '' WHERE num_employees >= $1 AND num_employees <= $2 ORDER BY name'',
                  [JNum a, JNum b])]\<rparr>)"
    using h assms
    by (simp add: Company_findAll_unfold js_gt_JNum Company_vals_def exec_select_companies[OF gs] sat
        o_def finish_query_def Company_exprs_def)
qed

theorem Company_findAll_employee_range_witness:
  "(\<exists>e. is_BadRequest e \<and>
      Company_findAll (\<lambda>s. NaN) example_db [(''minEmployees'', JNum 3), (''maxEmployees'', JNum 2)]
        = (Inl e, example_db))
   \<and> fst (Company_findAll (\<lambda>s. NaN) example_db
              [(''minEmployees'', JNum 2), (''maxEmployees'', JNum 3)])
       = Inr (JArr [JObj [(''handle'', JStr ''c2''), (''name'', JStr ''C2''),
                          (''description'', JStr ''Desc2''), (''numEmployees'', JNum 2),
                          (''logoUrl'', JStr ''http://c2.img'')],
                    JObj [(''handle'', JStr ''c3''), (''name'', JStr ''C3''),
                          (''description'', JStr ''Desc3''), (''numEmployees'', JNum 3),
                          (''logoUrl'', JStr ''http://c3.img'')]])"
  using Company_findAll_employee_range
          [of "[(''minEmployees'', JNum 3), (''maxEmployees'', JNum 2)]" 3 2 "\<lambda>s. NaN" example_db]
        Company_findAll_employee_range
          [of "[(''minEmployees'', JNum 2), (''maxEmployees'', JNum 3)]" 2 3 "\<lambda>s. NaN" example_db]
  by (simp add: get_prop_def example_db_def employees_between_def company_row_def)

theorem Job_findAll_rows_carry_company_name:
  assumes "Job_findAll db searchFilters = (Inr (JArr rows), db')" and "r \<in> set rows"
  shows "\<exists>j \<in> set (jobs db). \<exists>co.
           (case co of
              None \<Rightarrow> list_all (\<lambda>c. c_handle c \<noteq> j_company_handle j) (companies db)
            | Some c \<Rightarrow> c \<in> set (companies db) \<and> c_handle c = j_company_handle j)
           \<and> r = JObj (job_fields j @
                   [(''companyHandle'', JStr (j_company_handle j)),
                    (''name'', (case co of None \<Rightarrow> JNull | Some c \<Rightarrow> JStr (c_name c)))])"
proof -
  let ?conds = "Job_conds (get_prop searchFilters ''title'' \<noteq> JUndefined)
      (get_prop searchFilters ''minSalary'' \<noteq> JUndefined) (get_prop searchFilters ''hasEquity'' = JBool True)"
  let ?vals = "Job_vals (get_prop searchFilters ''title'') (get_prop searchFilters ''minSalary'')"
  from assms(1) obtain jrows where
    ex: "exec_select db Job_items ''jobs'' ''j''
           (Some (LeftJoin ''companies'' ''c'' ''c.handle'' ''j.company_handle'')) ?conds
           (Some ''title'') ?vals = Inr jrows"
    and rows: "rows = map JObj jrows"
    by (auto simp: Job_findAll_unfold split: sum.splits)
  from exec_select_jobs_Inr[OF ex] obtain gs where
    "jrows = map job_row (sort_key (\<lambda>p. j_title (fst p))
            (filter (\<lambda>p. satisfies gs (joined_cells p)) (jobs_joined db)))" by blast
  with rows assms(2) obtain p where p: "p \<in> set (jobs_joined db)" and r: "r = JObj (job_row p)"
    by auto
  obtain j co where pc: "p = (j, co)" by (cases p)
  from p have "j \<in> set (jobs db)" and
    "case co of
       None \<Rightarrow> list_all (\<lambda>c. c_handle c \<noteq> j_company_handle j) (companies db)
     | Some c \<Rightarrow> c \<in> set (companies db) \<and> c_handle c = j_company_handle j"
    unfolding pc jobs_joined_iff by simp_all
  moreover from r have "r = JObj (job_fields j @
                   [(''companyHandle'', JStr (j_company_handle j)),
                    (''name'', (case co of None \<Rightarrow> JNull | Some c \<Rightarrow> JStr (c_name c)))])"
    by (simp add: pc job_row_def)
  ultimately show ?thesis by blast
qed

theorem Job_findAll_hasEquity:
  "(get_prop searchFilters ''hasEquity'' = JBool True \<longrightarrow>
      Job_filters searchFilters =
        (fst (Job_filters (delete_prop searchFilters ''hasEquity'')),
         snd (Job_filters (delete_prop searchFilters ''hasEquity'')) @ [''equity > 0''])
      \<and> (\<forall>rows0 db0.
            Job_findAll db (delete_prop searchFilters ''hasEquity'') = (Inr rows0, db0) \<longrightarrow>
            (\<exists>ps. set ps \<subseteq> set (jobs_joined db)
               \<and> rows0 = JArr (map (\<lambda>p. JObj (job_row p)) ps)
               \<and> fst (Job_findAll db searchFilters) =
                   Inr (JArr (map (\<lambda>p. JObj (job_row p)) (filter (\<lambda>p. has_equity (fst p)) ps)))))
      \<and> (get_prop searchFilters ''title'' = JUndefined
           \<and> get_prop searchFilters ''minSalary'' = JUndefined \<longrightarrow>
          Job_findAll db searchFilters =
            (Inr (JArr (map (\<lambda>p. JObj (job_row p))
                     (sort_key (\<lambda>p. j_title (fst p))
                        (filter (\<lambda>p. has_equity (fst p)) (jobs_joined db))))),
             db\<lparr>issued := issued db @ [(Job_select @ '' WHERE equity > 0 ORDER BY title'', [])]\<rparr>)))
   \<and> (get_prop searchFilters ''hasEquity'' \<noteq> JBool True \<longrightarrow>
        Job_filters searchFilters = Job_filters (delete_prop searchFilters ''hasEquity'')
        \<and> Job_findAll db searchFilters = Job_findAll db (delete_prop searchFilters ''hasEquity''))"
proof (intro conjI impI allI)
  assume t: "get_prop searchFilters ''hasEquity'' = JBool True"
  show "Job_filters searchFilters =
        (fst (Job_filters (delete_prop searchFilters ''hasEquity'')),
         snd (Job_filters (delete_prop searchFilters ''hasEquity'')) @ [''equity > 0''])"
    using t by (simp add: Job_filters_flags get_prop_delete_prop Job_exprs_def)
next
  fix rows0 db0
  assume t: "get_prop searchFilters ''hasEquity'' = JBool True"
    and r0: "Job_findAll db (delete_prop searchFilters ''hasEquity'') = (Inr rows0, db0)"
  let ?b1 = "get_prop searchFilters ''title'' \<noteq> JUndefined"
  let ?b2 = "get_prop searchFilters ''minSalary'' \<noteq> JUndefined"
  let ?vals = "Job_vals (get_prop searchFilters ''title'') (get_prop searchFilters ''minSalary'')"
  let ?J = "Some (LeftJoin ''companies'' ''c'' ''c.handle'' ''j.company_handle'')"
  from r0 obtain jrows where
    ex: "exec_select db Job_items ''jobs'' ''j'' ?J (Job_conds ?b1 ?b2 False) (Some ''title'') ?vals
           = Inr jrows"
    and rows0: "rows0 = JArr (map JObj jrows)"
    by (auto simp: Job_findAll_unfold get_prop_delete_prop split: sum.splits)
  from exec_select_jobs_Inr[OF ex] obtain gs where
    gs: "collect (map (analyze_cond Job_scope ?vals) (Job_conds ?b1 ?b2 False)) = Inr gs"
    and jrows: "jrows = map job_row (sort_key (\<lambda>p. j_title (fst p))
            (filter (\<lambda>p. satisfies gs (joined_cells p)) (jobs_joined db)))" by blast
  let ?ps = "sort_key (\<lambda>p. j_title (fst p)) (filter (\<lambda>p. satisfies gs (joined_cells p)) (jobs_joined db))"
  have gs': "collect (map (analyze_cond Job_scope ?vals) (Job_conds ?b1 ?b2 True))
      = Inr (gs @ [GCmp 3 ''>'' (SNum (Numeric 0 0))])"
    by (simp add: collect_Job_conds_equity gs)
  have sat: "(\<lambda>p. satisfies (gs @ [GCmp 3 ''>'' (SNum (Numeric 0 0))]) (joined_cells p))
      = (\<lambda>p. satisfies gs (joined_cells p) \<and> has_equity (fst p))"
    by (rule ext) (simp add: satisfies_append, simp add: satisfies_def holds_equity del: holds.simps)
  have "fst (Job_findAll db searchFilters) =
      Inr (JArr (map (\<lambda>p. JObj (job_row p)) (filter (\<lambda>p. has_equity (fst p)) ?ps)))"
    using t by (simp add: Job_findAll_unfold exec_select_jobs[OF gs'] sat filter_sort o_def
        conj_commute)
  moreover have "set ?ps \<subseteq> set (jobs_joined db)" by auto
  moreover have "rows0 = JArr (map (\<lambda>p. JObj (job_row p)) ?ps)"
    by (simp add: rows0 jrows o_def)
  ultimately show "\<exists>ps. set ps \<subseteq> set (jobs_joined db)
               \<and> rows0 = JArr (map (\<lambda>p. JObj (job_row p)) ps)
               \<and> fst (Job_findAll db searchFilters) =
                   Inr (JArr (map (\<lambda>p. JObj (job_row p)) (filter (\<lambda>p. has_equity (fst p)) ps)))"
    by blast
next
  assume t: "get_prop searchFilters ''hasEquity'' = JBool True"
    and u: "get_prop searchFilters ''title'' = JUndefined \<and> get_prop searchFilters ''minSalary'' = JUndefined"
  have gs: "collect (map (analyze_cond Job_scope []) (Job_conds False False True))
      = Inr [GCmp 3 ''>'' (SNum (Numeric 0 0))]"
    by (simp add: Job_conds_def analyze_equity)
  have sat: "(\<lambda>p. satisfies [GCmp 3 ''>'' (SNum (Numeric 0 0))] (joined_cells p))
      = (\<lambda>p. has_equity (fst p))"
    by (rule ext) (simp add: satisfies_def holds_equity del: holds.simps)
  show "Job_findAll db searchFilters =
            (Inr (JArr (map (\<lambda>p. JObj (job_row p))
                     (sort_key (\<lambda>p. j_title (fst p))
                        (filter (\<lambda>p. has_equity (fst p)) (jobs_joined db))))),
             db\<lparr>issued := issued db @ [(Job_select @ '' WHERE equity > 0 ORDER BY title'', [])]\<rparr>)"
    using t u
    by (simp add: Job_findAll_unfold Job_vals_def exec_select_jobs[OF gs] sat o_def
        finish_query_def Job_exprs_def)
next
  assume "get_prop searchFilters ''hasEquity'' \<noteq> JBool True"
  then show "Job_filters searchFilters = Job_filters (delete_prop searchFilters ''hasEquity'')"
    by (simp add: Job_filters_flags get_prop_delete_prop)
next
  assume "get_prop searchFilters ''hasEquity'' \<noteq> JBool True"
  then show "Job_findAll db searchFilters = Job_findAll db (delete_prop searchFilters ''hasEquity'')"
    by (simp add: Job_findAll_def Job_findAll_query_def Job_filters_flags get_prop_delete_prop)
qed

theorem Job_findAll_hasEquity_witness:
  "fst (Job_findAll example_db [(''hasEquity'', JBool True)]) =
     Inr (JArr
       [JObj [(''id'', JNum 1), (''title'', JStr ''t1''), (''salary'', JNum 100),
              (''equity'', JStr ''0.1''), (''companyHandle'', JStr ''c1''), (''name'', JStr ''C1'')],
        JObj [(''id'', JNum 2), (''title'', JStr ''t2''), (''salary'', JNum 200),
              (''equity'', JStr ''0.2''), (''companyHandle'', JStr ''c2''), (''name'', JStr ''C2'')],
        JObj [(''id'', JNum 3), (''title'', JStr ''t3''), (''salary'', JNum 300),
              (''equity'', JStr ''0.3''), (''companyHandle'', JStr ''c3''), (''name'', JStr ''C3'')]])
   \<and> Job_findAll example_db [(''hasEquity'', JStr ''true'')] = Job_findAll example_db []"
  using Job_findAll_hasEquity [of "[(''hasEquity'', JBool True)]" example_db]
        Job_findAll_hasEquity [of "[(''hasEquity'', JStr ''true'')]" example_db]
  by (simp add: get_prop_def delete_prop_def example_jobs_with_equity)

theorem Job_findAll_rows_carry_company_name_witness:
  "\<exists>j \<in> set (jobs orphan_db). \<exists>co.
           (case co of
              None \<Rightarrow> list_all (\<lambda>c. c_handle c \<noteq> j_company_handle j) (companies orphan_db)
            | Some c \<Rightarrow> c \<in> set (companies orphan_db) \<and> c_handle c = j_company_handle j)
           \<and> JObj [(''id'', JNum 2), (''title'', JStr ''t2''), (''salary'', JNum 200),
          (''equity'', JStr ''0.2''), (''companyHandle'', JStr ''c2''), (''name'', JNull)]
               = JObj (job_fields j @
                   [(''companyHandle'', JStr (j_company_handle j)),
                    (''name'', (case co of None \<Rightarrow> JNull | Some c \<Rightarrow> JStr (c_name c)))])"
  using Job_findAll_rows_carry_company_name [OF orphan_findAll, of
      "JObj [(''id'', JNum 2), (''title'', JStr ''t2''), (''salary'', JNum 200),
          (''equity'', JStr ''0.2''), (''companyHandle'', JStr ''c2''), (''name'', JNull)]"]
  by simp

theorem findAll_placeholders_sequential:
  "(Company_findAll_query S searchFilters = Inr (sql, vals) \<longrightarrow>
      placeholders sql = [1..<Suc (length vals)]
      \<and> bound_conditions sql vals =
          (if get_prop searchFilters ''minEmployees'' \<noteq> JUndefined
           then [(''num_employees'', ''>='', Some (get_prop searchFilters ''minEmployees''))] else [])
          @ (if get_prop searchFilters ''maxEmployees'' \<noteq> JUndefined
             then [(''num_employees'', ''<='', Some (get_prop searchFilters ''maxEmployees''))] else [])
          @ (if js_truthy (get_prop searchFilters ''name'')
             then [(''name'', ''ILIKE'',
                    Some (JStr (''%'' @ js_to_string (get_prop searchFilters ''name'') @ ''%'')))]
             else []))
   \<and> (Job_findAll_query searchFilters = (sql', vals') \<longrightarrow>
      placeholders sql' = [1..<Suc (length vals')]
      \<and> bound_conditions sql' vals' =
          (if get_prop searchFilters ''title'' \<noteq> JUndefined
           then [(''title'', ''ILIKE'',
                  Some (JStr (''%'' @ js_to_string (get_prop searchFilters ''title'') @ ''%'')))]
           else [])
          @ (if get_prop searchFilters ''minSalary'' \<noteq> JUndefined
             then [(''salary'', ''>='', Some (get_prop searchFilters ''minSalary''))] else [])
          @ (if get_prop searchFilters ''hasEquity'' = JBool True
             then [(''equity'', ''>'', None)] else []))"
proof (intro conjI impI)
  assume q: "Company_findAll_query S searchFilters = Inr (sql, vals)"
  let ?m = "get_prop searchFilters ''minEmployees''"
  let ?x = "get_prop searchFilters ''maxEmployees''"
  let ?n = "get_prop searchFilters ''name''"
  from q have sql: "sql = finish_query Company_select
        (Company_exprs (?m \<noteq> JUndefined) (?x \<noteq> JUndefined) (js_truthy ?n)) '' ORDER BY name''"
    and vals: "vals = Company_vals ?m ?x ?n"
    by (auto simp: Company_findAll_query_flags split: if_splits)
  show "placeholders sql = [1..<Suc (length vals)]"
    unfolding sql vals length_Company_vals using placeholders_Company_all by blast
  show "bound_conditions sql vals =
          (if ?m \<noteq> JUndefined then [(''num_employees'', ''>='', Some ?m)] else [])
          @ (if ?x \<noteq> JUndefined then [(''num_employees'', ''<='', Some ?x)] else [])
          @ (if js_truthy ?n then [(''name'', ''ILIKE'', Some (JStr (''%'' @ js_to_string ?n @ ''%'')))]
             else [])"
    unfolding sql vals by (rule bound_conditions_Company)
next
  assume q: "Job_findAll_query searchFilters = (sql', vals')"
  let ?t = "get_prop searchFilters ''title''"
  let ?s = "get_prop searchFilters ''minSalary''"
  let ?h = "get_prop searchFilters ''hasEquity'' = JBool True"
  from q have sql: "sql' = finish_query Job_select
        (Job_exprs (?t \<noteq> JUndefined) (?s \<noteq> JUndefined) ?h) '' ORDER BY title''"
    and vals: "vals' = Job_vals ?t ?s"
    by (auto simp: Job_findAll_query_flags)
  show "placeholders sql' = [1..<Suc (length vals')]"
    unfolding sql vals length_Job_vals using placeholders_Job_all by blast
  show "bound_conditions sql' vals' =
          (if ?t \<noteq> JUndefined then [(''title'', ''ILIKE'', Some (JStr (''%'' @ js_to_string ?t @ ''%'')))]
           else [])
          @ (if ?s \<noteq> JUndefined then [(''salary'', ''>='', Some ?s)] else [])
          @ (if ?h then [(''equity'', ''>'', None)] else [])"
    unfolding sql vals by (rule bound_conditions_Job)
qed

theorem findAll_placeholders_sequential_witness:
  "placeholders (Company_select @ '' WHERE num_employees >= $1 AND num_employees <= $2 AND name ILIKE $3 ORDER BY name'')
     = [1, 2, 3]
   \<and> bound_conditions
        (Company_select @ '' WHERE num_employees >= $1 AND num_employees <= $2 AND name ILIKE $3 ORDER BY name'')
        [JNum 2, JNum 9, JStr ''%net%'']
     = [(''num_employees'', ''>='', Some (JNum 2)), (''num_employees'', ''<='', Some (JNum 9)),
        (''name'', ''ILIKE'', Some (JStr ''%net%''))]
   \<and> placeholders (Job_select @ '' WHERE title ILIKE $1 AND salary >= $2 AND equity > 0 ORDER BY title'')
     = [1, 2]
   \<and> bound_conditions
        (Job_select @ '' WHERE title ILIKE $1 AND salary >= $2 AND equity > 0 ORDER BY title'')
        [JStr ''%1%'', JNum 50]
     = [(''title'', ''ILIKE'', Some (JStr ''%1%'')), (''salary'', ''>='', Some (JNum 50)),
        (''equity'', ''>'', None)]"
  using findAll_placeholders_sequential
     [of "\<lambda>s. NaN" all_filters
         "Company_select @ '' WHERE num_employees >= $1 AND num_employees <= $2 AND name ILIKE $3 ORDER BY name''"
         "[JNum 2, JNum 9, JStr ''%net%'']"
         "Job_select @ '' WHERE title ILIKE $1 AND salary >= $2 AND equity > 0 ORDER BY title''"
         "[JStr ''%1%'', JNum 50]"]
     example_query example_job_query
  by (simp add: get_prop_def all_filters_def upt_rec)

theorem findAll_no_predicates_and_order:
  "(Company_filters S searchFilters = Inr (vals, []) \<longrightarrow>
      Company_findAll_query S searchFilters = Inr (Company_select @ '' ORDER BY name'', [])
      \<and> Company_findAll S db searchFilters =
          (Inr (JArr (map (\<lambda>c. JObj (company_row c)) (sort_key c_name (companies db)))),
           db\<lparr>issued := issued db @ [(Company_select @ '' ORDER BY name'', [])]\<rparr>))
   \<and> (snd (Job_filters searchFilters) = [] \<longrightarrow>
      Job_findAll_query searchFilters = (Job_select @ '' ORDER BY title'', [])
      \<and> Job_findAll db searchFilters =
          (Inr (JArr (map (\<lambda>p. JObj (job_row p)) (sort_key (\<lambda>p. j_title (fst p)) (jobs_joined db)))),
           db\<lparr>issued := issued db @ [(Job_select @ '' ORDER BY title'', [])]\<rparr>))
   \<and> (get_prop searchFilters ''minEmployees'' = JUndefined
        \<and> get_prop searchFilters ''maxEmployees'' = JUndefined
        \<and> get_prop searchFilters ''name'' = JUndefined \<longrightarrow>
      Company_filters S searchFilters = Inr ([], []))
   \<and> (get_prop searchFilters ''title'' = JUndefined
        \<and> get_prop searchFilters ''minSalary'' = JUndefined
        \<and> get_prop searchFilters ''hasEquity'' = JUndefined \<longrightarrow>
      Job_filters searchFilters = ([], []))
   \<and> (\<forall>sql qv. Company_findAll_query S searchFilters = Inr (sql, qv) \<longrightarrow>
         (\<exists>pre. sql = pre @ '' ORDER BY name''))
   \<and> (\<exists>pre. fst (Job_findAll_query searchFilters) = pre @ '' ORDER BY title'')
   \<and> (\<forall>rows db'. Company_findAll S db searchFilters = (Inr (JArr rows), db') \<longrightarrow>
         (\<exists>cs. rows = map (\<lambda>c. JObj (company_row c)) cs \<and> sorted (map c_name cs)))
   \<and> (\<forall>rows db'. Job_findAll db searchFilters = (Inr (JArr rows), db') \<longrightarrow>
         (\<exists>ps. rows = map (\<lambda>p. JObj (job_row p)) ps \<and> sorted (map (\<lambda>p. j_title (fst p)) ps)))"
proof (intro conjI impI allI)
  assume a: "Company_filters S searchFilters = Inr (vals, [])"
  then have flags: "\<not> js_gt S (get_prop searchFilters ''minEmployees'') (get_prop searchFilters ''maxEmployees'')"
    "get_prop searchFilters ''minEmployees'' = JUndefined"
    "get_prop searchFilters ''maxEmployees'' = JUndefined"
    "\<not> js_truthy (get_prop searchFilters ''name'')"
    by (auto simp: Company_filters_flags Company_exprs_empty split: if_splits)
  show "Company_findAll_query S searchFilters = Inr (Company_select @ '' ORDER BY name'', [])"
    using flags by (simp add: Company_findAll_query_flags Company_exprs_def Company_vals_def finish_query_def)
  have gs: "collect (map (analyze_cond Company_scope []) (Company_conds False False False)) = Inr []"
    by (simp add: Company_conds_def)
  show "Company_findAll S db searchFilters =
          (Inr (JArr (map (\<lambda>c. JObj (company_row c)) (sort_key c_name (companies db)))),
           db\<lparr>issued := issued db @ [(Company_select @ '' ORDER BY name'', [])]\<rparr>)"
    using flags
    by (simp add: Company_findAll_unfold Company_vals_def exec_select_companies[OF gs] satisfies_def
        o_def Company_exprs_def finish_query_def)
next
  assume a: "snd (Job_filters searchFilters) = []"
  then have flags: "get_prop searchFilters ''title'' = JUndefined"
    "get_prop searchFilters ''minSalary'' = JUndefined"
    "get_prop searchFilters ''hasEquity'' \<noteq> JBool True"
    by (auto simp: Job_filters_flags Job_exprs_empty)
  show "Job_findAll_query searchFilters = (Job_select @ '' ORDER BY title'', [])"
    using flags by (simp add: Job_findAll_query_flags Job_exprs_def Job_vals_def finish_query_def)
  have gs: "collect (map (analyze_cond Job_scope []) (Job_conds False False False)) = Inr []"
    by (simp add: Job_conds_def)
  show "Job_findAll db searchFilters =
          (Inr (JArr (map (\<lambda>p. JObj (job_row p)) (sort_key (\<lambda>p. j_title (fst p)) (jobs_joined db)))),
           db\<lparr>issued := issued db @ [(Job_select @ '' ORDER BY title'', [])]\<rparr>)"
    using flags
    by (simp add: Job_findAll_unfold Job_vals_def exec_select_jobs[OF gs] satisfies_def
        o_def Job_exprs_def finish_query_def)
next
  assume "get_prop searchFilters ''minEmployees'' = JUndefined
        \<and> get_prop searchFilters ''maxEmployees'' = JUndefined
        \<and> get_prop searchFilters ''name'' = JUndefined"
  then show "Company_filters S searchFilters = Inr ([], [])"
    by (simp add: Company_filters_flags js_gt_def Company_vals_def Company_exprs_def)
next
  assume "get_prop searchFilters ''title'' = JUndefined
        \<and> get_prop searchFilters ''minSalary'' = JUndefined
        \<and> get_prop searchFilters ''hasEquity'' = JUndefined"
  then show "Job_filters searchFilters = ([], [])"
    by (simp add: Job_filters_flags Job_vals_def Job_exprs_def)
next
  fix sql qv
  assume "Company_findAll_query S searchFilters = Inr (sql, qv)"
  then show "\<exists>pre. sql = pre @ '' ORDER BY name''"
    by (auto simp: Company_findAll_query_flags finish_query_def split: if_splits)
next
  show "\<exists>pre. fst (Job_findAll_query searchFilters) = pre @ '' ORDER BY title''"
    by (simp add: Job_findAll_query_flags finish_query_def)
next
  fix rows db'
  assume res: "Company_findAll S db searchFilters = (Inr (JArr rows), db')"
  then obtain jrows where
    ex: "exec_select db Company_items ''companies'' ''companies'' None
           (Company_conds (get_prop searchFilters ''minEmployees'' \<noteq> JUndefined)
              (get_prop searchFilters ''maxEmployees'' \<noteq> JUndefined)
              (js_truthy (get_prop searchFilters ''name'')))
           (Some ''name'')
           (Company_vals (get_prop searchFilters ''minEmployees'')
              (get_prop searchFilters ''maxEmployees'') (get_prop searchFilters ''name'')) = Inr jrows"
    and rows: "rows = map JObj jrows"
    by (auto simp: Company_findAll_unfold split: sum.splits if_splits)
  from exec_select_companies_Inr[OF ex] obtain gs where
    "jrows = map company_row (sort_key c_name
       (filter (\<lambda>c. satisfies gs (company_cells c)) (companies db)))" by blast
  with rows have "rows = map (\<lambda>c. JObj (company_row c)) (sort_key c_name
       (filter (\<lambda>c. satisfies gs (company_cells c)) (companies db)))"
    by (simp add: o_def)
  moreover have "sorted (map c_name (sort_key c_name
       (filter (\<lambda>c. satisfies gs (company_cells c)) (companies db))))"
    by (rule sorted_sort_key)
  ultimately show "\<exists>cs. rows = map (\<lambda>c. JObj (company_row c)) cs \<and> sorted (map c_name cs)"
    by blast
next
  fix rows db'
  assume res: "Job_findAll db searchFilters = (Inr (JArr rows), db')"
  then obtain jrows where
    ex: "exec_select db Job_items ''jobs'' ''j''
           (Some (LeftJoin ''companies'' ''c'' ''c.handle'' ''j.company_handle''))
           (Job_conds (get_prop searchFilters ''title'' \<noteq> JUndefined)
              (get_prop searchFilters ''minSalary'' \<noteq> JUndefined)
              (get_prop searchFilters ''hasEquity'' = JBool True))
           (Some ''title'')
           (Job_vals (get_prop searchFilters ''title'') (get_prop searchFilters ''minSalary'')) = Inr jrows"
    and rows: "rows = map JObj jrows"
    by (auto simp: Job_findAll_unfold split: sum.splits)
  from exec_select_jobs_Inr[OF ex] obtain gs where
    "jrows = map job_row (sort_key (\<lambda>p. j_title (fst p))
       (filter (\<lambda>p. satisfies gs (joined_cells p)) (jobs_joined db)))" by blast
  with rows have "rows = map (\<lambda>p. JObj (job_row p)) (sort_key (\<lambda>p. j_title (fst p))
       (filter (\<lambda>p. satisfies gs (joined_cells p)) (jobs_joined db)))"
    by (simp add: o_def)
  moreover have "sorted (map (\<lambda>p. j_title (fst p)) (sort_key (\<lambda>p. j_title (fst p))
       (filter (\<lambda>p. satisfies gs (joined_cells p)) (jobs_joined db))))"
    by (rule sorted_sort_key)
  ultimately show "\<exists>ps. rows = map (\<lambda>p. JObj (job_row p)) ps \<and> sorted (map (\<lambda>p. j_title (fst p)) ps)"
    by blast
qed

theorem findAll_no_predicates_and_order_witness:
  "fst (Company_findAll (\<lambda>s. NaN) example_db [(''color'', JStr ''red'')]) =
     Inr (JArr
       [JObj [(''handle'', JStr ''c1''), (''name'', JStr ''C1''), (''description'', JStr ''Desc1''),
              (''numEmployees'', JNum 1), (''logoUrl'', JStr ''http://c1.img'')],
        JObj [(''handle'', JStr ''c2''), (''name'', JStr ''C2''), (''description'', JStr ''Desc2''),
              (''numEmployees'', JNum 2), (''logoUrl'', JStr ''http://c2.img'')],
        JObj [(''handle'', JStr ''c3''), (''name'', JStr ''C3''), (''description'', JStr ''Desc3''),
              (''numEmployees'', JNum 3), (''logoUrl'', JStr ''http://c3.img'')],
        JObj [(''handle'', JStr ''c4''), (''name'', JStr ''C4''), (''description'', JStr ''Desc4''),
              (''numEmployees'', JNull), (''logoUrl'', JNull)]])
   \<and> fst (Job_findAll example_db [(''color'', JStr ''red'')]) =
     Inr (JArr
       [JObj [(''id'', JNum 1), (''title'', JStr ''t1''), (''salary'', JNum 100),
              (''equity'', JStr ''0.1''), (''companyHandle'', JStr ''c1''), (''name'', JStr ''C1'')],
        JObj [(''id'', JNum 2), (''title'', JStr ''t2''), (''salary'', JNum 200),
              (''equity'', JStr ''0.2''), (''companyHandle'', JStr ''c2''), (''name'', JStr ''C2'')],
        JObj [(''id'', JNum 3), (''title'', JStr ''t3''), (''salary'', JNum 300),
              (''equity'', JStr ''0.3''), (''companyHandle'', JStr ''c3''), (''name'', JStr ''C3'')],
        JObj [(''id'', JNum 4), (''title'', JStr ''t4''), (''salary'', JNum 50),
              (''equity'', JStr ''0''), (''companyHandle'', JStr ''c1''), (''name'', JStr ''C1'')],
        JObj [(''id'', JNum 5), (''title'', JStr ''t5''), (''salary'', JNull),
              (''equity'', JNull), (''companyHandle'', JStr ''c1''), (''name'', JStr ''C1'')]])
   \<and> Company_findAll_query (\<lambda>s. NaN) [(''color'', JStr ''red'')] =
       Inr (Company_select @ '' ORDER BY name'', [])
   \<and> Job_findAll_query [(''color'', JStr ''red'')] = (Job_select @ '' ORDER BY title'', [])"
  using findAll_no_predicates_and_order [of "\<lambda>s. NaN" "[(''color'', JStr ''red'')]" "[]" example_db]
  by (simp add: get_prop_def example_companies_sorted example_jobs_sorted)

theorem findAll_one_predicate_per_present_key_counterexample:
  "length (snd (Job_filters [(''hasEquity'', JBool False)])) \<noteq>
     length (filter (\<lambda>k. k \<in> set [''title'', ''minSalary'', ''hasEquity''])
               (map fst [(''hasEquity'', JBool False)]))"
  by code_simp

theorem findAll_one_predicate_per_requested_key:
  "(\<not> js_gt S (get_prop searchFilters ''minEmployees'') (get_prop searchFilters ''maxEmployees'')
      \<and> (get_prop searchFilters ''name'' = JUndefined \<or> js_truthy (get_prop searchFilters ''name'')) \<longrightarrow>
      (\<exists>vals exprs. Company_filters S searchFilters = Inr (vals, exprs)
         \<and> length exprs =
             (if get_prop searchFilters ''minEmployees'' \<noteq> JUndefined then 1 else 0)
             + (if get_prop searchFilters ''maxEmployees'' \<noteq> JUndefined then 1 else 0)
             + (if get_prop searchFilters ''name'' \<noteq> JUndefined then 1 else 0)
         \<and> (get_prop searchFilters ''name'' \<noteq> JUndefined \<longrightarrow>
              last exprs = ''name ILIKE $'' @ string_of_nat (length vals)
              \<and> last vals = JStr (''%'' @ js_to_string (get_prop searchFilters ''name'') @ ''%''))))
   \<and> length (snd (Job_filters searchFilters)) =
        (if get_prop searchFilters ''title'' \<noteq> JUndefined then 1 else 0)
        + (if get_prop searchFilters ''minSalary'' \<noteq> JUndefined then 1 else 0)
        + (if get_prop searchFilters ''hasEquity'' = JBool True then 1 else 0)
   \<and> (get_prop searchFilters ''title'' \<noteq> JUndefined \<longrightarrow>
        hd (snd (Job_filters searchFilters)) = ''title ILIKE $1''
        \<and> hd (fst (Job_filters searchFilters))
            = JStr (''%'' @ js_to_string (get_prop searchFilters ''title'') @ ''%''))
   \<and> (get_prop searchFilters ''minEmployees'' = get_prop other ''minEmployees''
        \<and> get_prop searchFilters ''maxEmployees'' = get_prop other ''maxEmployees''
        \<and> get_prop searchFilters ''name'' = get_prop other ''name'' \<longrightarrow>
      Company_filters S searchFilters = Company_filters S other)
   \<and> (get_prop searchFilters ''title'' = get_prop other ''title''
        \<and> get_prop searchFilters ''minSalary'' = get_prop other ''minSalary''
        \<and> get_prop searchFilters ''hasEquity'' = get_prop other ''hasEquity'' \<longrightarrow>
      Job_filters searchFilters = Job_filters other)"
proof (intro conjI impI)
  let ?m = "get_prop searchFilters ''minEmployees''"
  let ?x = "get_prop searchFilters ''maxEmployees''"
  let ?n = "get_prop searchFilters ''name''"
  assume a: "\<not> js_gt S ?m ?x \<and> (?n = JUndefined \<or> js_truthy ?n)"
  then have n: "js_truthy ?n = (?n \<noteq> JUndefined)" by auto
  have eq: "Company_filters S searchFilters =
      Inr (Company_vals ?m ?x ?n, Company_exprs (?m \<noteq> JUndefined) (?x \<noteq> JUndefined) (?n \<noteq> JUndefined))"
    using a n by (simp add: Company_filters_flags)
  have len: "length (Company_exprs (?m \<noteq> JUndefined) (?x \<noteq> JUndefined) (?n \<noteq> JUndefined)) =
             (if ?m \<noteq> JUndefined then 1 else 0) + (if ?x \<noteq> JUndefined then 1 else 0)
             + (if ?n \<noteq> JUndefined then 1 else 0)"
    by (simp add: Company_exprs_def)
  have lst: "?n \<noteq> JUndefined \<longrightarrow>
      last (Company_exprs (?m \<noteq> JUndefined) (?x \<noteq> JUndefined) (?n \<noteq> JUndefined))
        = ''name ILIKE $'' @ string_of_nat (length (Company_vals ?m ?x ?n))
      \<and> last (Company_vals ?m ?x ?n) = JStr (''%'' @ js_to_string ?n @ ''%'')"
    using n by (simp add: Company_exprs_def Company_vals_def string_of_nat_small)
  show "\<exists>vals exprs. Company_filters S searchFilters = Inr (vals, exprs)
         \<and> length exprs =
             (if ?m \<noteq> JUndefined then 1 else 0) + (if ?x \<noteq> JUndefined then 1 else 0)
             + (if ?n \<noteq> JUndefined then 1 else 0)
         \<and> (?n \<noteq> JUndefined \<longrightarrow>
              last exprs = ''name ILIKE $'' @ string_of_nat (length vals)
              \<and> last vals = JStr (''%'' @ js_to_string ?n @ ''%''))"
    using eq len lst by blast
next
  show "length (snd (Job_filters searchFilters)) =
        (if get_prop searchFilters ''title'' \<noteq> JUndefined then 1 else 0)
        + (if get_prop searchFilters ''minSalary'' \<noteq> JUndefined then 1 else 0)
        + (if get_prop searchFilters ''hasEquity'' = JBool True then 1 else 0)"
    by (simp add: Job_filters_flags Job_exprs_def)
next
  assume "get_prop searchFilters ''title'' \<noteq> JUndefined"
  then show "hd (snd (Job_filters searchFilters)) = ''title ILIKE $1''"
    by (simp add: Job_filters_flags Job_exprs_def)
next
  assume "get_prop searchFilters ''title'' \<noteq> JUndefined"
  then show "hd (fst (Job_filters searchFilters))
            = JStr (''%'' @ js_to_string (get_prop searchFilters ''title'') @ ''%'')"
    by (simp add: Job_filters_flags Job_vals_def)
next
  assume "get_prop searchFilters ''minEmployees'' = get_prop other ''minEmployees''
        \<and> get_prop searchFilters ''maxEmployees'' = get_prop other ''maxEmployees''
        \<and> get_prop searchFilters ''name'' = get_prop other ''name''"
  then show "Company_filters S searchFilters = Company_filters S other"
    by (simp add: Company_filters_flags)
next
  assume "get_prop searchFilters ''title'' = get_prop other ''title''
        \<and> get_prop searchFilters ''minSalary'' = get_prop other ''minSalary''
        \<and> get_prop searchFilters ''hasEquity'' = get_prop other ''hasEquity''"
  then show "Job_filters searchFilters = Job_filters other"
    by (simp add: Job_filters_flags)
qed

theorem findAll_one_predicate_per_requested_key_witness:
  "(\<exists>vals exprs. Company_filters (\<lambda>s. NaN) all_filters = Inr (vals, exprs)
       \<and> length exprs = 3 \<and> last exprs = ''name ILIKE $'' @ string_of_nat (length vals)
       \<and> last vals = JStr ''%net%'')
   \<and> length (snd (Job_filters all_filters)) = 3
   \<and> hd (snd (Job_filters all_filters)) = ''title ILIKE $1''
   \<and> hd (fst (Job_filters all_filters)) = JStr ''%1%''
   \<and> Company_filters (\<lambda>s. NaN) all_filters
       = Company_filters (\<lambda>s. NaN)
           [(''minEmployees'', JNum 2), (''maxEmployees'', JNum 9), (''name'', JStr ''net''),
            (''title'', JStr ''1''), (''minSalary'', JNum 50), (''hasEquity'', JBool True)]
   \<and> Job_filters all_filters
       = Job_filters
           [(''minEmployees'', JNum 2), (''maxEmployees'', JNum 9), (''name'', JStr ''net''),
            (''title'', JStr ''1''), (''minSalary'', JNum 50), (''hasEquity'', JBool True)]"
proof -
  note t = findAll_one_predicate_per_requested_key
     [of "\<lambda>s. NaN" all_filters
         "[(''minEmployees'', JNum 2), (''maxEmployees'', JNum 9), (''name'', JStr ''net''),
           (''title'', JStr ''1''), (''minSalary'', JNum 50), (''hasEquity'', JBool True)]"]
  have a: "\<exists>vals exprs. Company_filters (\<lambda>s. NaN) all_filters = Inr (vals, exprs)
       \<and> length exprs = 3 \<and> last exprs = ''name ILIKE $'' @ string_of_nat (length vals)
       \<and> last vals = JStr ''%net%''"
    using t[THEN conjunct1] by (simp add: get_prop_def all_filters_def js_gt_def numeral_3_eq_3)
  have b: "length (snd (Job_filters all_filters)) = 3"
    using t[THEN conjunct2, THEN conjunct1] by (simp add: get_prop_def all_filters_def numeral_3_eq_3)
  have c: "hd (snd (Job_filters all_filters)) = ''title ILIKE $1''
      \<and> hd (fst (Job_filters all_filters)) = JStr ''%1%''"
    using t[THEN conjunct2, THEN conjunct2, THEN conjunct1]
    by (simp add: get_prop_def all_filters_def)
  have d: "Company_filters (\<lambda>s. NaN) all_filters
       = Company_filters (\<lambda>s. NaN)
           [(''minEmployees'', JNum 2), (''maxEmployees'', JNum 9), (''name'', JStr ''net''),
            (''title'', JStr ''1''), (''minSalary'', JNum 50), (''hasEquity'', JBool True)]"
    using t[THEN conjunct2, THEN conjunct2, THEN conjunct2, THEN conjunct1]
    by (simp add: get_prop_def all_filters_def)
  have e: "Job_filters all_filters
       = Job_filters
           [(''minEmployees'', JNum 2), (''maxEmployees'', JNum 9), (''name'', JStr ''net''),
            (''title'', JStr ''1''), (''minSalary'', JNum 50), (''hasEquity'', JBool True)]"
    using t[THEN conjunct2, THEN conjunct2, THEN conjunct2, THEN conjunct2]
    by (simp add: get_prop_def all_filters_def)
  from a b c d e show ?thesis by blast
qed

theorem get_attaches_relation:
  "(find (\<lambda>c. c_handle c = h) (companies db) = Some c \<longrightarrow>
      Company_get db (JStr h) =
        (Inr (JObj (company_row c @
                [(''jobs'', JArr (map (\<lambda>j. JObj (job_fields j))
                                   (filter (\<lambda>j. j_company_handle j = h) (jobs db))))])),
         db\<lparr>issued := issued db @ [(Company_get_sql, [JStr h]), (Company_jobs_sql, [JStr h])]\<rparr>))
   \<and> (find (\<lambda>j. j_id j = i) (jobs db) = Some j \<longrightarrow>
      Job_get db (JNum i) =
        (Inr (JObj (job_fields j @
                [(''company'',
                  (case find (\<lambda>c. c_handle c = j_company_handle j) (companies db) of
                     None \<Rightarrow> JUndefined | Some c \<Rightarrow> JObj (company_row c)))])),
         db\<lparr>issued := issued db @
            [(Job_get_sql, [JNum i]), (Job_company_sql, [JStr (j_company_handle j)])]\<rparr>))
   \<and> map fst (job_fields j) = [''id'', ''title'', ''salary'', ''equity'']
   \<and> map fst (company_row c) = [''handle'', ''name'', ''description'', ''numEmployees'', ''logoUrl'']"
proof (intro conjI impI)
  assume f: "find (\<lambda>c. c_handle c = h) (companies db) = Some c"
  then have "c_handle c = h" by (auto simp: find_Some_iff)
  with f show "Company_get db (JStr h) =
        (Inr (JObj (company_row c @
                [(''jobs'', JArr (map (\<lambda>j. JObj (job_fields j))
                                   (filter (\<lambda>j. j_company_handle j = h) (jobs db))))])),
         db\<lparr>issued := issued db @ [(Company_get_sql, [JStr h]), (Company_jobs_sql, [JStr h])]\<rparr>)"
    by (simp add: Company_get_result)
next
  assume "find (\<lambda>j. j_id j = i) (jobs db) = Some j"
  then show "Job_get db (JNum i) =
        (Inr (JObj (job_fields j @
                [(''company'',
                  (case find (\<lambda>c. c_handle c = j_company_handle j) (companies db) of
                     None \<Rightarrow> JUndefined | Some c \<Rightarrow> JObj (company_row c)))])),
         db\<lparr>issued := issued db @
            [(Job_get_sql, [JNum i]), (Job_company_sql, [JStr (j_company_handle j)])]\<rparr>)"
    by (simp add: Job_get_result)
next
  show "map fst (job_fields j) = [''id'', ''title'', ''salary'', ''equity'']"
    by (simp add: job_fields_def)
  show "map fst (company_row c) = [''handle'', ''name'', ''description'', ''numEmployees'', ''logoUrl'']"
    by (simp add: company_row_def)
qed

theorem Job_create_reads_company_handle:
  "issued (snd (Job_create db data)) =
     issued db @ [(Job_create_sql,
        [get_prop data ''title'', get_prop data ''salary'', get_prop data ''equity'',
         get_prop data ''company_handle''])]
   \<and> (''company_handle'' \<notin> fst ` set data \<longrightarrow>
        issued (snd (Job_create db data)) =
          issued db @ [(Job_create_sql,
            [get_prop data ''title'', get_prop data ''salary'', get_prop data ''equity'', JUndefined])])
   \<and> (\<forall>job db'. Job_create db data = (Inr job, db') \<longrightarrow>
        (\<exists>row. job = JObj row
           \<and> map fst row = [''id'', ''title'', ''salary'', ''equity'', ''companyHandle'']))"
proof (intro conjI impI allI)
  show iss: "issued (snd (Job_create db data)) =
     issued db @ [(Job_create_sql,
        [get_prop data ''title'', get_prop data ''salary'', get_prop data ''equity'',
         get_prop data ''company_handle''])]"
    unfolding Job_create_snd by (rule issued_db_query)
next
  assume "''company_handle'' \<notin> fst ` set data"
  then have u: "get_prop data ''company_handle'' = JUndefined" by (rule get_prop_absent)
  show "issued (snd (Job_create db data)) =
          issued db @ [(Job_create_sql,
            [get_prop data ''title'', get_prop data ''salary'', get_prop data ''equity'', JUndefined])]"
    unfolding Job_create_snd issued_db_query u ..
next
  fix job db'
  assume "Job_create db data = (Inr job, db')"
  then show "\<exists>row. job = JObj row
           \<and> map fst row = [''id'', ''title'', ''salary'', ''equity'', ''companyHandle'']"
    by (rule Job_create_row_names)
qed

theorem Job_create_reads_company_handle_witness:
  "issued (snd (Job_create example_db
     [(''title'', JStr ''myTitle''), (''salary'', JNum 9999), (''equity'', JStr ''0.1''),
      (''companyHandle'', JStr ''c1'')])) =
     [(Job_create_sql, [JStr ''myTitle'', JNum 9999, JStr ''0.1'', JUndefined])]
   \<and> (\<exists>row. JObj [(''id'', JNum 6), (''title'', JStr ''myTitle''), (''salary'', JNum 9999),
               (''equity'', JStr ''0.1''), (''companyHandle'', JStr ''c1'')] = JObj row
           \<and> map fst row = [''id'', ''title'', ''salary'', ''equity'', ''companyHandle''])"
proof -
  note a = Job_create_reads_company_handle [of example_db
     "[(''title'', JStr ''myTitle''), (''salary'', JNum 9999), (''equity'', JStr ''0.1''),
      (''companyHandle'', JStr ''c1'')]"]
  note b = Job_create_reads_company_handle [of example_db
     "[(''title'', JStr ''myTitle''), (''salary'', JNum 9999), (''equity'', JStr ''0.1''),
      (''company_handle'', JStr ''c1'')]"]
  have 1: "issued (snd (Job_create example_db
     [(''title'', JStr ''myTitle''), (''salary'', JNum 9999), (''equity'', JStr ''0.1''),
      (''companyHandle'', JStr ''c1'')])) =
     [(Job_create_sql, [JStr ''myTitle'', JNum 9999, JStr ''0.1'', JUndefined])]"
    using a[THEN conjunct2, THEN conjunct1] by (simp add: get_prop_def example_db_def)
  have 2: "\<exists>row. JObj [(''id'', JNum 6), (''title'', JStr ''myTitle''), (''salary'', JNum 9999),
               (''equity'', JStr ''0.1''), (''companyHandle'', JStr ''c1'')] = JObj row
           \<and> map fst row = [''id'', ''title'', ''salary'', ''equity'', ''companyHandle'']"
    using b[THEN conjunct2, THEN conjunct2, rule_format, OF example_create] .
  from 1 2 show ?thesis by (rule conjI)
qed

theorem update_empty_data_BadRequest:
  "(\<exists>e. is_BadRequest e \<and> Company_update db handle [] = (Inl e, db))
   \<and> (\<exists>e. is_BadRequest e \<and> Job_update db jid [] = (Inl e, db))"
  by (simp add: Company_update_def Job_update_def sqlForPartialUpdate_def)

theorem update_empty_data_BadRequest_witness:
  "(\<exists>e. is_BadRequest e \<and> Company_update example_db (JStr ''nope'') [] = (Inl e, example_db))
   \<and> (\<exists>e. is_BadRequest e \<and> Job_update example_db (JNum 1) [] = (Inl e, example_db))"
  by (rule update_empty_data_BadRequest)

theorem get_attaches_relation_witness:
  "fst (Company_get example_db (JStr ''c1'')) =
     Inr (JObj
       [(''handle'', JStr ''c1''), (''name'', JStr ''C1''), (''description'', JStr ''Desc1''),
        (''numEmployees'', JNum 1), (''logoUrl'', JStr ''http://c1.img''),
        (''jobs'', JArr
           [JObj [(''id'', JNum 1), (''title'', JStr ''t1''), (''salary'', JNum 100), (''equity'', JStr ''0.1'')],
            JObj [(''id'', JNum 4), (''title'', JStr ''t4''), (''salary'', JNum 50), (''equity'', JStr ''0'')],
            JObj [(''id'', JNum 5), (''title'', JStr ''t5''), (''salary'', JNull), (''equity'', JNull)]])])
   \<and> fst (Job_get example_db (JNum 2)) =
     Inr (JObj
       [(''id'', JNum 2), (''title'', JStr ''t2''), (''salary'', JNum 200), (''equity'', JStr ''0.2''),
        (''company'', JObj [(''handle'', JStr ''c2''), (''name'', JStr ''C2''),
                            (''description'', JStr ''Desc2''), (''numEmployees'', JNum 2),
                            (''logoUrl'', JStr ''http://c2.img'')])])"
proof -
  note t = get_attaches_relation [of "''c1''" example_db
     "\<lparr>c_handle = ''c1'', c_name = ''C1'', c_description = ''Desc1'',
           c_num_employees = Some 1, c_logo_url = Some ''http://c1.img''\<rparr>"
     2 "\<lparr>j_id = 2, j_title = ''t2'', j_salary = Some 200, j_equity = Some (Numeric 2 1),
           j_company_handle = ''c2''\<rparr>"]
  have 1: "fst (Company_get example_db (JStr ''c1'')) = Inr (JObj
       [(''handle'', JStr ''c1''), (''name'', JStr ''C1''), (''description'', JStr ''Desc1''),
        (''numEmployees'', JNum 1), (''logoUrl'', JStr ''http://c1.img''),
        (''jobs'', JArr
           [JObj [(''id'', JNum 1), (''title'', JStr ''t1''), (''salary'', JNum 100), (''equity'', JStr ''0.1'')],
            JObj [(''id'', JNum 4), (''title'', JStr ''t4''), (''salary'', JNum 50), (''equity'', JStr ''0'')],
            JObj [(''id'', JNum 5), (''title'', JStr ''t5''), (''salary'', JNull), (''equity'', JNull)]])])"
    using t[THEN conjunct1, rule_format, OF example_company_c1]
    by (simp only: fst_conv example_company_with_jobs)
  have 2: "fst (Job_get example_db (JNum 2)) = Inr (JObj
       [(''id'', JNum 2), (''title'', JStr ''t2''), (''salary'', JNum 200), (''equity'', JStr ''0.2''),
        (''company'', JObj [(''handle'', JStr ''c2''), (''name'', JStr ''C2''),
                            (''description'', JStr ''Desc2''), (''numEmployees'', JNum 2),
                            (''logoUrl'', JStr ''http://c2.img'')])])"
    using t[THEN conjunct2, THEN conjunct1, rule_format, OF example_job_2]
    by (simp add: example_job_fields[unfolded One_nat_def] example_company_c2 company_row_def)
  from 1 2 show ?thesis by (rule conjI)
qed

end
